theory Spec2Isabelle
  imports Complex_Main "HOL-Library.Word"
begin

unbundle bit_operations_syntax

section \<open>Data model of game.py\<close>

text \<open>
  Python integers are unbounded: \<open>int\<close>. A \<open>bytes\<close> object is a list of 8-bit words.
  Python's \<open>//\<close> and \<open>%\<close> round towards minus infinity, as \<open>div\<close> and \<open>mod\<close> on
  \<open>int\<close> do; division by zero raises \<open>ZeroDivisionError\<close> in Python and is written
  out as a branch wherever the source divides.
\<close>

type_synonym bytes = "8 word list"

datatype error =
    ValueError string
  | ZeroDivisionError
  | EOFError
  | SystemExit int
  | OverflowError

subsection \<open>The standard library's generator\<close>

text \<open>
  \<open>random.randbytes\<close> is served by the process-wide Mersenne Twister of module
  \<open>random\<close>. That generator is deterministic: its state fixes the sequence of 32-bit
  outputs still to come, and the model takes this sequence for the state, so that
  \<open>genrand_uint32\<close> hands out its head. \<open>getrandbits\<close> follows CPython: an argument
  outside the C \<open>int\<close> range raises \<open>OverflowError\<close>, a negative one \<open>ValueError\<close>; up
  to 32 bits are the top bits of one output, more bits are filled word by word from the
  least significant, the last word shortened to the bits still missing.
  \<open>randbytes n\<close> is \<open>getrandbits(n * 8).to_bytes(n, 'little')\<close>.
\<close>

type_synonym mt19937 = "nat \<Rightarrow> 32 word"

definition genrand_uint32 :: "mt19937 \<Rightarrow> 32 word \<times> mt19937" where
  "genrand_uint32 g = (g 0, \<lambda>n. g (Suc n))"

fun getrandbits_words :: "nat \<Rightarrow> int \<Rightarrow> mt19937 \<Rightarrow> int \<times> mt19937" where
  "getrandbits_words 0 k g = (0, g)"
| "getrandbits_words (Suc words) k g =
     (let (r, g') = genrand_uint32 g;
          r = (if k < 32 then drop_bit (nat (32 - k)) r else r);
          (high, g'') = getrandbits_words words (k - 32) g'
      in (uint r + 2 ^ 32 * high, g''))"

definition getrandbits :: "int \<Rightarrow> mt19937 \<Rightarrow> error + (int \<times> mt19937)" where
  "getrandbits k g =
     (if k < - (2 ^ 31) \<or> 2 ^ 31 \<le> k then Inl OverflowError
      else if k < 0 then Inl (ValueError ''number of bits must be non-negative'')
      else if k = 0 then Inr (0, g)
      else if k \<le> 32 then
        (let (r, g') = genrand_uint32 g in Inr (uint (drop_bit (nat (32 - k)) r), g'))
      else Inr (getrandbits_words (nat ((k - 1) div 32 + 1)) k g))"

definition to_bytes_little :: "int \<Rightarrow> int \<Rightarrow> error + bytes" where
  "to_bytes_little x n =
     (if n < 0 then Inl (ValueError ''length argument must be non-negative'')
      else if x < 0 then Inl OverflowError
      else if 256 ^ nat n \<le> x then Inl OverflowError
      else Inr (map (\<lambda>i. word_of_int (x div 256 ^ i)) [0..<nat n]))"

text \<open>\<open>int.from_bytes(bs, 'big')\<close>.\<close>

definition from_bytes_big :: "bytes \<Rightarrow> int" where
  "from_bytes_big bs = fold (\<lambda>b acc. acc * 256 + uint b) bs 0"

definition randbytes :: "int \<Rightarrow> mt19937 \<Rightarrow> error + (bytes \<times> mt19937)" where
  "randbytes n g =
     (case getrandbits (n * 8) g of
        Inl e \<Rightarrow> Inl e
      | Inr (x, g') \<Rightarrow>
          (case to_bytes_little x n of Inl e \<Rightarrow> Inl e | Inr bs \<Rightarrow> Inr (bs, g')))"

subsection \<open>The standard library's hash and MAC\<close>

text \<open>
  \<open>hashlib.sha3_256\<close> is SHA3-256 of FIPS 202: the Keccak-f[1600] permutation on 25
  lanes of 64 bits (lane \<open>(x, y)\<close> at index \<open>x + 5 * y\<close>), a sponge of rate 136 bytes with
  the padding \<open>06 00 .. 00 80\<close>, and the first 32 bytes of the final state as digest.
  \<open>hmac.new(key, msg, hashlib.sha3_256)\<close> follows \<open>hmac.py\<close>: a key longer than the
  block size (136) is hashed first, the key is filled with zero bytes to the block
  size, the inner hash takes the key translated by \<open>0x36\<close> and then the message, the
  outer hash the key translated by \<open>0x5C\<close> and then the inner digest.
  \<open>hexdigest\<close> writes two lowercase hexadecimal digits per byte. \<open>str\<close> of an integer
  is its decimal numeral, with a leading minus sign when negative; CPython refuses the
  conversion with \<open>ValueError\<close> when the numeral would have more than 4300 digits (the
  default of \<open>sys.set_int_max_str_digits\<close>). \<open>encode\<close> of such a string gives its ASCII
  codes.
\<close>

type_synonym keccak_state = "64 word list"

definition keccak_round_constants :: "64 word list" where
  "keccak_round_constants =
     [0x0000000000000001, 0x0000000000008082, 0x800000000000808A, 0x8000000080008000,
      0x000000000000808B, 0x0000000080000001, 0x8000000080008081, 0x8000000000008009,
      0x000000000000008A, 0x0000000000000088, 0x0000000080008009, 0x000000008000000A,
      0x000000008000808B, 0x800000000000008B, 0x8000000000008089, 0x8000000000008003,
      0x8000000000008002, 0x8000000000000080, 0x000000000000800A, 0x800000008000000A,
      0x8000000080008081, 0x8000000000008080, 0x0000000080000001, 0x8000000080008008]"

definition keccak_rotation_offsets :: "nat list" where
  "keccak_rotation_offsets =
     [0, 1, 62, 28, 27,  36, 44, 6, 55, 20,  3, 10, 43, 25, 39,
      41, 45, 15, 21, 8,  18, 2, 61, 56, 14]"

definition keccak_theta :: "keccak_state \<Rightarrow> keccak_state" where
  "keccak_theta a =
     (let c = map (\<lambda>x. a ! x XOR a ! (x + 5) XOR a ! (x + 10) XOR a ! (x + 15) XOR a ! (x + 20))
                [0..<5];
          d = map (\<lambda>x. c ! ((x + 4) mod 5) XOR word_rotl 1 (c ! ((x + 1) mod 5))) [0..<5]
      in map (\<lambda>i. a ! i XOR d ! (i mod 5)) [0..<25])"

definition keccak_rho_pi :: "keccak_state \<Rightarrow> keccak_state" where
  "keccak_rho_pi a =
     map (\<lambda>j. let x = (j mod 5 + 3 * (j div 5)) mod 5; y = j mod 5
               in word_rotl (keccak_rotation_offsets ! (x + 5 * y)) (a ! (x + 5 * y)))
       [0..<25]"

definition keccak_chi :: "keccak_state \<Rightarrow> keccak_state" where
  "keccak_chi b =
     map (\<lambda>i. let x = i mod 5; y = i div 5
               in b ! i XOR (NOT (b ! ((x + 1) mod 5 + 5 * y)) AND b ! ((x + 2) mod 5 + 5 * y)))
       [0..<25]"

definition keccak_iota :: "64 word \<Rightarrow> keccak_state \<Rightarrow> keccak_state" where
  "keccak_iota rc a = a[0 := a ! 0 XOR rc]"

definition keccak_round :: "64 word \<Rightarrow> keccak_state \<Rightarrow> keccak_state" where
  "keccak_round rc a = keccak_iota rc (keccak_chi (keccak_rho_pi (keccak_theta a)))"

definition keccak_f1600 :: "keccak_state \<Rightarrow> keccak_state" where
  "keccak_f1600 a = fold keccak_round keccak_round_constants a"

definition lane_of_bytes :: "bytes \<Rightarrow> 64 word" where
  "lane_of_bytes bs = foldr (\<lambda>b w. ucast b OR push_bit 8 w) bs 0"

definition bytes_of_lane :: "64 word \<Rightarrow> bytes" where
  "bytes_of_lane w = map (\<lambda>i. ucast (drop_bit (8 * i) w)) [0..<8]"

definition sha3_256_rate :: nat where
  "sha3_256_rate = 136"

definition sha3_pad :: "bytes \<Rightarrow> bytes" where
  "sha3_pad m =
     (let q = sha3_256_rate - length m mod sha3_256_rate
      in if q = 1 then m @ [0x86]
         else m @ [0x06] @ replicate (q - 2) 0 @ [0x80])"

definition keccak_absorb :: "bytes \<Rightarrow> keccak_state \<Rightarrow> keccak_state" where
  "keccak_absorb block a =
     keccak_f1600
       (map (\<lambda>i. if i < sha3_256_rate div 8
                  then a ! i XOR lane_of_bytes (take 8 (drop (8 * i) block))
                  else a ! i)
          [0..<25])"

definition sha3_256 :: "bytes \<Rightarrow> bytes" where
  "sha3_256 m =
     (let p = sha3_pad m;
          blocks = map (\<lambda>i. take sha3_256_rate (drop (sha3_256_rate * i) p))
                     [0..<length p div sha3_256_rate];
          a = fold keccak_absorb blocks (replicate 25 0)
      in take 32 (concat (map bytes_of_lane a)))"

definition hex_digit :: "nat \<Rightarrow> char" where
  "hex_digit d = ''0123456789abcdef'' ! d"

definition hex :: "bytes \<Rightarrow> string" where
  "hex bs = concat (map (\<lambda>b. [hex_digit (unat b div 16), hex_digit (unat b mod 16)]) bs)"

definition hmac_digest :: "bytes \<Rightarrow> bytes \<Rightarrow> bytes" where
  "hmac_digest key msg =
     (let blocksize = sha3_256_rate;
          key = (if length key > blocksize then sha3_256 key else key);
          key = key @ replicate (blocksize - length key) 0;
          inner = sha3_256 (map (\<lambda>b. b XOR 0x36) key @ msg);
          outer = sha3_256 (map (\<lambda>b. b XOR 0x5C) key @ inner)
      in outer)"

fun str_nat :: "nat \<Rightarrow> string" where
  "str_nat n =
     (if n < 10 then [char_of (48 + n)]
      else str_nat (n div 10) @ [char_of (48 + n mod 10)])"

declare str_nat.simps [simp del]

definition str_int :: "int \<Rightarrow> error + string" where
  "str_int i =
     (if 10 ^ 4300 \<le> \<bar>i\<bar>
      then Inl (ValueError (''Exceeds the limit (4300 digits) for integer string conversion; ''
                  @ ''use sys.set_int_max_str_digits() to increase the limit''))
      else Inr (if i < 0 then CHR ''-'' # str_nat (nat (- i)) else str_nat (nat i)))"

definition encode :: "string \<Rightarrow> bytes" where
  "encode s = map of_char s"

definition hmac_hexdigest :: "bytes \<Rightarrow> bytes \<Rightarrow> string" where
  "hmac_hexdigest key msg = hex (hmac_digest key msg)"

subsection \<open>Strings and the console\<close>

text \<open>
  A \<open>str\<close> is a list of characters with code points below 256. \<open>isspace\<close>, \<open>strip\<close>
  and \<open>lower\<close> are the string methods on that range. \<open>int_of_str\<close> is \<open>int(s)\<close>: blanks
  around the numeral are dropped (\<open>int\<close> does not count the separators 28 to 31 as
  blanks), a sign may lead, and the digits may be grouped by single underscores.
  \<open>int\<close> is applied by the program to one-digit strings only; its limit on the number
  of digits of the string (4300 by default) is not modelled.
\<close>

definition isspace :: "char \<Rightarrow> bool" where
  "isspace c = (of_char c \<in> {9, 10, 11, 12, 13, 28, 29, 30, 31, 32, 133, 160 :: nat})"

definition strip :: "string \<Rightarrow> string" where
  "strip s = rev (dropWhile isspace (rev (dropWhile isspace s)))"

definition lower :: "string \<Rightarrow> string" where
  "lower s =
     map (\<lambda>c. let n = of_char c :: nat
              in if (65 \<le> n \<and> n \<le> 90) \<or> (192 \<le> n \<and> n \<le> 222 \<and> n \<noteq> 215)
                 then char_of (n + 32) else c) s"

definition int_of_str :: "string \<Rightarrow> error + int" where
  "int_of_str s =
     (let blank = (\<lambda>c. of_char c \<in> {9, 10, 11, 12, 13, 32, 133, 160 :: nat});
          t = rev (dropWhile blank (rev (dropWhile blank s)));
          negative = (t \<noteq> [] \<and> hd t = CHR ''-'');
          body = (if t \<noteq> [] \<and> (hd t = CHR ''-'' \<or> hd t = CHR ''+'') then tl t else t);
          digit = (\<lambda>c. c \<in> set ''0123456789'')
      in if body \<noteq> [] \<and> digit (hd body) \<and> digit (last body)
            \<and> (\<forall>c\<in>set body. digit c \<or> c = CHR ''_'')
            \<and> (\<forall>i<length body - 1. \<not> (body ! i = CHR ''_'' \<and> body ! Suc i = CHR ''_''))
         then Inr ((if negative then - 1 else 1)
                   * int (fold (\<lambda>d acc. 10 * acc + (of_char d - 48))
                            (filter (\<lambda>c. c \<noteq> CHR ''_'') body) 0))
         else Inl (ValueError ''invalid literal for int() with base 10''))"

subsection \<open>class Dice\<close>

record Dice =
  faces :: "int list"

definition Dice_init :: "int list \<Rightarrow> error + Dice" where
  "Dice_init fs =
     (if length fs \<noteq> 6 then Inl (ValueError ''Each dice must have exactly 6 faces.'')
      else Inr \<lparr>faces = fs\<rparr>)"

subsection \<open>class RandomGenerator\<close>

text \<open>
  The loop of \<open>generate_random_int\<close> has no bound: it is a partial function, \<open>None\<close>
  standing for a run that never returns. The candidate is drawn before the limit is
  computed, so a modulus of 0 raises after one draw.
\<close>

definition generate_secure_random :: "int \<Rightarrow> mt19937 \<Rightarrow> error + (bytes \<times> mt19937)" where
  "generate_secure_random bits g = randbytes (bits div 8) g"

partial_function (option)
  generate_random_int :: "int \<Rightarrow> mt19937 \<Rightarrow> (error + (int \<times> mt19937)) option"
where
  "generate_random_int rmax g =
     (case generate_secure_random 256 g of
        Inl e \<Rightarrow> Some (Inl e)
      | Inr (bs, g') \<Rightarrow>
          (let rand = from_bytes_big bs
           in if rmax = 0 then Some (Inl ZeroDivisionError)
              else if rand < (2 ^ 256 div rmax) * rmax then Some (Inr (rand mod rmax, g'))
              else generate_random_int rmax g'))"

definition calculate_hmac :: "bytes \<Rightarrow> int \<Rightarrow> error + string" where
  "calculate_hmac key message =
     (case str_int message of
        Inl e \<Rightarrow> Inl e
      | Inr s \<Rightarrow> Inr (hmac_hexdigest key (encode s)))"

text \<open>The names the class defines.\<close>

definition RandomGenerator_methods :: "string list" where
  "RandomGenerator_methods =
     [''generate_secure_random'', ''generate_random_int'', ''calculate_hmac'']"

text \<open>
  Two notions for speaking about the loop: \<open>drawn g k\<close> is the generator after \<open>k\<close>
  calls of \<open>generate_secure_random(256)\<close>, and \<open>candidate g k\<close> is the integer \<open>rand\<close>
  that the next call gives, the candidate of iteration \<open>k\<close> (counted from 0).
\<close>

primrec drawn :: "mt19937 \<Rightarrow> nat \<Rightarrow> mt19937" where
  "drawn g 0 = g"
| "drawn g (Suc k) = snd (projr (generate_secure_random 256 (drawn g k)))"

definition candidate :: "mt19937 \<Rightarrow> nat \<Rightarrow> int" where
  "candidate g k = from_bytes_big (fst (projr (generate_secure_random 256 (drawn g k))))"

subsection \<open>class FairPlay\<close>

record FairPlay =
  range_max :: int
  secret_key :: bytes
  computer_number :: int
  hmac :: string

text \<open>
  The constructor draws the key, then the number, then computes the digest; it fails
  where they fail and does not return where \<open>generate_random_int\<close> does not.
\<close>

definition FairPlay_init :: "int \<Rightarrow> mt19937 \<Rightarrow> (error + (FairPlay \<times> mt19937)) option" where
  "FairPlay_init rmax g =
     (case generate_secure_random 256 g of
        Inl e \<Rightarrow> Some (Inl e)
      | Inr (key, g') \<Rightarrow>
          (case generate_random_int rmax g' of
             None \<Rightarrow> None
           | Some (Inl e) \<Rightarrow> Some (Inl e)
           | Some (Inr (number, g'')) \<Rightarrow>
               (case calculate_hmac key number of
                  Inl e \<Rightarrow> Some (Inl e)
                | Inr digest \<Rightarrow>
                    Some (Inr (\<lparr>range_max = rmax, secret_key = key,
                                computer_number = number, hmac = digest\<rparr>, g'')))))"

definition verify_and_get_result :: "FairPlay \<Rightarrow> int \<Rightarrow> error + (int \<times> bytes)" where
  "verify_and_get_result self user_number =
     (if range_max self = 0 then Inl ZeroDivisionError
      else Inr ((computer_number self + user_number) mod range_max self, secret_key self))"

text \<open>The names the class defines.\<close>

definition FairPlay_methods :: "string list" where
  "FairPlay_methods = [''__init__'', ''verify_and_get_result'']"

subsection \<open>The commitment as the specification words it\<close>

text \<open>
  For comparison with \<open>calculate_hmac\<close>: the HMAC construction over a hash \<open>H\<close> with
  block size \<open>B\<close>, \<open>H((K0 xor opad) || H((K0 xor ipad) || text))\<close> with \<open>K0\<close> the key
  brought to \<open>B\<close> bytes; and the value of a decimal numeral.
\<close>

definition hmac_construction :: "(bytes \<Rightarrow> bytes) \<Rightarrow> nat \<Rightarrow> bytes \<Rightarrow> bytes \<Rightarrow> bytes" where
  "hmac_construction H B K text =
     (let K0 = (if length K > B then H K else K);
          K0 = K0 @ replicate (B - length K0) 0;
          ipad = replicate B 0x36;
          opad = replicate B 0x5C
      in H (map2 (XOR) K0 opad @ H (map2 (XOR) K0 ipad @ text)))"

definition decimal_value :: "string \<Rightarrow> int" where
  "decimal_value s =
     (case s of
        c # ds \<Rightarrow>
          if c = CHR ''-'' then - int (fold (\<lambda>d acc. 10 * acc + (of_char d - 48)) ds 0)
          else int (fold (\<lambda>d acc. 10 * acc + (of_char d - 48)) s 0)
      | [] \<Rightarrow> 0)"

subsection \<open>class ProbabilityCalculator\<close>

text \<open>
  \<open>win_count\<close> is the counter of the two innermost loops. Python's \<open>win_count / 36\<close>
  is true division of two integers, whose float result is the double nearest to the
  exact quotient; the model keeps the exact quotient as a rational. The table starts
  as \<open>n\<close> separate rows of \<open>n\<close> zeros and is updated in place at \<open>[i][j]\<close>; all
  indices come from \<open>range(n)\<close>, so no access is out of range.
\<close>

definition win_count :: "int list \<Rightarrow> int list \<Rightarrow> int" where
  "win_count faces_i faces_j =
     fold (\<lambda>face_i wc.
        fold (\<lambda>face_j wc. if face_i > face_j then wc + 1 else wc) faces_j wc)
       faces_i 0"

definition calculate_win_probabilities :: "Dice list \<Rightarrow> rat list list" where
  "calculate_win_probabilities dice_list =
     (let n = length dice_list;
          probabilities = replicate n (replicate n 0)
      in fold (\<lambda>i ps.
           fold (\<lambda>j ps.
              if i \<noteq> j
              then ps[i := (ps ! i)[j := of_int (win_count (faces (dice_list ! i))
                                                        (faces (dice_list ! j))) / 36]]
              else ps)
             [0..<n] ps)
          [0..<n] probabilities)"

subsection \<open>class DiceGame\<close>

text \<open>
  Standard input is the list of lines still to be read: \<open>input()\<close> takes the head and
  raises \<open>EOFError\<close> on the empty list; \<open>sys.exit(n)\<close> is the error \<open>SystemExit n\<close>. What is
  printed is not modelled; \<open>CLI.display_help\<close> only prints. \<open>get_throw_prompt\<close> is the
  \<open>while True\<close> loop of \<open>get_throw\<close>, which ends with the list of lines at the latest.
  \<open>get_throw_round\<close> is \<open>get_throw\<close> from the construction of the round to the
  computed \<open>result\<close> (the throw drawn afterwards by \<open>random.choice\<close> is left out), and
  \<open>start_game_first_move\<close> is \<open>start_game\<close> up to the assignment of
  \<open>user_turn_first\<close>, before \<open>play_game\<close>.
\<close>

fun get_throw_prompt :: "string list \<Rightarrow> error + (string \<times> string list)" where
  "get_throw_prompt [] = Inl EOFError"
| "get_throw_prompt (line # stdin) =
     (let user_input = lower (strip line)
      in if user_input = ''x'' then Inl (SystemExit 0)
         else if user_input = ''?'' then get_throw_prompt stdin
         else if user_input \<in> set [''0'', ''1'', ''2'', ''3'', ''4'', ''5'']
           then Inr (user_input, stdin)
         else get_throw_prompt stdin)"

definition get_throw_round ::
  "mt19937 \<Rightarrow> string list \<Rightarrow> (error + (int \<times> FairPlay \<times> mt19937 \<times> string list)) option" where
  "get_throw_round g stdin =
     (case FairPlay_init 6 g of
        None \<Rightarrow> None
      | Some (Inl e) \<Rightarrow> Some (Inl e)
      | Some (Inr (fair_play, g')) \<Rightarrow>
          (case get_throw_prompt stdin of
             Inl e \<Rightarrow> Some (Inl e)
           | Inr (user_input, stdin') \<Rightarrow>
               (case int_of_str user_input of
                  Inl e \<Rightarrow> Some (Inl e)
                | Inr user_number \<Rightarrow>
                    (let computer_number = computer_number fair_play;
                         result = (user_number + computer_number) mod 6
                     in Some (Inr (result, fair_play, g', stdin'))))))"

definition start_game_first_move ::
  "mt19937 \<Rightarrow> string list \<Rightarrow> (error + (bool \<times> FairPlay \<times> mt19937 \<times> string list)) option" where
  "start_game_first_move g stdin =
     (case FairPlay_init 2 g of
        None \<Rightarrow> None
      | Some (Inl e) \<Rightarrow> Some (Inl e)
      | Some (Inr (fair_play, g')) \<Rightarrow>
          (case stdin of
             [] \<Rightarrow> Some (Inl EOFError)
           | user_input # stdin' \<Rightarrow>
               if user_input \<notin> set [''0'', ''1''] then Some (Inl (SystemExit 1))
               else (case int_of_str user_input of
                       Inl e \<Rightarrow> Some (Inl e)
                     | Inr user_number \<Rightarrow>
                         (case verify_and_get_result fair_play user_number of
                            Inl e \<Rightarrow> Some (Inl e)
                          | Inr (result, key) \<Rightarrow>
                              Some (Inr (result = 0, fair_play, g', stdin'))))))"

section \<open>Dice construction\<close>

text \<open>
  C8: constructing a die from a sequence whose length is not 6 fails (the source raises
  \<open>ValueError\<close>, the spec's InvalidDieSpec), in particular for \<open>[1,2,3,4,5]\<close>;
  constructing one from exactly 6 integers succeeds and stores the faces unchanged.
\<close>

theorem Dice_init_six_faces:
  "(length fs \<noteq> 6 \<longrightarrow> Dice_init fs = Inl (ValueError ''Each dice must have exactly 6 faces.''))
   \<and> (length fs = 6 \<longrightarrow> Dice_init fs = Inr \<lparr>faces = fs\<rparr>)
   \<and> Dice_init [1, 2, 3, 4, 5] = Inl (ValueError ''Each dice must have exactly 6 faces.'')"
  by (simp add: Dice_init_def)

theorem Dice_init_six_faces_witness:
  "length [2, 2, 4, 4, 9, 9 :: int] = 6
   \<and> Dice_init [2, 2, 4, 4, 9, 9] = Inr \<lparr>faces = [2, 2, 4, 4, 9, 9]\<rparr>
   \<and> length [1, 2, 3, 4, 5, 6, 7 :: int] \<noteq> 6
   \<and> Dice_init [1, 2, 3, 4, 5, 6, 7] = Inl (ValueError ''Each dice must have exactly 6 faces.'')"
  using Dice_init_six_faces [of "[2, 2, 4, 4, 9, 9]"] Dice_init_six_faces [of "[1, 2, 3, 4, 5, 6, 7]"]
  by simp

section \<open>The combine step\<close>

text \<open>
  C1: for every round (the modulus of a constructed round is never 0, since the
  constructor divides by it) and every contribution, \<open>verify_and_get_result\<close> returns the
  pair of \<open>(computer_number + contribution) mod range_max\<close> and the secret key; with
  modulus 6, committed value 4 and contribution 3 the result is 1.
\<close>

theorem verify_and_get_result_combine:
  "(range_max self \<noteq> 0 \<longrightarrow>
      verify_and_get_result self contribution =
        Inr ((computer_number self + contribution) mod range_max self, secret_key self))
   \<and> verify_and_get_result \<lparr>range_max = 6, secret_key = k, computer_number = 4, hmac = h\<rparr> 3
        = Inr (1, k)"
  by (simp add: verify_and_get_result_def)

theorem verify_and_get_result_combine_witness:
  "range_max \<lparr>range_max = 2, secret_key = [], computer_number = 1, hmac = []\<rparr> \<noteq> 0
   \<and> verify_and_get_result \<lparr>range_max = 2, secret_key = [], computer_number = 1, hmac = []\<rparr> 0
        = Inr (1, [])"
  using verify_and_get_result_combine
    [of "\<lparr>range_max = 2, secret_key = [], computer_number = 1, hmac = []\<rparr>" 0]
  by simp

text \<open>
  C10: with a positive modulus \<open>verify_and_get_result\<close> raises for no integer
  contribution, negative or beyond the modulus included, and the integer it returns
  lies in \<open>[0, range_max)\<close>.
\<close>

theorem verify_and_get_result_total:
  "0 < range_max self \<Longrightarrow>
     \<exists>r. verify_and_get_result self user_number = Inr (r, secret_key self)
        \<and> 0 \<le> r \<and> r < range_max self"
  by (simp add: verify_and_get_result_def)

theorem verify_and_get_result_total_witness:
  "0 < range_max \<lparr>range_max = 6, secret_key = [], computer_number = 4, hmac = []\<rparr>
   \<and> (\<exists>r. verify_and_get_result
            \<lparr>range_max = 6, secret_key = [], computer_number = 4, hmac = []\<rparr> (- 11)
          = Inr (r, []) \<and> 0 \<le> r \<and> r < 6)"
  using verify_and_get_result_total
    [of "\<lparr>range_max = 6, secret_key = [], computer_number = 4, hmac = []\<rparr>" "- 11"]
  by simp

lemma combine_inverse:
  fixes R c v :: int
  assumes "0 < R"
  shows "((v + c) mod R - c) mod R = v mod R" "((v - c) mod R + c) mod R = v mod R"
  by (simp_all add: mod_diff_left_eq mod_add_left_eq)

text \<open>
  C2: for a positive modulus \<open>R\<close> and any fixed contribution \<open>c\<close> (in particular one in
  \<open>[0, R)\<close>), the map from the committed value to the integer returned by
  \<open>verify_and_get_result\<close> is a bijection on \<open>[0, R)\<close>, and every result \<open>r\<close> in
  \<open>[0, R)\<close> comes from exactly one committed value in \<open>[0, R)\<close>: a uniformly
  distributed committed value gives a uniformly distributed result, whatever the
  contribution.
\<close>

theorem combine_bijection:
  assumes "0 < R" and "range_max self = R"
  shows "bij_betw (\<lambda>v. fst (projr (verify_and_get_result (self\<lparr>computer_number := v\<rparr>) c)))
           {0..<R} {0..<R}
       \<and> (\<forall>r\<in>{0..<R}. card {v \<in> {0..<R}.
              verify_and_get_result (self\<lparr>computer_number := v\<rparr>) c = Inr (r, secret_key self)} = 1)"
proof -
  let ?f = "\<lambda>v. fst (projr (verify_and_get_result (self\<lparr>computer_number := v\<rparr>) c))"
  have f: "?f v = (v + c) mod R" for v
    using assms by (simp add: verify_and_get_result_def)
  have "bij_betw (\<lambda>v. (v + c) mod R) {0..<R} {0..<R}"
  proof (rule bij_betw_byWitness [where f' = "\<lambda>r. (r - c) mod R"])
    show "\<forall>a\<in>{0..<R}. ((a + c) mod R - c) mod R = a"
      using assms(1) by (simp add: combine_inverse)
    show "\<forall>a'\<in>{0..<R}. ((a' - c) mod R + c) mod R = a'"
      using assms(1) by (simp add: combine_inverse)
    show "(\<lambda>v. (v + c) mod R) ` {0..<R} \<subseteq> {0..<R}"
      using assms(1) by auto
    show "(\<lambda>r. (r - c) mod R) ` {0..<R} \<subseteq> {0..<R}"
      using assms(1) by auto
  qed
  then have bij: "bij_betw ?f {0..<R} {0..<R}"
    by (simp add: f)
  have "card {v \<in> {0..<R}. verify_and_get_result (self\<lparr>computer_number := v\<rparr>) c
            = Inr (r, secret_key self)} = 1" if r: "r \<in> {0..<R}" for r
  proof -
    have "{v \<in> {0..<R}. verify_and_get_result (self\<lparr>computer_number := v\<rparr>) c
            = Inr (r, secret_key self)} = {v \<in> {0..<R}. (v + c) mod R = r}"
      using assms by (auto simp: verify_and_get_result_def)
    also have "\<dots> = {(r - c) mod R}"
    proof (rule set_eqI, rule iffI)
      fix v assume "v \<in> {v \<in> {0..<R}. (v + c) mod R = r}"
      then have "v \<in> {0..<R}" "(v + c) mod R = r" by auto
      then have "(r - c) mod R = v mod R"
        using combine_inverse(1) [OF assms(1), of v c] by simp
      with \<open>v \<in> {0..<R}\<close> show "v \<in> {(r - c) mod R}" by simp
    next
      fix v assume "v \<in> {(r - c) mod R}"
      then have v: "v = (r - c) mod R" by simp
      have "(v + c) mod R = r mod R"
        unfolding v using combine_inverse(2) [OF assms(1), of r c] .
      with r assms(1) v show "v \<in> {v \<in> {0..<R}. (v + c) mod R = r}" by simp
    qed
    finally show ?thesis by simp
  qed
  with bij show ?thesis by blast
qed

theorem combine_bijection_witness:
  "(0::int) < 6
   \<and> range_max \<lparr>range_max = 6, secret_key = [], computer_number = 0, hmac = []\<rparr> = 6
   \<and> bij_betw (\<lambda>v. fst (projr (verify_and_get_result
          (\<lparr>range_max = 6, secret_key = [], computer_number = 0, hmac = []\<rparr>\<lparr>computer_number := v\<rparr>) 5)))
        {0..<6} {0..<6}"
  using combine_bijection [of 6 "\<lparr>range_max = 6, secret_key = [], computer_number = 0, hmac = []\<rparr>" 5]
  by simp


section \<open>Pairwise win probabilities\<close>

lemma inner_count_fold:
  "fold (\<lambda>face_j wc. if (x::int) > face_j then wc + 1 else wc) ys (wc::int)
     = wc + int (length (filter (\<lambda>y. x > y) ys))"
  by (induction ys arbitrary: wc) auto

lemma outer_count_fold:
  "fold (\<lambda>face_i wc. fold (\<lambda>face_j wc. if face_i > face_j then wc + 1 else wc) ys wc) xs (wc::int)
     = wc + int (\<Sum>x\<leftarrow>xs. length (filter (\<lambda>y. (x::int) > y) ys))"
  by (induction xs arbitrary: wc) (auto simp: inner_count_fold)

lemma win_count_sum:
  "win_count xs ys = int (\<Sum>x\<leftarrow>xs. length (filter (\<lambda>y. x > y) ys))"
  by (simp add: win_count_def outer_count_fold)

lemma win_count_card:
  "win_count xs ys
     = int (card {(a, b). a < length xs \<and> b < length ys \<and> xs ! a > ys ! b})"
proof -
  have "(\<Sum>x\<leftarrow>xs. length (filter (\<lambda>y. x > y) ys))
          = (\<Sum>a<length xs. card {b. b < length ys \<and> xs ! a > ys ! b})"
    by (simp add: sum_list_sum_nth length_filter_conv_card atLeast0LessThan)
  also have "\<dots> = card (SIGMA a:{..<length xs}. {b. b < length ys \<and> xs ! a > ys ! b})"
    by (subst card_SigmaI) auto
  also have "(SIGMA a:{..<length xs}. {b. b < length ys \<and> xs ! a > ys ! b})
               = {(a, b). a < length xs \<and> b < length ys \<and> xs ! a > ys ! b}"
    by auto
  finally show ?thesis by (simp add: win_count_sum)
qed

lemma row_fold_length:
  "length (fold (\<lambda>j row. if i \<noteq> j then row[j := v j] else row) js row) = length row"
  by (induction js arbitrary: row) auto

lemma row_fold_nth:
  "k < length row \<Longrightarrow>
   fold (\<lambda>j row. if i \<noteq> j then row[j := v j] else row) js row ! k
     = (if k \<in> set js \<and> k \<noteq> i then v k else row ! k)"
proof (induction js arbitrary: row)
  case Nil
  then show ?case by simp
next
  case (Cons j js)
  then show ?case by (auto simp: nth_list_update)
qed

lemma table_fold_row:
  "i < length ps \<Longrightarrow>
   fold (\<lambda>j ps. if i \<noteq> j then ps[i := (ps ! i)[j := v j]] else ps) js ps
     = ps[i := fold (\<lambda>j row. if i \<noteq> j then row[j := v j] else row) js (ps ! i)]"
proof (induction js arbitrary: ps)
  case Nil
  then show ?case by simp
next
  case (Cons j js)
  then show ?case by (cases "i = j") simp_all
qed

lemma table_fold_length:
  "\<forall>i\<in>set is. i < length ps \<Longrightarrow>
   length (fold (\<lambda>i ps. fold (\<lambda>j ps. if i \<noteq> j then ps[i := (ps ! i)[j := v i j]] else ps) js ps) is ps)
     = length ps"
proof (induction "is" arbitrary: ps)
  case Nil
  then show ?case by simp
next
  case (Cons i "is")
  then show ?case by (simp add: table_fold_row)
qed

lemma table_fold_nth:
  "\<forall>i\<in>set is. i < length ps \<Longrightarrow> distinct is \<Longrightarrow> k < length ps \<Longrightarrow>
   fold (\<lambda>i ps. fold (\<lambda>j ps. if i \<noteq> j then ps[i := (ps ! i)[j := v i j]] else ps) js ps) is ps ! k
     = (if k \<in> set is
        then fold (\<lambda>j row. if k \<noteq> j then row[j := v k j] else row) js (ps ! k)
        else ps ! k)"
proof (induction "is" arbitrary: ps)
  case Nil
  then show ?case by simp
next
  case (Cons i "is")
  then show ?case by (auto simp: table_fold_row nth_list_update)
qed

lemma calculate_win_probabilities_length:
  "length (calculate_win_probabilities dice_list) = length dice_list"
  by (simp add: calculate_win_probabilities_def Let_def table_fold_length)

lemma calculate_win_probabilities_row:
  "i < length dice_list \<Longrightarrow>
   calculate_win_probabilities dice_list ! i
     = fold (\<lambda>j row. if i \<noteq> j
               then row[j := of_int (win_count (faces (dice_list ! i)) (faces (dice_list ! j))) / 36]
               else row)
         [0..<length dice_list] (replicate (length dice_list) 0)"
  by (simp add: calculate_win_probabilities_def Let_def table_fold_nth)

lemma calculate_win_probabilities_entry:
  "i < length dice_list \<Longrightarrow> j < length dice_list \<Longrightarrow>
   calculate_win_probabilities dice_list ! i ! j
     = (if i \<noteq> j then of_int (win_count (faces (dice_list ! i)) (faces (dice_list ! j))) / 36 else 0)"
  by (simp add: calculate_win_probabilities_row row_fold_nth)

lemma calculate_win_probabilities_row_length:
  "i < length dice_list \<Longrightarrow> length (calculate_win_probabilities dice_list ! i) = length dice_list"
  by (simp add: calculate_win_probabilities_row row_fold_length)

text \<open>
  C9: for a list of \<open>n\<close> six-faced dice, \<open>calculate_win_probabilities\<close> (a function of
  its argument alone) returns \<open>n\<close> rows of \<open>n\<close> entries; for \<open>i \<noteq> j\<close> entry \<open>(i, j)\<close> is
  the number of the 36 ordered pairs of face positions at which the face of die \<open>i\<close>
  strictly exceeds the face of die \<open>j\<close>, divided by 36; every diagonal entry is 0.
\<close>

theorem calculate_win_probabilities_matrix:
  assumes "\<forall>d\<in>set dice_list. length (faces d) = 6"
  shows "length (calculate_win_probabilities dice_list) = length dice_list
   \<and> (\<forall>i<length dice_list. length (calculate_win_probabilities dice_list ! i) = length dice_list)
   \<and> (\<forall>i<length dice_list. \<forall>j<length dice_list. i \<noteq> j \<longrightarrow>
        calculate_win_probabilities dice_list ! i ! j
          = of_nat (card {(a, b). a < 6 \<and> b < 6
                \<and> faces (dice_list ! i) ! a > faces (dice_list ! j) ! b}) / 36)
   \<and> (\<forall>i<length dice_list. calculate_win_probabilities dice_list ! i ! i = 0)"
proof -
  have six: "length (faces (dice_list ! i)) = 6" if "i < length dice_list" for i
    using assms that by simp
  show ?thesis
    by (simp add: calculate_win_probabilities_length calculate_win_probabilities_row_length
        calculate_win_probabilities_entry win_count_card six)
qed

theorem calculate_win_probabilities_matrix_witness:
  "length (calculate_win_probabilities
        [\<lparr>faces = [2, 2, 4, 4, 9, 9]\<rparr>, \<lparr>faces = [1, 1, 6, 6, 8, 8]\<rparr>,
         \<lparr>faces = [3, 3, 5, 5, 7, 7]\<rparr>]) = 3
   \<and> calculate_win_probabilities
        [\<lparr>faces = [2, 2, 4, 4, 9, 9]\<rparr>, \<lparr>faces = [1, 1, 6, 6, 8, 8]\<rparr>,
         \<lparr>faces = [3, 3, 5, 5, 7, 7]\<rparr>] ! 2 ! 2 = 0
   \<and> calculate_win_probabilities
        [\<lparr>faces = [2, 2, 4, 4, 9, 9]\<rparr>, \<lparr>faces = [1, 1, 6, 6, 8, 8]\<rparr>,
         \<lparr>faces = [3, 3, 5, 5, 7, 7]\<rparr>] ! 0 ! 1
       = of_nat (card {(a, b). a < 6 \<and> b < 6
            \<and> [2, 2, 4, 4, 9, 9 :: int] ! a > [1, 1, 6, 6, 8, 8] ! b}) / 36"
proof -
  let ?dice = "[\<lparr>faces = [2, 2, 4, 4, 9, 9]\<rparr>, \<lparr>faces = [1, 1, 6, 6, 8, 8]\<rparr>,
                \<lparr>faces = [3, 3, 5, 5, 7, 7]\<rparr>]"
  have six: "\<forall>d\<in>set ?dice. length (faces d) = 6"
    by simp
  have len: "length ?dice = 3"
    by simp
  from calculate_win_probabilities_matrix [OF six]
  have m: "length (calculate_win_probabilities ?dice) = 3"
    and off: "\<And>i j. i < 3 \<Longrightarrow> j < 3 \<Longrightarrow> i \<noteq> j \<Longrightarrow>
        calculate_win_probabilities ?dice ! i ! j
          = of_nat (card {(a, b). a < 6 \<and> b < 6
                \<and> faces (?dice ! i) ! a > faces (?dice ! j) ! b}) / 36"
    and diag: "\<And>i. i < 3 \<Longrightarrow> calculate_win_probabilities ?dice ! i ! i = 0"
    unfolding len by blast+
  have "calculate_win_probabilities ?dice ! 0 ! 1
          = of_nat (card {(a, b). a < 6 \<and> b < 6
                \<and> faces (?dice ! 0) ! a > faces (?dice ! 1) ! b}) / 36"
    by (rule off) simp_all
  with m diag [of 2] show ?thesis
    by simp
qed

lemma calculate_win_probabilities_example:
  "calculate_win_probabilities
     [\<lparr>faces = [2, 2, 4, 4, 9, 9]\<rparr>, \<lparr>faces = [1, 1, 6, 6, 8, 8]\<rparr>,
      \<lparr>faces = [3, 3, 5, 5, 7, 7]\<rparr>]
   = [[0, 5 / 9, 4 / 9], [4 / 9, 0, 5 / 9], [5 / 9, 4 / 9, 0]]"
  by code_simp

section \<open>Uniform integers by rejection sampling\<close>

lemma getrandbits_words_state:
  "snd (getrandbits_words words k g) = (\<lambda>n. g (n + words))"
  by (induction words arbitrary: k g) (simp_all add: genrand_uint32_def split_beta Let_def)

lemma getrandbits_words_bounds:
  "0 \<le> fst (getrandbits_words words k g) \<and> fst (getrandbits_words words k g) < 2 ^ (32 * words)"
proof (induction words arbitrary: k g)
  case 0
  show ?case by simp
next
  case (Suc words)
  obtain r g' where r: "genrand_uint32 g = (r, g')"
    by (cases "genrand_uint32 g")
  define r' where "r' = (if k < 32 then drop_bit (nat (32 - k)) r else r)"
  define high where "high = fst (getrandbits_words words (k - 32) g')"
  have high: "0 \<le> high" "high < 2 ^ (32 * words)"
    using Suc [of "k - 32" g'] by (simp_all add: high_def)
  have r': "0 \<le> uint r'" "uint r' < 2 ^ 32"
    using uint_lt2p [of r'] by simp_all
  have val: "fst (getrandbits_words (Suc words) k g) = uint r' + 2 ^ 32 * high"
    by (simp add: r r'_def high_def split_beta Let_def)
  have "uint r' + 2 ^ 32 * high < 2 ^ 32 + 2 ^ 32 * high"
    using r' by simp
  also have "\<dots> = 2 ^ 32 * (high + 1)"
    by (simp add: algebra_simps)
  also have "\<dots> \<le> 2 ^ 32 * 2 ^ (32 * words)"
    using high by (intro mult_left_mono) simp_all
  also have "\<dots> = 2 ^ (32 * Suc words)"
    by (simp add: power_add)
  finally have "uint r' + 2 ^ 32 * high < 2 ^ (32 * Suc words)" .
  moreover have "0 \<le> uint r' + 2 ^ 32 * high"
    using r' high by simp
  ultimately show ?case
    unfolding val by simp
qed

lemma getrandbits_256:
  "getrandbits 256 g = Inr (fst (getrandbits_words 8 256 g), \<lambda>n. g (n + 8))"
proof -
  have "getrandbits 256 g = Inr (getrandbits_words 8 256 g)"
    by (simp add: getrandbits_def)
  moreover have "getrandbits_words 8 256 g = (fst (getrandbits_words 8 256 g), \<lambda>n. g (n + 8))"
    using getrandbits_words_state [of 8 256 g] by (simp add: prod_eq_iff)
  ultimately show ?thesis by simp
qed

lemma generate_secure_random_256:
  "generate_secure_random 256 g =
     Inr (map (\<lambda>i. word_of_int (fst (getrandbits_words 8 256 g) div 256 ^ i)) [0..<32],
          \<lambda>n. g (n + 8))"
proof -
  have "fst (getrandbits_words 8 256 g) < 2 ^ (32 * 8)" "0 \<le> fst (getrandbits_words 8 256 g)"
    using getrandbits_words_bounds [of 8 256 g] by simp_all
  then have "to_bytes_little (fst (getrandbits_words 8 256 g)) 32
      = Inr (map (\<lambda>i. word_of_int (fst (getrandbits_words 8 256 g) div 256 ^ i)) [0..<32])"
    by (simp add: to_bytes_little_def)
  then show ?thesis
    by (simp add: generate_secure_random_def randbytes_def getrandbits_256)
qed

lemma from_bytes_big_fold:
  "fold (\<lambda>b acc. acc * 256 + uint b) bs a = a * 256 ^ length bs + from_bytes_big bs"
proof (induction bs arbitrary: a)
  case Nil
  show ?case by (simp add: from_bytes_big_def)
next
  case (Cons b bs)
  have "fold (\<lambda>b acc. acc * 256 + uint b) (b # bs) a
          = (a * 256 + uint b) * 256 ^ length bs + from_bytes_big bs"
    by (simp add: Cons)
  moreover have "from_bytes_big (b # bs) = uint b * 256 ^ length bs + from_bytes_big bs"
    by (simp add: from_bytes_big_def Cons [of "uint b"])
  ultimately show ?case
    by (simp add: algebra_simps)
qed

lemma from_bytes_big_Cons:
  "from_bytes_big (b # bs) = uint b * 256 ^ length bs + from_bytes_big bs"
  using from_bytes_big_fold [of bs "uint b"] by (simp add: from_bytes_big_def)

lemma from_bytes_big_bounds:
  "0 \<le> from_bytes_big bs \<and> from_bytes_big bs < 256 ^ length bs"
proof (induction bs)
  case Nil
  show ?case by (simp add: from_bytes_big_def)
next
  case (Cons b bs)
  have b: "0 \<le> uint b" "uint b + 1 \<le> 256"
    using uint_lt2p [of b] by simp_all
  have "uint b * 256 ^ length bs + from_bytes_big bs < uint b * 256 ^ length bs + 256 ^ length bs"
    using Cons by simp
  also have "\<dots> = (uint b + 1) * 256 ^ length bs"
    by (simp add: algebra_simps)
  also have "\<dots> \<le> 256 * 256 ^ length bs"
    using b by (intro mult_right_mono) simp_all
  finally have "uint b * 256 ^ length bs + from_bytes_big bs < 256 ^ length (b # bs)"
    by simp
  moreover have "0 \<le> uint b * 256 ^ length bs + from_bytes_big bs"
    using b Cons by simp
  ultimately show ?case
    by (simp add: from_bytes_big_Cons)
qed

lemma generate_secure_random_256_length:
  "\<exists>bs g'. generate_secure_random 256 g = Inr (bs, g') \<and> length bs = 32"
  by (simp add: generate_secure_random_256)

lemma drawn_shift: "drawn g (Suc k) = drawn (drawn g 1) k"
  by (induction k) simp_all

lemma candidate_shift: "candidate g (Suc k) = candidate (drawn g 1) k"
  unfolding candidate_def drawn_shift ..

lemma candidate_bounds: "0 \<le> candidate g k \<and> candidate g k < 2 ^ 256"
proof -
  obtain bs g' where bs: "generate_secure_random 256 (drawn g k) = Inr (bs, g')" "length bs = 32"
    using generate_secure_random_256_length by blast
  have "0 \<le> from_bytes_big bs \<and> from_bytes_big bs < 256 ^ 32"
    using from_bytes_big_bounds [of bs] bs(2) by simp
  then show ?thesis
    by (simp add: candidate_def bs(1))
qed

lemma generate_random_int_step:
  assumes "R \<noteq> 0"
  shows "generate_random_int R g =
           (if candidate g 0 < (2 ^ 256 div R) * R
            then Some (Inr (candidate g 0 mod R, drawn g 1))
            else generate_random_int R (drawn g 1))"
proof -
  obtain bs g' where bs: "generate_secure_random 256 g = Inr (bs, g')"
    using generate_secure_random_256_length by blast
  show ?thesis
    using assms by (subst generate_random_int.simps) (simp add: bs candidate_def)
qed

lemma generate_random_int_accept:
  assumes "R \<noteq> 0"
  shows "\<forall>i<k. (2 ^ 256 div R) * R \<le> candidate g i \<Longrightarrow>
         candidate g k < (2 ^ 256 div R) * R \<Longrightarrow>
         generate_random_int R g = Some (Inr (candidate g k mod R, drawn g (Suc k)))"
proof (induction k arbitrary: g)
  case 0
  then show ?case
    using generate_random_int_step [OF assms, of g] by simp
next
  case (Suc k)
  have rej: "\<not> candidate g 0 < (2 ^ 256 div R) * R"
    using Suc.prems(1) by force
  have "\<forall>i<k. (2 ^ 256 div R) * R \<le> candidate (drawn g 1) i"
  proof (intro allI impI)
    fix i assume "i < k"
    then have "(2 ^ 256 div R) * R \<le> candidate g (Suc i)"
      using Suc.prems(1) by blast
    then show "(2 ^ 256 div R) * R \<le> candidate (drawn g 1) i"
      by (simp only: candidate_shift)
  qed
  moreover have "candidate (drawn g 1) k < (2 ^ 256 div R) * R"
    using Suc.prems(2) by (simp only: candidate_shift)
  ultimately have "generate_random_int R (drawn g 1)
      = Some (Inr (candidate (drawn g 1) k mod R, drawn (drawn g 1) (Suc k)))"
    by (rule Suc.IH)
  then show ?case
    using rej generate_random_int_step [OF assms, of g]
    by (simp only: candidate_shift [symmetric] drawn_shift [symmetric] if_False)
qed

lemma generate_random_int_returns:
  assumes "generate_random_int R g = Some res" and "R \<noteq> 0"
  shows "\<exists>k. (\<forall>i<k. (2 ^ 256 div R) * R \<le> candidate g i)
      \<and> candidate g k < (2 ^ 256 div R) * R
      \<and> res = Inr (candidate g k mod R, drawn g (Suc k))"
  using assms
proof (induction rule: generate_random_int.raw_induct [rotated 1, consumes 1, case_names step])
  case (step f R g res)
  obtain bs g' where bs: "generate_secure_random 256 g = Inr (bs, g')"
    using generate_secure_random_256_length by blast
  have c0: "candidate g 0 = from_bytes_big bs" and g': "drawn g 1 = g'"
    by (simp_all add: candidate_def bs)
  show ?case
  proof (cases "candidate g 0 < (2 ^ 256 div R) * R")
    case True
    with step.prems step.hyps have "res = Inr (candidate g 0 mod R, drawn g (Suc 0))"
      by (simp add: bs c0 g')
    with True show ?thesis
      by (intro exI [of _ 0]) simp
  next
    case False
    with step.prems step.hyps have "f R (drawn g 1) = Some res"
      by (simp add: bs c0 g')
    then have "\<exists>k. (\<forall>i<k. (2 ^ 256 div R) * R \<le> candidate (drawn g 1) i)
        \<and> candidate (drawn g 1) k < (2 ^ 256 div R) * R
        \<and> res = Inr (candidate (drawn g 1) k mod R, drawn (drawn g 1) (Suc k))"
      using step.prems by (rule step.IH)
    then
    obtain k where k: "\<forall>i<k. (2 ^ 256 div R) * R \<le> candidate (drawn g 1) i"
        "candidate (drawn g 1) k < (2 ^ 256 div R) * R"
        "res = Inr (candidate (drawn g 1) k mod R, drawn (drawn g 1) (Suc k))"
      by blast
    have "\<forall>i<Suc k. (2 ^ 256 div R) * R \<le> candidate g i"
    proof (intro allI impI)
      fix i assume "i < Suc k"
      then show "(2 ^ 256 div R) * R \<le> candidate g i"
      proof (cases i)
        case 0
        with False show ?thesis by simp
      next
        case (Suc j)
        with \<open>i < Suc k\<close> have "(2 ^ 256 div R) * R \<le> candidate (drawn g 1) j"
          using k(1) by simp
        then show ?thesis
          unfolding Suc by (simp only: candidate_shift)
      qed
    qed
    moreover have "candidate g (Suc k) < (2 ^ 256 div R) * R"
      using k(2) by (simp only: candidate_shift)
    moreover have "res = Inr (candidate g (Suc k) mod R, drawn g (Suc (Suc k)))"
      using k(3) by (simp only: candidate_shift [symmetric] drawn_shift [symmetric])
    ultimately show ?thesis
      by blast
  qed
qed

lemma accepted_residue_count:
  fixes R L r :: int
  assumes "0 < R" and "0 \<le> r" and "r < R" and "0 \<le> L"
  shows "card {c \<in> {0..<L * R}. c mod R = r} = nat L"
proof -
  have "bij_betw (\<lambda>q. q * R + r) {0..<L} {c \<in> {0..<L * R}. c mod R = r}"
  proof (rule bij_betw_byWitness [where f' = "\<lambda>c. c div R"])
    show "\<forall>q\<in>{0..<L}. (q * R + r) div R = q"
      using assms by simp
    show "\<forall>c\<in>{c \<in> {0..<L * R}. c mod R = r}. c div R * R + r = c"
      using assms by auto
    show "(\<lambda>q. q * R + r) ` {0..<L} \<subseteq> {c \<in> {0..<L * R}. c mod R = r}"
    proof
      fix c assume "c \<in> (\<lambda>q. q * R + r) ` {0..<L}"
      then obtain q where "q \<in> {0..<L}" and "c = q * R + r" by blast
      then have q: "c = q * R + r" "0 \<le> q" "q < L" by simp_all
      have "q * R + r < q * R + R" using assms by simp
      also have "\<dots> = (q + 1) * R" by (simp add: algebra_simps)
      also have "\<dots> \<le> L * R" using q(3) assms(1) by (intro mult_right_mono) simp_all
      finally have "c < L * R" by (simp add: q(1))
      moreover have "0 \<le> c" using q assms by simp
      moreover have "c mod R = r" using q(1) assms by simp
      ultimately show "c \<in> {c \<in> {0..<L * R}. c mod R = r}" by simp
    qed
    show "(\<lambda>c. c div R) ` {c \<in> {0..<L * R}. c mod R = r} \<subseteq> {0..<L}"
    proof
      fix q assume "q \<in> (\<lambda>c. c div R) ` {c \<in> {0..<L * R}. c mod R = r}"
      then obtain c where "c \<in> {c \<in> {0..<L * R}. c mod R = r}" and "q = c div R" by blast
      then have c: "q = c div R" "0 \<le> c" "c < L * R" by simp_all
      have "0 \<le> q" using c assms(1) by (simp add: pos_imp_zdiv_nonneg_iff)
      moreover have "q < L"
      proof (rule ccontr)
        assume "\<not> q < L"
        then have "L * R \<le> q * R"
          using assms(1) by (intro mult_right_mono) simp_all
        also have "q * R \<le> q * R + c mod R"
          using assms(1) by simp
        also have "\<dots> = c"
          unfolding c(1) by (rule div_mult_mod_eq)
        finally show False
          using c(3) by simp
      qed
      ultimately show "q \<in> {0..<L}" by simp
    qed
  qed
  then have "card {c \<in> {0..<L * R}. c mod R = r} = card {0..<L}"
    by (rule bij_betw_same_card [symmetric])
  then show ?thesis by simp
qed

text \<open>
  C3: for a positive modulus \<open>R\<close>, every iteration of \<open>generate_random_int\<close> draws 32
  bytes and reads them as a candidate in \<open>[0, 2^256)\<close>; the call returns exactly when
  some candidate is below \<open>floor(2^256 / R) * R\<close>, all earlier ones having been rejected
  and redrawn, and then returns that candidate modulo \<open>R\<close>; so every returned value
  lies in \<open>[0, R)\<close>, and every value of \<open>[0, R)\<close> is the residue of the same number,
  \<open>floor(2^256 / R)\<close>, of accepted candidates.
\<close>

theorem generate_random_int_rejection_sampling:
  assumes "0 < R"
  shows "(\<forall>k. \<exists>bs. generate_secure_random 256 (drawn g k) = Inr (bs, drawn g (Suc k))
              \<and> length bs = 32 \<and> candidate g k = from_bytes_big bs
              \<and> 0 \<le> candidate g k \<and> candidate g k < 2 ^ 256)
    \<and> (\<forall>res. generate_random_int R g = Some res \<longleftrightarrow>
          (\<exists>k. (\<forall>i<k. (2 ^ 256 div R) * R \<le> candidate g i)
             \<and> candidate g k < (2 ^ 256 div R) * R
             \<and> res = Inr (candidate g k mod R, drawn g (Suc k))))
    \<and> (\<forall>res. generate_random_int R g = Some res \<longrightarrow>
          (\<exists>v g'. res = Inr (v, g') \<and> 0 \<le> v \<and> v < R))
    \<and> (\<forall>r\<in>{0..<R}. card {c \<in> {0..<2 ^ 256}. c < (2 ^ 256 div R) * R \<and> c mod R = r}
                        = nat (2 ^ 256 div R))"
proof -
  have R: "R \<noteq> 0"
    using assms by simp
  have draw: "\<exists>bs. generate_secure_random 256 (drawn g k) = Inr (bs, drawn g (Suc k))
              \<and> length bs = 32 \<and> candidate g k = from_bytes_big bs
              \<and> 0 \<le> candidate g k \<and> candidate g k < 2 ^ 256" for k
  proof -
    obtain bs g' where bs: "generate_secure_random 256 (drawn g k) = Inr (bs, g')" "length bs = 32"
      using generate_secure_random_256_length by blast
    then have "drawn g (Suc k) = g'" "candidate g k = from_bytes_big bs"
      by (simp_all add: candidate_def)
    with bs candidate_bounds [of g k] show ?thesis
      by blast
  qed
  have loop: "generate_random_int R g = Some res \<longleftrightarrow>
          (\<exists>k. (\<forall>i<k. (2 ^ 256 div R) * R \<le> candidate g i)
             \<and> candidate g k < (2 ^ 256 div R) * R
             \<and> res = Inr (candidate g k mod R, drawn g (Suc k)))" for res
    using generate_random_int_returns [OF _ R, of g res] generate_random_int_accept [OF R, of _ g]
    by blast
  have range: "\<exists>v g'. res = Inr (v, g') \<and> 0 \<le> v \<and> v < R"
    if "generate_random_int R g = Some res" for res
  proof -
    from that obtain k where "res = Inr (candidate g k mod R, drawn g (Suc k))"
      using loop by blast
    moreover have "0 \<le> candidate g k mod R" "candidate g k mod R < R"
      using assms by simp_all
    ultimately show ?thesis
      by blast
  qed
  have count: "card {c \<in> {0..<2 ^ 256}. c < (2 ^ 256 div R) * R \<and> c mod R = r}
                 = nat (2 ^ 256 div R)" if "r \<in> {0..<R}" for r
  proof -
    define L :: int where "L = 2 ^ 256 div R"
    have L: "0 \<le> L"
      using assms by (simp add: L_def pos_imp_zdiv_nonneg_iff)
    have "L * R \<le> L * R + 2 ^ 256 mod R"
      using assms by simp
    also have "\<dots> = 2 ^ 256"
      unfolding L_def by (rule div_mult_mod_eq)
    finally have le: "L * R \<le> 2 ^ 256" .
    have "{c \<in> {0..<2 ^ 256}. c < L * R \<and> c mod R = r} = {c \<in> {0..<L * R}. c mod R = r}"
      using le by auto
    moreover have "card {c \<in> {0..<L * R}. c mod R = r} = nat L"
      using that assms L by (intro accepted_residue_count) simp_all
    ultimately show ?thesis
      unfolding L_def by simp
  qed
  from draw loop range count show ?thesis
    by blast
qed

theorem generate_random_int_rejection_sampling_witness:
  "(0::int) < 6
   \<and> generate_random_int 6 (\<lambda>n. if n < 8 then - 1 else 5)
       = Some (Inr (4, drawn (\<lambda>n. if n < 8 then - 1 else 5) (Suc (Suc 0))))"
proof -
  let ?g = "\<lambda>n::nat. if n < 8 then - 1 else (5 :: 32 word)"
  have c0: "candidate ?g 0 = 2 ^ 256 - 1"
    by code_simp
  have c1: "candidate ?g (Suc 0)
      = 0x0500000005000000050000000500000005000000050000000500000005000000"
    by code_simp
  have rej: "\<forall>i<Suc 0. (2 ^ 256 div 6) * 6 \<le> candidate ?g i"
    by (simp add: c0)
  have acc: "candidate ?g (Suc 0) < (2 ^ 256 div 6) * 6"
    by (simp add: c1)
  have res: "Inr (4, drawn ?g (Suc (Suc 0))) = Inr (candidate ?g (Suc 0) mod 6, drawn ?g (Suc (Suc 0)))"
    by (simp add: c1)
  have ex: "\<exists>k. (\<forall>i<k. (2 ^ 256 div 6) * 6 \<le> candidate ?g i)
             \<and> candidate ?g k < (2 ^ 256 div 6) * 6
             \<and> Inr (4, drawn ?g (Suc (Suc 0))) = Inr (candidate ?g k mod 6, drawn ?g (Suc k))"
    using rej acc res by (intro exI [of _ "Suc 0"] conjI)
  have pos: "(0::int) < 6"
    by simp
  note sampling = generate_random_int_rejection_sampling [OF pos, of ?g]
  note loop = sampling [THEN conjunct2, THEN conjunct1, THEN spec, THEN iffD2]
  have "generate_random_int 6 ?g = Some (Inr (4, drawn ?g (Suc (Suc 0))))"
    using ex by (rule loop)
  with pos show ?thesis
    by (intro conjI)
qed

section \<open>The commitment digest\<close>

lemma length_keccak_round: "length (keccak_round rc a) = 25"
  by (simp add: keccak_round_def keccak_iota_def keccak_chi_def)

lemma length_fold_keccak_round:
  "length a = 25 \<Longrightarrow> length (fold keccak_round rcs a) = 25"
  by (induction rcs arbitrary: a) (simp_all add: length_keccak_round)

lemma length_keccak_absorb: "length (keccak_absorb block a) = 25"
  by (simp add: keccak_absorb_def keccak_f1600_def length_fold_keccak_round)

lemma length_fold_keccak_absorb:
  "length a = 25 \<Longrightarrow> length (fold keccak_absorb blocks a) = 25"
  by (induction blocks arbitrary: a) (simp_all add: length_keccak_absorb)

lemma length_bytes_of_lane: "length (bytes_of_lane w) = 8"
  by (simp add: bytes_of_lane_def)

lemma length_concat_lanes: "length (concat (map bytes_of_lane a)) = 8 * length a"
  by (induction a) (simp_all add: length_bytes_of_lane)

lemma length_sha3_256: "length (sha3_256 m) = 32"
proof -
  have "length (fold keccak_absorb blocks (replicate 25 0)) = 25" for blocks
    by (rule length_fold_keccak_absorb) simp
  then show ?thesis
    by (simp add: sha3_256_def Let_def length_concat_lanes)
qed

lemma length_hmac_digest: "length (hmac_digest key msg) = 32"
  by (simp add: hmac_digest_def Let_def length_sha3_256)

lemma length_hex: "length (hex bs) = 2 * length bs"
  by (induction bs) (simp_all add: hex_def)

lemma hex_digit_lower: "d < 16 \<Longrightarrow> hex_digit d \<in> set ''0123456789abcdef''"
proof -
  assume "d < 16"
  then have "d = 0 \<or> d = 1 \<or> d = 2 \<or> d = 3 \<or> d = 4 \<or> d = 5 \<or> d = 6 \<or> d = 7
      \<or> d = 8 \<or> d = 9 \<or> d = 10 \<or> d = 11 \<or> d = 12 \<or> d = 13 \<or> d = 14 \<or> d = 15"
    by arith
  then show ?thesis
    by (auto simp: hex_digit_def)
qed

lemma set_hex: "set (hex bs) \<subseteq> set ''0123456789abcdef''"
proof -
  have "hex_digit (unat b div 16) \<in> set ''0123456789abcdef''"
       "hex_digit (unat b mod 16) \<in> set ''0123456789abcdef''" for b :: "8 word"
  proof -
    have "unat b < 256" using unsigned_less [of b, where ?'a = nat] by simp
    then have "unat b div 16 < 16" by simp
    then show "hex_digit (unat b div 16) \<in> set ''0123456789abcdef''"
      by (rule hex_digit_lower)
    show "hex_digit (unat b mod 16) \<in> set ''0123456789abcdef''"
      by (rule hex_digit_lower) simp
  qed
  then show ?thesis
    unfolding hex_def by (induction bs) simp_all
qed

subsection \<open>A known answer for the hash\<close>

text \<open>
  The model of SHA3-256 gives the digest that the FIPS 202 example for a message of
  1600 bits lists: 200 bytes \<open>A3\<close>, which are absorbed in two blocks. The 24 rounds of
  each of the two permutations are evaluated one at a time.
\<close>

lemma upt_25:
  "[0..<25] = [0, 1, 2, 3, 4, 5, 6, 7, 8, 9, 10, 11, 12, 13, 14, 15, 16, 17, 18, 19, 20, 21, 22,
               23, 24]"
  by code_simp

lemma upt_5: "[0..<5] = [0, 1, 2, 3, 4]"
  by code_simp

lemma word_rotl_64:
  assumes "n < 64"
  shows "word_rotl n (w :: 64 word) = push_bit n w OR drop_bit (64 - n) w"
proof (rule bit_word_eqI)
  fix k
  assume "k < LENGTH(64)"
  then have k: "k < 64" by simp
  show "bit (word_rotl n w) k \<longleftrightarrow> bit (push_bit n w OR drop_bit (64 - n) w) k"
  proof (cases "n \<le> k")
    case True
    then have m: "(k + (64 - n)) mod 64 = k - n"
      using assms k by (simp add: mod_if)
    have "\<not> bit w (64 - n + k)"
    proof
      assume "bit w (64 - n + k)"
      then have "64 - n + k < LENGTH(64)" by (rule bit_imp_le_length)
      with True assms show False by simp
    qed
    with True k assms m show ?thesis
      by (simp add: bit_word_rotl_iff bit_or_iff bit_push_bit_iff bit_drop_bit_eq)
  next
    case False
    then have m: "(k + (64 - n)) mod 64 = 64 - n + k"
      using assms k by (simp add: add.commute)
    with False k assms show ?thesis
      by (simp add: bit_word_rotl_iff bit_or_iff bit_push_bit_iff bit_drop_bit_eq)
  qed
qed

lemmas keccak_round_eval =
  keccak_round_def keccak_theta_def keccak_rho_pi_def keccak_chi_def keccak_iota_def
  keccak_rotation_offsets_def upt_25 upt_5 Let_def word_rotl_64

lemma sha3_256_two_blocks:
  assumes "length m = 136 + n" and "n < 135"
  shows "sha3_256 m =
     take 32 (concat (map bytes_of_lane
       (keccak_absorb (take 136 (drop 136 (sha3_pad m)))
          (keccak_absorb (take 136 (sha3_pad m)) (replicate 25 0)))))"
proof -
  have "length (sha3_pad m) = 272"
    using assms by (simp add: sha3_pad_def sha3_256_rate_def Let_def)
  then have "map (\<lambda>i. take sha3_256_rate (drop (sha3_256_rate * i) (sha3_pad m)))
               [0..<length (sha3_pad m) div sha3_256_rate]
             = [take 136 (sha3_pad m), take 136 (drop 136 (sha3_pad m))]"
    by (simp add: sha3_256_rate_def upt_rec)
  then show ?thesis
    by (simp add: sha3_256_def Let_def)
qed

lemma block_1_lanes:
  "map (\<lambda>i. if i < sha3_256_rate div 8
              then replicate 25 0 ! i XOR lane_of_bytes (take 8 (drop (8 * i) (take 136 (sha3_pad (replicate 200 0xA3)))))
              else replicate 25 0 ! i)
       [0..<25]
   = [0xA3A3A3A3A3A3A3A3, 0xA3A3A3A3A3A3A3A3, 0xA3A3A3A3A3A3A3A3, 0xA3A3A3A3A3A3A3A3, 0xA3A3A3A3A3A3A3A3,
      0xA3A3A3A3A3A3A3A3, 0xA3A3A3A3A3A3A3A3, 0xA3A3A3A3A3A3A3A3, 0xA3A3A3A3A3A3A3A3, 0xA3A3A3A3A3A3A3A3,
      0xA3A3A3A3A3A3A3A3, 0xA3A3A3A3A3A3A3A3, 0xA3A3A3A3A3A3A3A3, 0xA3A3A3A3A3A3A3A3, 0xA3A3A3A3A3A3A3A3,
      0xA3A3A3A3A3A3A3A3, 0xA3A3A3A3A3A3A3A3, 0x0000000000000000, 0x0000000000000000, 0x0000000000000000,
      0x0000000000000000, 0x0000000000000000, 0x0000000000000000, 0x0000000000000000, 0x0000000000000000]"
  by code_simp

lemma block_1_round_1:
  "keccak_round 0x0000000000000001
     [0xA3A3A3A3A3A3A3A3, 0xA3A3A3A3A3A3A3A3, 0xA3A3A3A3A3A3A3A3, 0xA3A3A3A3A3A3A3A3, 0xA3A3A3A3A3A3A3A3,
      0xA3A3A3A3A3A3A3A3, 0xA3A3A3A3A3A3A3A3, 0xA3A3A3A3A3A3A3A3, 0xA3A3A3A3A3A3A3A3, 0xA3A3A3A3A3A3A3A3,
      0xA3A3A3A3A3A3A3A3, 0xA3A3A3A3A3A3A3A3, 0xA3A3A3A3A3A3A3A3, 0xA3A3A3A3A3A3A3A3, 0xA3A3A3A3A3A3A3A3,
      0xA3A3A3A3A3A3A3A3, 0xA3A3A3A3A3A3A3A3, 0x0000000000000000, 0x0000000000000000, 0x0000000000000000,
      0x0000000000000000, 0x0000000000000000, 0x0000000000000000, 0x0000000000000000, 0x0000000000000000]
   = [0x2121212121212120, 0xD6D6D6D6D6D6D6D6, 0x4747474747474747, 0x9C9C9C9C9C9C9C9C, 0xA6A6A6A6A6A6A6A6,
      0x7474747474747474, 0x9C9C9C9C9C9C9C9C, 0x6060606060606060, 0x8888888888888888, 0xE8E8E8E8E8E8E8E8,
      0x4F4F4F4F4F4F4F4F, 0x1818181818181818, 0x8282828282828282, 0xE2E2E2E2E2E2E2E2, 0xBEBEBEBEBEBEBEBE,
      0x9393939393939393, 0x2020202020202020, 0xD7D7D7D7D7D7D7D7, 0xA3A3A3A3A3A3A3A3, 0xE4E4E4E4E4E4E4E4,
      0x3939393939393939, 0xA3A3A3A3A3A3A3A3, 0x1D1D1D1D1D1D1D1D, 0x2020202020202020, 0x9F9F9F9F9F9F9F9F]"
  by (simp add: keccak_round_eval)

lemma block_1_round_2:
  "keccak_round 0x0000000000008082
     [0x2121212121212120, 0xD6D6D6D6D6D6D6D6, 0x4747474747474747, 0x9C9C9C9C9C9C9C9C, 0xA6A6A6A6A6A6A6A6,
      0x7474747474747474, 0x9C9C9C9C9C9C9C9C, 0x6060606060606060, 0x8888888888888888, 0xE8E8E8E8E8E8E8E8,
      0x4F4F4F4F4F4F4F4F, 0x1818181818181818, 0x8282828282828282, 0xE2E2E2E2E2E2E2E2, 0xBEBEBEBEBEBEBEBE,
      0x9393939393939393, 0x2020202020202020, 0xD7D7D7D7D7D7D7D7, 0xA3A3A3A3A3A3A3A3, 0xE4E4E4E4E4E4E4E4,
      0x3939393939393939, 0xA3A3A3A3A3A3A3A3, 0x1D1D1D1D1D1D1D1D, 0x2020202020202020, 0x9F9F9F9F9F9F9F9F]
   = [0xC9C9C9C9C9C9494A, 0x1D1D0D1D1D1D1D1D, 0x4D4D4D4D4D4DCD4D, 0x7272727272727273, 0xC4C4D4C4C4C444C5,
      0x7E7E7E7E7E5E7E7E, 0x0F0F0F0F0F2F0F0F, 0x3F3F3F3F3F3F3F3F, 0xC3C3E3C3C3C3C3C3, 0x4545454545654545,
      0x5050505050505052, 0x1616161616161416, 0x3131313131313131, 0xC1C1C1C1C1C1C3C3, 0xC2C2C2C2C2C2C2C0,
      0x8D8D8D8D9D8D8D8D, 0xE3E3E3E3E3E3E7E3, 0xD1D1D1D1D1D1D5D1, 0xF3F3F3F3F3F3F3F3, 0x1818181818181818,
      0x1A1A1B1A1A1A1A1A, 0x5A5A5B5A5A5A5A5A, 0x5555545555555555, 0x7F7F7F7F7F7F7F7B, 0x5757575757575753]"
  by (simp add: keccak_round_eval)

lemma block_1_round_3:
  "keccak_round 0x800000000000808A
     [0xC9C9C9C9C9C9494A, 0x1D1D0D1D1D1D1D1D, 0x4D4D4D4D4D4DCD4D, 0x7272727272727273, 0xC4C4D4C4C4C444C5,
      0x7E7E7E7E7E5E7E7E, 0x0F0F0F0F0F2F0F0F, 0x3F3F3F3F3F3F3F3F, 0xC3C3E3C3C3C3C3C3, 0x4545454545654545,
      0x5050505050505052, 0x1616161616161416, 0x3131313131313131, 0xC1C1C1C1C1C1C3C3, 0xC2C2C2C2C2C2C2C0,
      0x8D8D8D8D9D8D8D8D, 0xE3E3E3E3E3E3E7E3, 0xD1D1D1D1D1D1D5D1, 0xF3F3F3F3F3F3F3F3, 0x1818181818181818,
      0x1A1A1B1A1A1A1A1A, 0x5A5A5B5A5A5A5A5A, 0x5555545555555555, 0x7F7F7F7F7F7F7F7B, 0x5757575757575753]
   = [0x96864C1E1EDE9310, 0x13831B1B0B7B0A0E, 0xF1E989E93B31B9F8, 0x812989892889A5A9, 0xDB53C9C393339ED7,
      0xD2F6EAA230E290CA, 0x3794910724071511, 0x7918A1191A397B71, 0xAACF611B8B3B590F, 0xC7233927A7232776,
      0xE5F1C2E5C5A6F4E7, 0xDEC89EDA97DD5C5E, 0x45AD0F23A49488CF, 0x806647E425014146, 0x63BFA82D97F1BCAD,
      0xE4E76DD9C7CAC471, 0xD4D818F858D3F8D8, 0xAF0B87E601AD8283, 0xA70E80848F8BCC98, 0xBAB8B0A1B0B1D1A4,
      0x84A2B6E3233A23F2, 0x390F1D1E1E8FBE4C, 0xCDFCE8ED6D7E6F7D, 0x74ADBBF5F5DBB794, 0x9F9A969A5A14B89E]"
  by (simp add: keccak_round_eval)

lemma block_1_round_4:
  "keccak_round 0x8000000080008000
     [0x96864C1E1EDE9310, 0x13831B1B0B7B0A0E, 0xF1E989E93B31B9F8, 0x812989892889A5A9, 0xDB53C9C393339ED7,
      0xD2F6EAA230E290CA, 0x3794910724071511, 0x7918A1191A397B71, 0xAACF611B8B3B590F, 0xC7233927A7232776,
      0xE5F1C2E5C5A6F4E7, 0xDEC89EDA97DD5C5E, 0x45AD0F23A49488CF, 0x806647E425014146, 0x63BFA82D97F1BCAD,
      0xE4E76DD9C7CAC471, 0xD4D818F858D3F8D8, 0xAF0B87E601AD8283, 0xA70E80848F8BCC98, 0xBAB8B0A1B0B1D1A4,
      0x84A2B6E3233A23F2, 0x390F1D1E1E8FBE4C, 0xCDFCE8ED6D7E6F7D, 0x74ADBBF5F5DBB794, 0x9F9A969A5A14B89E]
   = [0x327905AA3A60548C, 0xA3B5621003FAD57D, 0x7806731F87F03515, 0x5777993341B78B66, 0x1B920418965ED21F,
      0xD5344F145931908B, 0x6AE65804487288BD, 0x8970E08381CC1796, 0x84C26CCED67053A5, 0x2F166A704B0AD4FA,
      0x3A3BEBEB881C8B43, 0x97A46D85C2FECF27, 0x19BD927C34BDEFDB, 0x007A41D02A321FC1, 0x2C865A15515B955B,
      0x398823CAB103CD19, 0x50EBF72965FA413A, 0x6ACA7D2CE8865DC9, 0x4CE4A08BB546E532, 0x0429882E89363CC8,
      0xC78C2C358703CC55, 0x659A1E4A27BAFED7, 0xF51D9A5F03287432, 0xA8CEFB20B6629C97, 0xB6249C791D13B40C]"
  by (simp add: keccak_round_eval)

lemma block_1_round_5:
  "keccak_round 0x000000000000808B
     [0x327905AA3A60548C, 0xA3B5621003FAD57D, 0x7806731F87F03515, 0x5777993341B78B66, 0x1B920418965ED21F,
      0xD5344F145931908B, 0x6AE65804487288BD, 0x8970E08381CC1796, 0x84C26CCED67053A5, 0x2F166A704B0AD4FA,
      0x3A3BEBEB881C8B43, 0x97A46D85C2FECF27, 0x19BD927C34BDEFDB, 0x007A41D02A321FC1, 0x2C865A15515B955B,
      0x398823CAB103CD19, 0x50EBF72965FA413A, 0x6ACA7D2CE8865DC9, 0x4CE4A08BB546E532, 0x0429882E89363CC8,
      0xC78C2C358703CC55, 0x659A1E4A27BAFED7, 0xF51D9A5F03287432, 0xA8CEFB20B6629C97, 0xB6249C791D13B40C]
   = [0x0A7B98E0B0229968, 0x88FC3D7ABBB972B6, 0x47DCF8BF86BE1D18, 0x8DDADF877C8DF8E2, 0x0B2EA44C663673DD,
      0x7B45C4B3154543FD, 0x8A36F68B64D56178, 0xFFEDBD6036F575E8, 0x184A533713D4D22C, 0x5E1A2F787627048E,
      0xFD7A83A8F1D6A52A, 0x4F5833098749FA92, 0xE94693892EA671C6, 0x312EFFA5B40E7B33, 0xC5E8791332EFBAB8,
      0xD4908F20735415F4, 0x753C935285A73FBD, 0xFDBA62E3D038AD67, 0x92798C8986C633F3, 0xE2E6DC07677E3147,
      0x5F1AD2B2CF393B7E, 0xFAD3E8E410178D94, 0xA81EE73AE175872A, 0xD70AEE2918A4136E, 0x0384D758222762E6]"
  by (simp add: keccak_round_eval)

lemma block_1_round_6:
  "keccak_round 0x0000000080000001
     [0x0A7B98E0B0229968, 0x88FC3D7ABBB972B6, 0x47DCF8BF86BE1D18, 0x8DDADF877C8DF8E2, 0x0B2EA44C663673DD,
      0x7B45C4B3154543FD, 0x8A36F68B64D56178, 0xFFEDBD6036F575E8, 0x184A533713D4D22C, 0x5E1A2F787627048E,
      0xFD7A83A8F1D6A52A, 0x4F5833098749FA92, 0xE94693892EA671C6, 0x312EFFA5B40E7B33, 0xC5E8791332EFBAB8,
      0xD4908F20735415F4, 0x753C935285A73FBD, 0xFDBA62E3D038AD67, 0x92798C8986C633F3, 0xE2E6DC07677E3147,
      0x5F1AD2B2CF393B7E, 0xFAD3E8E410178D94, 0xA81EE73AE175872A, 0xD70AEE2918A4136E, 0x0384D758222762E6]
   = [0xB53E6005CC2F9382, 0xA5F7F8676F3D4D91, 0xCE40BFCD25EC6A5A, 0x71EC8722C30A3A6D, 0x30CE35EA0D6B7741,
      0xC1D7EF30D4332FB7, 0x81EA27AFEC4B86A4, 0xD5CBC2E92ACD2DC8, 0x61CFC87A94E2866B, 0xF517286EFC9947D3,
      0x3800B2F9A1468A6B, 0x80C7700E00F15A3F, 0xB4BD4CE9B5B1A0CD, 0xBEE951FBE3E24F8F, 0x37DB8FD40DCFBC68,
      0x17CC9505A81FB589, 0xBDA4B6E8684B0F44, 0xC049D8CF03254414, 0xB7E692E3236A4AAF, 0x0932848716784B7A,
      0x018EDF2228564B3A, 0x63B5D03B06F81CE2, 0x71B1CD1DC8385A93, 0xB37A6A67CAB18B3F, 0x329E16139A077D9B]"
  by (simp add: keccak_round_eval)

lemma block_1_round_7:
  "keccak_round 0x8000000080008081
     [0xB53E6005CC2F9382, 0xA5F7F8676F3D4D91, 0xCE40BFCD25EC6A5A, 0x71EC8722C30A3A6D, 0x30CE35EA0D6B7741,
      0xC1D7EF30D4332FB7, 0x81EA27AFEC4B86A4, 0xD5CBC2E92ACD2DC8, 0x61CFC87A94E2866B, 0xF517286EFC9947D3,
      0x3800B2F9A1468A6B, 0x80C7700E00F15A3F, 0xB4BD4CE9B5B1A0CD, 0xBEE951FBE3E24F8F, 0x37DB8FD40DCFBC68,
      0x17CC9505A81FB589, 0xBDA4B6E8684B0F44, 0xC049D8CF03254414, 0xB7E692E3236A4AAF, 0x0932848716784B7A,
      0x018EDF2228564B3A, 0x63B5D03B06F81CE2, 0x71B1CD1DC8385A93, 0xB37A6A67CAB18B3F, 0x329E16139A077D9B]
   = [0x0927F278EC4CB859, 0xFF5BD665F185EBE2, 0x3B5A35F2CDDD9678, 0xE6911EDAE8076A16, 0xB520A179E6158843,
      0x75202B7835A6E22B, 0x5FFF0DBC6108B77A, 0xA8B1C0B8D9B9E8C1, 0x328339225D259E62, 0x8327ED8E93DDD6D1,
      0x95059E65AA6ECF99, 0xC979CEA6187ADCE8, 0xDDD7DC429162B021, 0xB20CF039A4E2B016, 0x5D46696DC574E6BB,
      0xD9228E84307E73E8, 0xCF490FDFCEA7A9F7, 0xD10BAF6DC59F839F, 0xE7CA2C79D061B7F7, 0xF0B7E9043EDA3511,
      0x64807FA5959FA1A1, 0xA2662EB5748E3101, 0x0E85FE3C7C031869, 0x001594536611F505, 0x907DBFE911C0CAF8]"
  by (simp add: keccak_round_eval)

lemma block_1_round_8:
  "keccak_round 0x8000000000008009
     [0x0927F278EC4CB859, 0xFF5BD665F185EBE2, 0x3B5A35F2CDDD9678, 0xE6911EDAE8076A16, 0xB520A179E6158843,
      0x75202B7835A6E22B, 0x5FFF0DBC6108B77A, 0xA8B1C0B8D9B9E8C1, 0x328339225D259E62, 0x8327ED8E93DDD6D1,
      0x95059E65AA6ECF99, 0xC979CEA6187ADCE8, 0xDDD7DC429162B021, 0xB20CF039A4E2B016, 0x5D46696DC574E6BB,
      0xD9228E84307E73E8, 0xCF490FDFCEA7A9F7, 0xD10BAF6DC59F839F, 0xE7CA2C79D061B7F7, 0xF0B7E9043EDA3511,
      0x64807FA5959FA1A1, 0xA2662EB5748E3101, 0x0E85FE3C7C031869, 0x001594536611F505, 0x907DBFE911C0CAF8]
   = [0xEB44CD711F5E4D9E, 0x8D7212AB36B48475, 0xC32CB6D7297F054F, 0x59B25FECA538ED56, 0xFB82D42C306B0E5F,
      0xDFA93A8D85A61886, 0xAE489C64D85A9E6C, 0xBA7A896CC3B74B2D, 0xC6100E11AF257438, 0xE17E22CFB06F03C1,
      0x1E3B01724DA80D6F, 0xD0EAD889016BDCAB, 0x9F4FF0D7AD684AF8, 0x37F4671500B4C1DA, 0x73A1609E5DE2CB3D,
      0xDB4B788434E959B2, 0xFB9FD27737EB2359, 0xBFA163D688A7DAF8, 0xB63E9414D3946B2D, 0xCB06B779A577C563,
      0xCE2F13A40D08E6B2, 0x8E525BD7D225C9B2, 0x11B617B38761478C, 0x41085F369B2B3390, 0x56D9A15CAD5868FB]"
  by (simp add: keccak_round_eval)

lemma block_1_round_9:
  "keccak_round 0x000000000000008A
     [0xEB44CD711F5E4D9E, 0x8D7212AB36B48475, 0xC32CB6D7297F054F, 0x59B25FECA538ED56, 0xFB82D42C306B0E5F,
      0xDFA93A8D85A61886, 0xAE489C64D85A9E6C, 0xBA7A896CC3B74B2D, 0xC6100E11AF257438, 0xE17E22CFB06F03C1,
      0x1E3B01724DA80D6F, 0xD0EAD889016BDCAB, 0x9F4FF0D7AD684AF8, 0x37F4671500B4C1DA, 0x73A1609E5DE2CB3D,
      0xDB4B788434E959B2, 0xFB9FD27737EB2359, 0xBFA163D688A7DAF8, 0xB63E9414D3946B2D, 0xCB06B779A577C563,
      0xCE2F13A40D08E6B2, 0x8E525BD7D225C9B2, 0x11B617B38761478C, 0x41085F369B2B3390, 0x56D9A15CAD5868FB]
   = [0x08EC7FC556815F84, 0xE02E701E777F4CC7, 0x73455DB7F7A0300A, 0xF78B3E60008284A5, 0x7DF2CC9148FB9DD7,
      0x747DCC3CDA1A7E44, 0x8F6CF92ED26C1FBE, 0x3510F34C47B97377, 0xFEBEC282D9B27B37, 0xE4AF77F82144CCC2,
      0x17FF722212B487A5, 0xA99A29B1741BD9E2, 0xEB449059D3CDA5A9, 0x46492C1A831BA54F, 0x18C334CE30E18258,
      0xCD34B319CAFC38FC, 0xEC80B2E252599396, 0x1CECD578D8001DBD, 0x77CAF7613BDDE33F, 0x0B620306BF789E7C,
      0x35FC44886B970E21, 0xF4E79D9CF02A4997, 0xC8A06C81C33350E5, 0x54DC5046AC0C2BEA, 0x47F548FC254414F8]"
  by (simp add: keccak_round_eval)

lemma block_1_round_10:
  "keccak_round 0x0000000000000088
     [0x08EC7FC556815F84, 0xE02E701E777F4CC7, 0x73455DB7F7A0300A, 0xF78B3E60008284A5, 0x7DF2CC9148FB9DD7,
      0x747DCC3CDA1A7E44, 0x8F6CF92ED26C1FBE, 0x3510F34C47B97377, 0xFEBEC282D9B27B37, 0xE4AF77F82144CCC2,
      0x17FF722212B487A5, 0xA99A29B1741BD9E2, 0xEB449059D3CDA5A9, 0x46492C1A831BA54F, 0x18C334CE30E18258,
      0xCD34B319CAFC38FC, 0xEC80B2E252599396, 0x1CECD578D8001DBD, 0x77CAF7613BDDE33F, 0x0B620306BF789E7C,
      0x35FC44886B970E21, 0xF4E79D9CF02A4997, 0xC8A06C81C33350E5, 0x54DC5046AC0C2BEA, 0x47F548FC254414F8]
   = [0x7A92B56E10956FE0, 0x7DB14E711C0F31CB, 0xDA4C5F69F6608AFA, 0x382ABFBD760734D7, 0xD1ECAF0CE5E843B2,
      0x3BAE55C3A14D5151, 0x89BBB2C5FBFAF986, 0x8D146C01BD37DECE, 0x4CA4C9F0314B808A, 0x39C843AC7FC50C0B,
      0x227CA19553E316CC, 0xDEE4CF2FC7E4FE4C, 0xCC5F4179711A1C6D, 0x465ACCCC2BA50585, 0xA02D7A255775FF2A,
      0xD3D9551F71FEA4BE, 0x3A7063857433FDBE, 0x3966B4F2C2392912, 0xD8D45967653F0DCF, 0xDD97B8DFA6537672,
      0x545B8FF4854F9360, 0x848EF934B553FDAF, 0xCF7204298891CAC1, 0xD9810B078198F4FE, 0xD7EEE582CA96704F]"
  by (simp add: keccak_round_eval)

lemma block_1_round_11:
  "keccak_round 0x0000000080008009
     [0x7A92B56E10956FE0, 0x7DB14E711C0F31CB, 0xDA4C5F69F6608AFA, 0x382ABFBD760734D7, 0xD1ECAF0CE5E843B2,
      0x3BAE55C3A14D5151, 0x89BBB2C5FBFAF986, 0x8D146C01BD37DECE, 0x4CA4C9F0314B808A, 0x39C843AC7FC50C0B,
      0x227CA19553E316CC, 0xDEE4CF2FC7E4FE4C, 0xCC5F4179711A1C6D, 0x465ACCCC2BA50585, 0xA02D7A255775FF2A,
      0xD3D9551F71FEA4BE, 0x3A7063857433FDBE, 0x3966B4F2C2392912, 0xD8D45967653F0DCF, 0xDD97B8DFA6537672,
      0x545B8FF4854F9360, 0x848EF934B553FDAF, 0xCF7204298891CAC1, 0xD9810B078198F4FE, 0xD7EEE582CA96704F]
   = [0x140F4C69F2EEB162, 0xB9119F74E8EA000B, 0xB1EC7A386114CF3D, 0x93C8F839112490C4, 0x25A148E789F84BFA,
      0x651DDF2019BFCCBE, 0xD83D89E591442CAD, 0x6065CFC984E1EF9A, 0x56F0B0B2BFA85262, 0xED2C0F4FAD6FBDE1,
      0xE89865E957DDE2D8, 0x108232123E9ECF1B, 0x26B0F74681E3713B, 0x156FB82FD901DEF7, 0x58A282D307BEF92F,
      0x5E4091A2615C6882, 0xC320A4CD5EDCC4D6, 0x0F75C2D6AE49ED80, 0xB408194AC62564BA, 0x09185F1B6212C25E,
      0x1BD389C111B1FA16, 0x2E6A8A1C44884EA7, 0xFEC7DEA11C90613B, 0x00AC235310382F29, 0xCDAFBFC34C4AD4C3]"
  by (simp add: keccak_round_eval)

lemma block_1_round_12:
  "keccak_round 0x000000008000000A
     [0x140F4C69F2EEB162, 0xB9119F74E8EA000B, 0xB1EC7A386114CF3D, 0x93C8F839112490C4, 0x25A148E789F84BFA,
      0x651DDF2019BFCCBE, 0xD83D89E591442CAD, 0x6065CFC984E1EF9A, 0x56F0B0B2BFA85262, 0xED2C0F4FAD6FBDE1,
      0xE89865E957DDE2D8, 0x108232123E9ECF1B, 0x26B0F74681E3713B, 0x156FB82FD901DEF7, 0x58A282D307BEF92F,
      0x5E4091A2615C6882, 0xC320A4CD5EDCC4D6, 0x0F75C2D6AE49ED80, 0xB408194AC62564BA, 0x09185F1B6212C25E,
      0x1BD389C111B1FA16, 0x2E6A8A1C44884EA7, 0xFEC7DEA11C90613B, 0x00AC235310382F29, 0xCDAFBFC34C4AD4C3]
   = [0x6D57F66257167BAC, 0x29B770936D0A7D0B, 0x5F8587DBBD4B7CE7, 0x88C0613918B40D61, 0x6A9E5DD70EA00052,
      0xD5D233CB10C77FDF, 0xC77843DFECF3BE61, 0x1F5A2F47032B574E, 0xC6E1158FED74CDF5, 0x7771C825007A94EE,
      0xD217D82C161CE6F8, 0xD1D4193CE9C06009, 0x7138C0418564EB51, 0xC86D211652AE9875, 0xEA9AB82269DBCA0B,
      0xF8005125CEEA1FFA, 0xEA1AF0E290DACA43, 0x6585464DC1FB07C6, 0x8FFF980E9FE72705, 0x5CCF3FF6D5C8F5C1,
      0x0D39BB447E96365C, 0x82F9A5F69A38C9FE, 0x42C8E75AA5D050DD, 0xCB6DFC626B4549B5, 0xFF5361EA15F22565]"
  by (simp add: keccak_round_eval)

lemma block_1_round_13:
  "keccak_round 0x000000008000808B
     [0x6D57F66257167BAC, 0x29B770936D0A7D0B, 0x5F8587DBBD4B7CE7, 0x88C0613918B40D61, 0x6A9E5DD70EA00052,
      0xD5D233CB10C77FDF, 0xC77843DFECF3BE61, 0x1F5A2F47032B574E, 0xC6E1158FED74CDF5, 0x7771C825007A94EE,
      0xD217D82C161CE6F8, 0xD1D4193CE9C06009, 0x7138C0418564EB51, 0xC86D211652AE9875, 0xEA9AB82269DBCA0B,
      0xF8005125CEEA1FFA, 0xEA1AF0E290DACA43, 0x6585464DC1FB07C6, 0x8FFF980E9FE72705, 0x5CCF3FF6D5C8F5C1,
      0x0D39BB447E96365C, 0x82F9A5F69A38C9FE, 0x42C8E75AA5D050DD, 0xCB6DFC626B4549B5, 0xFF5361EA15F22565]
   = [0xBE5F3B65311F3488, 0x172835BC7A78EBC7, 0x1D73451987BC2A01, 0xDBB5CDD58C8624F7, 0xEE5B654F233B8B86,
      0xA8EC686AE3FAC4CE, 0xE78C0F4F5C5ABEC7, 0x5A723D23E88168A9, 0x255B4B1691FBDD84, 0x50109A65C0125895,
      0xBE9129C0050111CD, 0x03ECFDB19D370D52, 0x1387EC0DE0643A1E, 0x6073FAC16755E8E0, 0x980CB65A7DE914B2,
      0x1DB44DDAD6B8BD16, 0x20B38706A977BE97, 0xF9D1275AAA318D8E, 0x29D8EA5CA15D7BFC, 0x507F17D219795D23,
      0x017166CBDF832DFA, 0x5DBC6699DC765623, 0xBA2A04928DF3A7F8, 0xEEC0CAC6FBBA4B7A, 0xD8138E0F3724A655]"
  by (simp add: keccak_round_eval)

lemma block_1_round_14:
  "keccak_round 0x800000000000008B
     [0xBE5F3B65311F3488, 0x172835BC7A78EBC7, 0x1D73451987BC2A01, 0xDBB5CDD58C8624F7, 0xEE5B654F233B8B86,
      0xA8EC686AE3FAC4CE, 0xE78C0F4F5C5ABEC7, 0x5A723D23E88168A9, 0x255B4B1691FBDD84, 0x50109A65C0125895,
      0xBE9129C0050111CD, 0x03ECFDB19D370D52, 0x1387EC0DE0643A1E, 0x6073FAC16755E8E0, 0x980CB65A7DE914B2,
      0x1DB44DDAD6B8BD16, 0x20B38706A977BE97, 0xF9D1275AAA318D8E, 0x29D8EA5CA15D7BFC, 0x507F17D219795D23,
      0x017166CBDF832DFA, 0x5DBC6699DC765623, 0xBA2A04928DF3A7F8, 0xEEC0CAC6FBBA4B7A, 0xD8138E0F3724A655]
   = [0xCCBE36554D226B5D, 0xBFAB09510376B13B, 0x760431631A9CA37F, 0x9FBD1BE816E45FDF, 0x2E4AAB1D5B777E3F,
      0x35F25079C0019FBF, 0xD84FC77D06F285F5, 0x7105469B4DE16C9C, 0xC95C17C5FE2431C2, 0xD0E9756FD4B92AA6,
      0x1A7D5F3DF7325CC1, 0xFB48A599C26ED179, 0x004AE1DEDD56B5CB, 0x24E0E4A620BEC960, 0x2AF76C5DC3464E4B,
      0x56F41248BD9004F0, 0xE8B80FD5201E77C4, 0xC2AA284B3B74CF47, 0x1C0982DF3B61E6DD, 0xB5AC67DD623D486C,
      0x404732ED208D24B3, 0x643731A4D92D2D7F, 0x4A6AD6F56FFABDF3, 0x59CE8D4223A02DD4, 0x2B316AE3975E025B]"
  by (simp add: keccak_round_eval)

lemma block_1_round_15:
  "keccak_round 0x8000000000008089
     [0xCCBE36554D226B5D, 0xBFAB09510376B13B, 0x760431631A9CA37F, 0x9FBD1BE816E45FDF, 0x2E4AAB1D5B777E3F,
      0x35F25079C0019FBF, 0xD84FC77D06F285F5, 0x7105469B4DE16C9C, 0xC95C17C5FE2431C2, 0xD0E9756FD4B92AA6,
      0x1A7D5F3DF7325CC1, 0xFB48A599C26ED179, 0x004AE1DEDD56B5CB, 0x24E0E4A620BEC960, 0x2AF76C5DC3464E4B,
      0x56F41248BD9004F0, 0xE8B80FD5201E77C4, 0xC2AA284B3B74CF47, 0x1C0982DF3B61E6DD, 0xB5AC67DD623D486C,
      0x404732ED208D24B3, 0x643731A4D92D2D7F, 0x4A6AD6F56FFABDF3, 0x59CE8D4223A02DD4, 0x2B316AE3975E025B]
   = [0xA8201A1E8A7AFF3D, 0x41C8432D60DFC5EB, 0xEDB45BC92D4A87DB, 0x8C82C2C971208232, 0xAE6DE35F2F3E3DB7,
      0xBD2B236802194194, 0x094D01B16198CCB2, 0x65BA54839D5221E3, 0x04D2D60D98BA4FDE, 0xE6BC0936FF2B3968,
      0xBB7701E8DE1D7120, 0xEE577C880282D60A, 0xAA5B8BC04C75D3E4, 0x4C9FA2D4097489AD, 0x9953CF4028BA2523,
      0x220AEA5457B4C3BC, 0x4DDA142CA3851080, 0xF3B6F6F288AE8143, 0x49FD5A6DD241DEF9, 0xC7D2C2BA59CEDF84,
      0x727AF7D9A19AE104, 0x4A2DA2005B28095D, 0xDA929BFD137E4166, 0x50341058564D83D7, 0x328EE486138FDA52]"
  by (simp add: keccak_round_eval)

lemma block_1_round_16:
  "keccak_round 0x8000000000008003
     [0xA8201A1E8A7AFF3D, 0x41C8432D60DFC5EB, 0xEDB45BC92D4A87DB, 0x8C82C2C971208232, 0xAE6DE35F2F3E3DB7,
      0xBD2B236802194194, 0x094D01B16198CCB2, 0x65BA54839D5221E3, 0x04D2D60D98BA4FDE, 0xE6BC0936FF2B3968,
      0xBB7701E8DE1D7120, 0xEE577C880282D60A, 0xAA5B8BC04C75D3E4, 0x4C9FA2D4097489AD, 0x9953CF4028BA2523,
      0x220AEA5457B4C3BC, 0x4DDA142CA3851080, 0xF3B6F6F288AE8143, 0x49FD5A6DD241DEF9, 0xC7D2C2BA59CEDF84,
      0x727AF7D9A19AE104, 0x4A2DA2005B28095D, 0xDA929BFD137E4166, 0x50341058564D83D7, 0x328EE486138FDA52]
   = [0x87ADA8FB5EC0C51D, 0x04E51E1E4F7AE4EB, 0xCDBCA4789B8B1316, 0x726E040CA281341C, 0x24A31BF3276D0405,
      0x7B241799ADF67242, 0xE385D60D8A0C432A, 0xC7279D35912E869C, 0xD5C8762EA48219C5, 0x787EFD77E6325E8F,
      0x025968E81FE00651, 0xACE9AC7E72B564FB, 0xE6952C6820DCF783, 0x8C7CD015923C0CA6, 0x36778296C0D93B31,
      0x685BAA77D87BBEB0, 0x632E923CA16B5081, 0xDA38E54861172C2A, 0xC3095B0132A2E6CF, 0x7836F9F7D5D42C3A,
      0xF9F71AAEE1C91CE4, 0x3BA70F9DC88F2DF8, 0xF5FB57B8E6B0BF5E, 0x22731C033803E0A7, 0x8B095574C00A5F63]"
  by (simp add: keccak_round_eval)

lemma block_1_round_17:
  "keccak_round 0x8000000000008002
     [0x87ADA8FB5EC0C51D, 0x04E51E1E4F7AE4EB, 0xCDBCA4789B8B1316, 0x726E040CA281341C, 0x24A31BF3276D0405,
      0x7B241799ADF67242, 0xE385D60D8A0C432A, 0xC7279D35912E869C, 0xD5C8762EA48219C5, 0x787EFD77E6325E8F,
      0x025968E81FE00651, 0xACE9AC7E72B564FB, 0xE6952C6820DCF783, 0x8C7CD015923C0CA6, 0x36778296C0D93B31,
      0x685BAA77D87BBEB0, 0x632E923CA16B5081, 0xDA38E54861172C2A, 0xC3095B0132A2E6CF, 0x7836F9F7D5D42C3A,
      0xF9F71AAEE1C91CE4, 0x3BA70F9DC88F2DF8, 0xF5FB57B8E6B0BF5E, 0x22731C033803E0A7, 0x8B095574C00A5F63]
   = [0x982ED8F376C70569, 0xDDE8303661EF51AC, 0x79167F17B1EE7C0E, 0x9ED6FB66AEA1F5C4, 0x1CB99D131E9877D0,
      0x325C670A451182AF, 0x7E59263DF286463F, 0xE439D3877F1E29AD, 0xE42CA3713F5007FF, 0x02764CC6527329A6,
      0x5C006CEDB3E62B58, 0x737BE4DD0F593430, 0x4427A7A874F9354D, 0x36D62D65836BBB7D, 0x8732A769C6188D8C,
      0x289BC1BC81D2F983, 0x9F74026A0720CF3C, 0x2E920FD922C92810, 0xEB7E89036F21BEBF, 0x49D2976ABEBD6D24,
      0xD3F22DE6CD6038C6, 0x26B2378EE4B28AE6, 0x439D5D01178D837D, 0x4B5EC9CD5906F678, 0x61000F9539CBB747]"
  by (simp add: keccak_round_eval)

lemma block_1_round_18:
  "keccak_round 0x8000000000000080
     [0x982ED8F376C70569, 0xDDE8303661EF51AC, 0x79167F17B1EE7C0E, 0x9ED6FB66AEA1F5C4, 0x1CB99D131E9877D0,
      0x325C670A451182AF, 0x7E59263DF286463F, 0xE439D3877F1E29AD, 0xE42CA3713F5007FF, 0x02764CC6527329A6,
      0x5C006CEDB3E62B58, 0x737BE4DD0F593430, 0x4427A7A874F9354D, 0x36D62D65836BBB7D, 0x8732A769C6188D8C,
      0x289BC1BC81D2F983, 0x9F74026A0720CF3C, 0x2E920FD922C92810, 0xEB7E89036F21BEBF, 0x49D2976ABEBD6D24,
      0xD3F22DE6CD6038C6, 0x26B2378EE4B28AE6, 0x439D5D01178D837D, 0x4B5EC9CD5906F678, 0x61000F9539CBB747]
   = [0x7B1936DD9452D092, 0x7FF071F08B0B86C9, 0x1B81BEB98247131F, 0xE6AFF40CC5E564C1, 0x91EB203CD1F507C7,
      0x822E608744A8D6F9, 0x7872E5A309DFCEE6, 0x21F146734D1D75D9, 0x27125F9A315CF987, 0x8201A2015D3DBCC0,
      0x75DB71F6EDAD5EE1, 0xA38FF05275A5377A, 0x112EEC4369C1DD50, 0xA8274A7305FE075F, 0x3D007C87E6A4E205,
      0x15B80E5F3E4F9EB1, 0x3D4CFC4DB2243D59, 0x31B54F310A73B075, 0x44C9832BB2A55152, 0xA099764CAB6D2164,
      0x6222717FE5EFA24D, 0x81C93A1450D4992D, 0xD82DF1B804DAE434, 0x1679C0447A0330F2, 0x8B07E604D0BDC94B]"
  by (simp add: keccak_round_eval)

lemma block_1_round_19:
  "keccak_round 0x000000000000800A
     [0x7B1936DD9452D092, 0x7FF071F08B0B86C9, 0x1B81BEB98247131F, 0xE6AFF40CC5E564C1, 0x91EB203CD1F507C7,
      0x822E608744A8D6F9, 0x7872E5A309DFCEE6, 0x21F146734D1D75D9, 0x27125F9A315CF987, 0x8201A2015D3DBCC0,
      0x75DB71F6EDAD5EE1, 0xA38FF05275A5377A, 0x112EEC4369C1DD50, 0xA8274A7305FE075F, 0x3D007C87E6A4E205,
      0x15B80E5F3E4F9EB1, 0x3D4CFC4DB2243D59, 0x31B54F310A73B075, 0x44C9832BB2A55152, 0xA099764CAB6D2164,
      0x6222717FE5EFA24D, 0x81C93A1450D4992D, 0xD82DF1B804DAE434, 0x1679C0447A0330F2, 0x8B07E604D0BDC94B]
   = [0x47F41708AEA547FF, 0x5734D4689D336F76, 0x7B88DBDBBC5E397C, 0x9BFF29489B999AB3, 0xED66294CAE95F9B0,
      0x803AA212C27A183E, 0xC92A9378BF4CFCFF, 0x2BFCDF2EB8D1D57A, 0xD0F0E476BCB000A4, 0xEFDE13F6B557FD4D,
      0x2603DAEF5B326A48, 0x9B48DB8095C44297, 0x0F8F4B1530495B6B, 0x5D655DE70920124D, 0xA5DF7842104D598E,
      0x6BADB7A000E36ABD, 0xE571997B64B58CD7, 0xF8333EABFED2CF7C, 0x541F3618D4130EB4, 0xFF8E5FFCC4E5CCFF,
      0x4DDF36953923CFD2, 0xA5648A17A7153BBA, 0x4920EADC62270BDB, 0xE024B85BDA497E09, 0xFCE852679F448BFB]"
  by (simp add: keccak_round_eval)

lemma block_1_round_20:
  "keccak_round 0x800000008000000A
     [0x47F41708AEA547FF, 0x5734D4689D336F76, 0x7B88DBDBBC5E397C, 0x9BFF29489B999AB3, 0xED66294CAE95F9B0,
      0x803AA212C27A183E, 0xC92A9378BF4CFCFF, 0x2BFCDF2EB8D1D57A, 0xD0F0E476BCB000A4, 0xEFDE13F6B557FD4D,
      0x2603DAEF5B326A48, 0x9B48DB8095C44297, 0x0F8F4B1530495B6B, 0x5D655DE70920124D, 0xA5DF7842104D598E,
      0x6BADB7A000E36ABD, 0xE571997B64B58CD7, 0xF8333EABFED2CF7C, 0x541F3618D4130EB4, 0xFF8E5FFCC4E5CCFF,
      0x4DDF36953923CFD2, 0xA5648A17A7153BBA, 0x4920EADC62270BDB, 0xE024B85BDA497E09, 0xFCE852679F448BFB]
   = [0x6F3477D0A5FB1143, 0x39A1CABC44996890, 0x2A22D821734EC876, 0x201B88893037DFA8, 0xB4D7E0F754B41A61,
      0xD91B2FDC7AD09201, 0x959819B2A67E2E1A, 0x642473A71B949648, 0xCF53DB3A8912871E, 0xEFD8BB208EFF5E80,
      0xF2B49D0746573E3B, 0x07C719F3375070C8, 0x74209EAED1FF1694, 0xA218FDFB6FE5E5D8, 0x9D71644C7C0D0CE5,
      0xAC95FC00C212D552, 0xE01CAAEBEBEF447E, 0xB04FB5A63E459014, 0xD6A1C437F8603DAB, 0x2E6ECC47231F0EBC,
      0x3CDA08408A3D2BA4, 0x158305FA94D83CC2, 0x2AC15525D8ECAC10, 0xF5EA488E55CEFFE1, 0x3C084AD3F4BB7725]"
  by (simp add: keccak_round_eval)

lemma block_1_round_21:
  "keccak_round 0x8000000080008081
     [0x6F3477D0A5FB1143, 0x39A1CABC44996890, 0x2A22D821734EC876, 0x201B88893037DFA8, 0xB4D7E0F754B41A61,
      0xD91B2FDC7AD09201, 0x959819B2A67E2E1A, 0x642473A71B949648, 0xCF53DB3A8912871E, 0xEFD8BB208EFF5E80,
      0xF2B49D0746573E3B, 0x07C719F3375070C8, 0x74209EAED1FF1694, 0xA218FDFB6FE5E5D8, 0x9D71644C7C0D0CE5,
      0xAC95FC00C212D552, 0xE01CAAEBEBEF447E, 0xB04FB5A63E459014, 0xD6A1C437F8603DAB, 0x2E6ECC47231F0EBC,
      0x3CDA08408A3D2BA4, 0x158305FA94D83CC2, 0x2AC15525D8ECAC10, 0xF5EA488E55CEFFE1, 0x3C084AD3F4BB7725]
   = [0x82DF12B424DC3DCF, 0x380400059A303F83, 0x9F945DEB1DF13C8F, 0x750A810747C3C60C, 0x9AADCB5DBBE5FE6F,
      0x8BD5F002C68432B3, 0xB8E5F34A49A0C69F, 0x93753E8F452C91D4, 0x9510BEB1A416F0D7, 0xE132CDDD59A48798,
      0x596BB0E65CF18481, 0xDCDCCA4BB6AB3AF0, 0xBFF5C1E0935452B4, 0xCD8C21FA9756036D, 0x6ECEF16FBD1D6B39,
      0x8467FE76B0F30F4C, 0xA3F3E6038C04C1A1, 0x3E26FB8744C0ECA9, 0xC2D6B51C50433808, 0x17FD73E637ED5649,
      0x8805740AEBC48E22, 0x45E3E5BED99705C5, 0xE2F2773A01504550, 0xCAF767889E9D2BFD, 0x45F8FEABEE54790A]"
  by (simp add: keccak_round_eval)

lemma block_1_round_22:
  "keccak_round 0x8000000000008080
     [0x82DF12B424DC3DCF, 0x380400059A303F83, 0x9F945DEB1DF13C8F, 0x750A810747C3C60C, 0x9AADCB5DBBE5FE6F,
      0x8BD5F002C68432B3, 0xB8E5F34A49A0C69F, 0x93753E8F452C91D4, 0x9510BEB1A416F0D7, 0xE132CDDD59A48798,
      0x596BB0E65CF18481, 0xDCDCCA4BB6AB3AF0, 0xBFF5C1E0935452B4, 0xCD8C21FA9756036D, 0x6ECEF16FBD1D6B39,
      0x8467FE76B0F30F4C, 0xA3F3E6038C04C1A1, 0x3E26FB8744C0ECA9, 0xC2D6B51C50433808, 0x17FD73E637ED5649,
      0x8805740AEBC48E22, 0x45E3E5BED99705C5, 0xE2F2773A01504550, 0xCAF767889E9D2BFD, 0x45F8FEABEE54790A]
   = [0x011CCD255B6F8B69, 0x0A1023B467F16A45, 0x104D57B8E90CC6A8, 0x5D4B6A2221E47E8C, 0x6688A55F768BA612,
      0xFE6C7F1499661567, 0x190088514B9DC63F, 0x9139E3359A85F1A1, 0x30E2C03E0D0DAA91, 0xC3F49ACD0E3989C3,
      0x770702A847707B1C, 0xCCE104C243929292, 0xAE491ADCB0C309D0, 0x5D086F7689643EDA, 0x67885086FA7C68AD,
      0x8A7C776C4278EDE3, 0x135782BACC3D3FA0, 0xAC104EA8BA7D3579, 0x2A13A02953F3460A, 0xE02B9F2F799A5E06,
      0x49B1BDF1CF3CC8E0, 0x6DE9BD34A632EA66, 0x2FAC28F9BF4A7627, 0xCE4F995685F31CAE, 0xBD8B8786A06DAFE5]"
  by (simp add: keccak_round_eval)

lemma block_1_round_23:
  "keccak_round 0x0000000080000001
     [0x011CCD255B6F8B69, 0x0A1023B467F16A45, 0x104D57B8E90CC6A8, 0x5D4B6A2221E47E8C, 0x6688A55F768BA612,
      0xFE6C7F1499661567, 0x190088514B9DC63F, 0x9139E3359A85F1A1, 0x30E2C03E0D0DAA91, 0xC3F49ACD0E3989C3,
      0x770702A847707B1C, 0xCCE104C243929292, 0xAE491ADCB0C309D0, 0x5D086F7689643EDA, 0x67885086FA7C68AD,
      0x8A7C776C4278EDE3, 0x135782BACC3D3FA0, 0xAC104EA8BA7D3579, 0x2A13A02953F3460A, 0xE02B9F2F799A5E06,
      0x49B1BDF1CF3CC8E0, 0x6DE9BD34A632EA66, 0x2FAC28F9BF4A7627, 0xCE4F995685F31CAE, 0xBD8B8786A06DAFE5]
   = [0x9CD656CEE22759AA, 0x0DB62233826049B5, 0x4D934D73CA3AC211, 0xB67574A2DE43C77B, 0x80E6F0D773E93BD4,
      0xD77E84E369A6FCF1, 0x2D939CFED82F26D3, 0xD202AA3ABFF0C855, 0x418B66DDC955C95B, 0xECE35017DBBC1CB1,
      0x29C38323026CE226, 0xC167CF9C33BE9705, 0x159A99DC451E52D8, 0xB396B27B2A0AE5B7, 0xEE5A1306B91841EB,
      0x7093E9BFDDAC2D2B, 0x8BC3FA10B33ADFBE, 0x67F35DA976139E75, 0x13B6244B4E405230, 0x9D1874FE0EA76F98,
      0x87125DCEC279DF50, 0x14C3655ECC7D83FC, 0x7D6D6A5281380C0C, 0x472441A52E6B9435, 0xED807CF5ABD1456C]"
  by (simp add: keccak_round_eval)

lemma block_1_round_24:
  "keccak_round 0x8000000080008008
     [0x9CD656CEE22759AA, 0x0DB62233826049B5, 0x4D934D73CA3AC211, 0xB67574A2DE43C77B, 0x80E6F0D773E93BD4,
      0xD77E84E369A6FCF1, 0x2D939CFED82F26D3, 0xD202AA3ABFF0C855, 0x418B66DDC955C95B, 0xECE35017DBBC1CB1,
      0x29C38323026CE226, 0xC167CF9C33BE9705, 0x159A99DC451E52D8, 0xB396B27B2A0AE5B7, 0xEE5A1306B91841EB,
      0x7093E9BFDDAC2D2B, 0x8BC3FA10B33ADFBE, 0x67F35DA976139E75, 0x13B6244B4E405230, 0x9D1874FE0EA76F98,
      0x87125DCEC279DF50, 0x14C3655ECC7D83FC, 0x7D6D6A5281380C0C, 0x472441A52E6B9435, 0xED807CF5ABD1456C]
   = [0x279A337DBA31EEDA, 0xC2F1F8B53EB98C9F, 0xBD4EECD4AF509F66, 0x55D838383F4DDD93, 0xDC99FE25C43875A7,
      0x7B19A956F524F495, 0x73CAEEC592CD39CB, 0x3C1E2697DDDF3AD1, 0xECEACFE4E9B4B5DB, 0xA479475227751621,
      0x62E4A80832CEDBE9, 0x4F0314546A2DD285, 0xD58F03EF430F3959, 0x2573687FF364D517, 0xE5E638FBA5A32142,
      0x80F50BC239CF4F2E, 0x0F1E89D983EE2D2F, 0xBFE2EAB3A6DEC312, 0x0C342CE5BDE6111A, 0x2A38BA62D281D2C7,
      0x0E88386CB3348EE5, 0x75CA4C391523FE44, 0x2F0F7368EE6C0DA2, 0xF0D326F1AA0C9B88, 0x211E0B7352E9ECCE]"
  by (simp add: keccak_round_eval)

lemma block_1_permutation:
  "keccak_f1600
     [0xA3A3A3A3A3A3A3A3, 0xA3A3A3A3A3A3A3A3, 0xA3A3A3A3A3A3A3A3, 0xA3A3A3A3A3A3A3A3, 0xA3A3A3A3A3A3A3A3,
      0xA3A3A3A3A3A3A3A3, 0xA3A3A3A3A3A3A3A3, 0xA3A3A3A3A3A3A3A3, 0xA3A3A3A3A3A3A3A3, 0xA3A3A3A3A3A3A3A3,
      0xA3A3A3A3A3A3A3A3, 0xA3A3A3A3A3A3A3A3, 0xA3A3A3A3A3A3A3A3, 0xA3A3A3A3A3A3A3A3, 0xA3A3A3A3A3A3A3A3,
      0xA3A3A3A3A3A3A3A3, 0xA3A3A3A3A3A3A3A3, 0x0000000000000000, 0x0000000000000000, 0x0000000000000000,
      0x0000000000000000, 0x0000000000000000, 0x0000000000000000, 0x0000000000000000, 0x0000000000000000]
   = [0x279A337DBA31EEDA, 0xC2F1F8B53EB98C9F, 0xBD4EECD4AF509F66, 0x55D838383F4DDD93, 0xDC99FE25C43875A7,
      0x7B19A956F524F495, 0x73CAEEC592CD39CB, 0x3C1E2697DDDF3AD1, 0xECEACFE4E9B4B5DB, 0xA479475227751621,
      0x62E4A80832CEDBE9, 0x4F0314546A2DD285, 0xD58F03EF430F3959, 0x2573687FF364D517, 0xE5E638FBA5A32142,
      0x80F50BC239CF4F2E, 0x0F1E89D983EE2D2F, 0xBFE2EAB3A6DEC312, 0x0C342CE5BDE6111A, 0x2A38BA62D281D2C7,
      0x0E88386CB3348EE5, 0x75CA4C391523FE44, 0x2F0F7368EE6C0DA2, 0xF0D326F1AA0C9B88, 0x211E0B7352E9ECCE]"
  unfolding keccak_f1600_def keccak_round_constants_def
  by (simp only: fold_simps
      block_1_round_1 block_1_round_2 block_1_round_3
      block_1_round_4 block_1_round_5 block_1_round_6
      block_1_round_7 block_1_round_8 block_1_round_9
      block_1_round_10 block_1_round_11 block_1_round_12
      block_1_round_13 block_1_round_14 block_1_round_15
      block_1_round_16 block_1_round_17 block_1_round_18
      block_1_round_19 block_1_round_20 block_1_round_21
      block_1_round_22 block_1_round_23 block_1_round_24)

lemma block_2_lanes:
  "map (\<lambda>i. if i < sha3_256_rate div 8
              then [0x279A337DBA31EEDA, 0xC2F1F8B53EB98C9F, 0xBD4EECD4AF509F66, 0x55D838383F4DDD93, 0xDC99FE25C43875A7,
                    0x7B19A956F524F495, 0x73CAEEC592CD39CB, 0x3C1E2697DDDF3AD1, 0xECEACFE4E9B4B5DB, 0xA479475227751621,
                    0x62E4A80832CEDBE9, 0x4F0314546A2DD285, 0xD58F03EF430F3959, 0x2573687FF364D517, 0xE5E638FBA5A32142,
                    0x80F50BC239CF4F2E, 0x0F1E89D983EE2D2F, 0xBFE2EAB3A6DEC312, 0x0C342CE5BDE6111A, 0x2A38BA62D281D2C7,
                    0x0E88386CB3348EE5, 0x75CA4C391523FE44, 0x2F0F7368EE6C0DA2, 0xF0D326F1AA0C9B88, 0x211E0B7352E9ECCE] ! i XOR lane_of_bytes (take 8 (drop (8 * i) (take 136 (drop 136 (sha3_pad (replicate 200 0xA3))))))
              else [0x279A337DBA31EEDA, 0xC2F1F8B53EB98C9F, 0xBD4EECD4AF509F66, 0x55D838383F4DDD93, 0xDC99FE25C43875A7,
                    0x7B19A956F524F495, 0x73CAEEC592CD39CB, 0x3C1E2697DDDF3AD1, 0xECEACFE4E9B4B5DB, 0xA479475227751621,
                    0x62E4A80832CEDBE9, 0x4F0314546A2DD285, 0xD58F03EF430F3959, 0x2573687FF364D517, 0xE5E638FBA5A32142,
                    0x80F50BC239CF4F2E, 0x0F1E89D983EE2D2F, 0xBFE2EAB3A6DEC312, 0x0C342CE5BDE6111A, 0x2A38BA62D281D2C7,
                    0x0E88386CB3348EE5, 0x75CA4C391523FE44, 0x2F0F7368EE6C0DA2, 0xF0D326F1AA0C9B88, 0x211E0B7352E9ECCE] ! i)
       [0..<25]
   = [0x843990DE19924D79, 0x61525B169D1A2F3C, 0x1EED4F770CF33CC5, 0xF67B9B9B9CEE7E30, 0x7F3A5D86679BD604,
      0xD8BA0AF556875736, 0xD0694D66316E9A68, 0x9FBD85347E7C9972, 0xECEACFE4E9B4B5DD, 0xA479475227751621,
      0x62E4A80832CEDBE9, 0x4F0314546A2DD285, 0xD58F03EF430F3959, 0x2573687FF364D517, 0xE5E638FBA5A32142,
      0x80F50BC239CF4F2E, 0x8F1E89D983EE2D2F, 0xBFE2EAB3A6DEC312, 0x0C342CE5BDE6111A, 0x2A38BA62D281D2C7,
      0x0E88386CB3348EE5, 0x75CA4C391523FE44, 0x2F0F7368EE6C0DA2, 0xF0D326F1AA0C9B88, 0x211E0B7352E9ECCE]"
  by code_simp

lemma block_2_round_1:
  "keccak_round 0x0000000000000001
     [0x843990DE19924D79, 0x61525B169D1A2F3C, 0x1EED4F770CF33CC5, 0xF67B9B9B9CEE7E30, 0x7F3A5D86679BD604,
      0xD8BA0AF556875736, 0xD0694D66316E9A68, 0x9FBD85347E7C9972, 0xECEACFE4E9B4B5DD, 0xA479475227751621,
      0x62E4A80832CEDBE9, 0x4F0314546A2DD285, 0xD58F03EF430F3959, 0x2573687FF364D517, 0xE5E638FBA5A32142,
      0x80F50BC239CF4F2E, 0x8F1E89D983EE2D2F, 0xBFE2EAB3A6DEC312, 0x0C342CE5BDE6111A, 0x2A38BA62D281D2C7,
      0x0E88386CB3348EE5, 0x75CA4C391523FE44, 0x2F0F7368EE6C0DA2, 0xF0D326F1AA0C9B88, 0x211E0B7352E9ECCE]
   = [0xAC639C52DC9EFBE3, 0xEB2BCFC5CCD43368, 0x17379ABB014B1101, 0x6DA157DF3294FB4B, 0xCC1709DE7C5F608B,
      0xD2D958CCB387E5C1, 0x25DFDC10282464C2, 0xD175ACE704BB4DB2, 0x537FB6C701039C15, 0x10B9BD00BB8A223F,
      0x1A59FCDB1BA99FE0, 0x57C4F3CF440336C6, 0x7AE0AA33C9AC077C, 0x299F4DA605476019, 0xD7EBDEE0A3BC8B4F,
      0x9E80B7241F384A80, 0x2895308E4425EE3B, 0xFC8459BDF5D834A8, 0x602F72F4AB5C9482, 0x2A61E69ABA18514E,
      0xB758E90597F1306A, 0x2B81EE84E385673E, 0x2BDB6CA36A17F86D, 0x06F2217FC04C69D1, 0x3E72B3B021912CD5]"
  by (simp add: keccak_round_eval)

lemma block_2_round_2:
  "keccak_round 0x0000000000008082
     [0xAC639C52DC9EFBE3, 0xEB2BCFC5CCD43368, 0x17379ABB014B1101, 0x6DA157DF3294FB4B, 0xCC1709DE7C5F608B,
      0xD2D958CCB387E5C1, 0x25DFDC10282464C2, 0xD175ACE704BB4DB2, 0x537FB6C701039C15, 0x10B9BD00BB8A223F,
      0x1A59FCDB1BA99FE0, 0x57C4F3CF440336C6, 0x7AE0AA33C9AC077C, 0x299F4DA605476019, 0xD7EBDEE0A3BC8B4F,
      0x9E80B7241F384A80, 0x2895308E4425EE3B, 0xFC8459BDF5D834A8, 0x602F72F4AB5C9482, 0x2A61E69ABA18514E,
      0xB758E90597F1306A, 0x2B81EE84E385673E, 0x2BDB6CA36A17F86D, 0x06F2217FC04C69D1, 0x3E72B3B021912CD5]
   = [0xD7BDDF682C8B175A, 0xAE1FEA31FE8DC363, 0xF0CAE83F6B721B89, 0x32EC3F8B4CDF25C4, 0x081101B95A241541,
      0x79D0742503CF4289, 0x8A81EB92473FB45E, 0x0225FEEE4D2F6699, 0x16C4D60AA18603E7, 0x0C595E09DEE809B5,
      0x0697FE968BBC4DBD, 0x189E636E13507E2A, 0xDD52B3FFF6DBEC2F, 0xC8C70219074C8661, 0xB0CD9BB143264158,
      0x05DE43361AB1A9E1, 0xE0EA97AF9C01BF4C, 0x000D270F5487F726, 0xC86BE4854C67238D, 0x3353B7FFA32C0892,
      0x1BCA163E6F464552, 0x579F7551F2DE896D, 0x46C08D9EC2F04601, 0xE4D4F1DB31E8228C, 0x2106690A63FE60AB]"
  by (simp add: keccak_round_eval)

lemma block_2_round_3:
  "keccak_round 0x800000000000808A
     [0xD7BDDF682C8B175A, 0xAE1FEA31FE8DC363, 0xF0CAE83F6B721B89, 0x32EC3F8B4CDF25C4, 0x081101B95A241541,
      0x79D0742503CF4289, 0x8A81EB92473FB45E, 0x0225FEEE4D2F6699, 0x16C4D60AA18603E7, 0x0C595E09DEE809B5,
      0x0697FE968BBC4DBD, 0x189E636E13507E2A, 0xDD52B3FFF6DBEC2F, 0xC8C70219074C8661, 0xB0CD9BB143264158,
      0x05DE43361AB1A9E1, 0xE0EA97AF9C01BF4C, 0x000D270F5487F726, 0xC86BE4854C67238D, 0x3353B7FFA32C0892,
      0x1BCA163E6F464552, 0x579F7551F2DE896D, 0x46C08D9EC2F04601, 0xE4D4F1DB31E8228C, 0x2106690A63FE60AB]
   = [0x7B0205EFA3F9D46A, 0x624B36A1FECE66AC, 0xB916B7A6FE7268EE, 0x98449CAC36148BFB, 0xA593EF9E9616423F,
      0x6124E6C75243E278, 0x169EA64084DA554A, 0xBDE5AE2823CF354F, 0x41315077E1409814, 0x1F288E1401A71A74,
      0x14BCE0AB60D8CB6D, 0x3F20D02D81C68A8C, 0xBC289B9AB772AB30, 0x5B48F5BFED002A87, 0x5AF79410B3ACAFC6,
      0xC25E02CFAC25FB64, 0x64D845DD9EF66B64, 0x53730D36FF1B75F3, 0xED65D5E3844F037A, 0xB74091DB9EEB6961,
      0x2F437568E01CF195, 0xCC59291764F580A4, 0x5985589E90FEDC3B, 0xD746376B8AA142A5, 0x8E5DA1E4B62CF420]"
  by (simp add: keccak_round_eval)

lemma block_2_round_4:
  "keccak_round 0x8000000080008000
     [0x7B0205EFA3F9D46A, 0x624B36A1FECE66AC, 0xB916B7A6FE7268EE, 0x98449CAC36148BFB, 0xA593EF9E9616423F,
      0x6124E6C75243E278, 0x169EA64084DA554A, 0xBDE5AE2823CF354F, 0x41315077E1409814, 0x1F288E1401A71A74,
      0x14BCE0AB60D8CB6D, 0x3F20D02D81C68A8C, 0xBC289B9AB772AB30, 0x5B48F5BFED002A87, 0x5AF79410B3ACAFC6,
      0xC25E02CFAC25FB64, 0x64D845DD9EF66B64, 0x53730D36FF1B75F3, 0xED65D5E3844F037A, 0xB74091DB9EEB6961,
      0x2F437568E01CF195, 0xCC59291764F580A4, 0x5985589E90FEDC3B, 0xD746376B8AA142A5, 0x8E5DA1E4B62CF420]
   = [0x4CBB182D2483B931, 0x53776B14108C5C3C, 0xFC47ED7340A026FC, 0x22988A77935CBED1, 0x75D42F185BB2785F,
      0xA28BA000998C8825, 0xFF58EEC85F360B94, 0x813B681B710B6160, 0x06EB1C733354A93F, 0x8049C2C05B696C75,
      0xDBCDDBBA57905273, 0xEB0D3F82BAEDE003, 0x30E6BCC096B78D71, 0x188A3C7AE57CD7C8, 0x8307999070156363,
      0xF8CDDFE4A8DC5EE3, 0xD8E2D493A1C696F9, 0xD4AE457BB38AD923, 0xD3745D5B495B603C, 0x66E5C878DC959FCC,
      0x5A0BEB0E96B4E25C, 0x4041162F4CD2EA49, 0xD48A3616F312F8BF, 0x7AE9F9ABEF2A1DCC, 0x0E37DDAE8FA12B64]"
  by (simp add: keccak_round_eval)

lemma block_2_round_5:
  "keccak_round 0x000000000000808B
     [0x4CBB182D2483B931, 0x53776B14108C5C3C, 0xFC47ED7340A026FC, 0x22988A77935CBED1, 0x75D42F185BB2785F,
      0xA28BA000998C8825, 0xFF58EEC85F360B94, 0x813B681B710B6160, 0x06EB1C733354A93F, 0x8049C2C05B696C75,
      0xDBCDDBBA57905273, 0xEB0D3F82BAEDE003, 0x30E6BCC096B78D71, 0x188A3C7AE57CD7C8, 0x8307999070156363,
      0xF8CDDFE4A8DC5EE3, 0xD8E2D493A1C696F9, 0xD4AE457BB38AD923, 0xD3745D5B495B603C, 0x66E5C878DC959FCC,
      0x5A0BEB0E96B4E25C, 0x4041162F4CD2EA49, 0xD48A3616F312F8BF, 0x7AE9F9ABEF2A1DCC, 0x0E37DDAE8FA12B64]
   = [0x9435987B3BF6766F, 0x843BEE7173F7E554, 0xB2CCEE3F34C95E46, 0x34DC2D64A44A4BFC, 0x5F7C96520A41ED41,
      0x37189A2623736831, 0x289138A261A737F2, 0xF03A5F6B224B752B, 0xD0FAEF96A2DC977F, 0x2C796A6DE5ABDC87,
      0xBC69519030E7A26E, 0xEDE37DABD9F8D709, 0x0E98095676F10D6B, 0xE5494D567F59A9D5, 0xEDD03F0D1E3BB894,
      0x686AC35585D2D66E, 0x3F1FFB510C5915CA, 0x44FC13940DA1AC9D, 0x90C23660B0FAB4F9, 0xF81EDB506A4E5AF1,
      0xBBC3A2372D2E458F, 0xC63D8A69C14A9F80, 0x4FB993585ABC7215, 0xC056CAB12D975D65, 0x742313AD9CF21FAD]"
  by (simp add: keccak_round_eval)

lemma block_2_round_6:
  "keccak_round 0x0000000080000001
     [0x9435987B3BF6766F, 0x843BEE7173F7E554, 0xB2CCEE3F34C95E46, 0x34DC2D64A44A4BFC, 0x5F7C96520A41ED41,
      0x37189A2623736831, 0x289138A261A737F2, 0xF03A5F6B224B752B, 0xD0FAEF96A2DC977F, 0x2C796A6DE5ABDC87,
      0xBC69519030E7A26E, 0xEDE37DABD9F8D709, 0x0E98095676F10D6B, 0xE5494D567F59A9D5, 0xEDD03F0D1E3BB894,
      0x686AC35585D2D66E, 0x3F1FFB510C5915CA, 0x44FC13940DA1AC9D, 0x90C23660B0FAB4F9, 0xF81EDB506A4E5AF1,
      0xBBC3A2372D2E458F, 0xC63D8A69C14A9F80, 0x4FB993585ABC7215, 0xC056CAB12D975D65, 0x742313AD9CF21FAD]
   = [0xC742273CB9EA40AB, 0x4C92DFF023E91ADD, 0xFCB806A91BAEC5C8, 0x501B08DE8DB2C789, 0x89F00ED9B1203754,
      0x7B58861EE463F87B, 0xCD308A55FEEA1586, 0x703366B3B74B8DD2, 0x183B8DB4124E7C60, 0x0EA494BF68245D08,
      0x89045305B9675777, 0xDA98D2363DE04E8A, 0x4CAD5DC2862D0304, 0xB7CC388AF2D98833, 0x15383CE81D3BE778,
      0xA71EB9EBE8BFEC2E, 0x019E3E6453227B92, 0x00DA6C1E8C2712B0, 0x97C3B13F89DCE3B2, 0xE723ABE1F35430AD,
      0xEA708AB7A65DF909, 0xF6DB00E4612590F9, 0xD0ADDFFAEC9193DD, 0x784F0691A830CF16, 0x06922528FD2501C4]"
  by (simp add: keccak_round_eval)

lemma block_2_round_7:
  "keccak_round 0x8000000080008081
     [0xC742273CB9EA40AB, 0x4C92DFF023E91ADD, 0xFCB806A91BAEC5C8, 0x501B08DE8DB2C789, 0x89F00ED9B1203754,
      0x7B58861EE463F87B, 0xCD308A55FEEA1586, 0x703366B3B74B8DD2, 0x183B8DB4124E7C60, 0x0EA494BF68245D08,
      0x89045305B9675777, 0xDA98D2363DE04E8A, 0x4CAD5DC2862D0304, 0xB7CC388AF2D98833, 0x15383CE81D3BE778,
      0xA71EB9EBE8BFEC2E, 0x019E3E6453227B92, 0x00DA6C1E8C2712B0, 0x97C3B13F89DCE3B2, 0xE723ABE1F35430AD,
      0xEA708AB7A65DF909, 0xF6DB00E4612590F9, 0xD0ADDFFAEC9193DD, 0x784F0691A830CF16, 0x06922528FD2501C4]
   = [0x24606B5CD4EF2B78, 0x96BEE8B41D196D04, 0xD6DE0E15C700D6EA, 0xF58AE3EAAF6D051E, 0xF8FA797F5BFEFD84,
      0xC42557728A7E1D4A, 0xA2E98F4A7F06EFD3, 0x18300F68B795F23C, 0xF68B9A39B66FE0BE, 0x6BC04647C1FC02E2,
      0x78CA35A68AB0E3B6, 0xA311C7B50F1CF53C, 0x33045375F4854B84, 0x8AA3586DBEEA3B33, 0x406FED7145810142,
      0x057346E11349BC32, 0x7E81379584D583DA, 0x333BD05C64872344, 0xE088E18992724A30, 0x458FB4CC26D290B5,
      0x2D01E99BC82E3C63, 0x44FFC429A2E341EB, 0x7DA7D1FFDACAC0F2, 0x740AA558F9E3130F, 0xF8D577BD7C93B8FA]"
  by (simp add: keccak_round_eval)

lemma block_2_round_8:
  "keccak_round 0x8000000000008009
     [0x24606B5CD4EF2B78, 0x96BEE8B41D196D04, 0xD6DE0E15C700D6EA, 0xF58AE3EAAF6D051E, 0xF8FA797F5BFEFD84,
      0xC42557728A7E1D4A, 0xA2E98F4A7F06EFD3, 0x18300F68B795F23C, 0xF68B9A39B66FE0BE, 0x6BC04647C1FC02E2,
      0x78CA35A68AB0E3B6, 0xA311C7B50F1CF53C, 0x33045375F4854B84, 0x8AA3586DBEEA3B33, 0x406FED7145810142,
      0x057346E11349BC32, 0x7E81379584D583DA, 0x333BD05C64872344, 0xE088E18992724A30, 0x458FB4CC26D290B5,
      0x2D01E99BC82E3C63, 0x44FFC429A2E341EB, 0x7DA7D1FFDACAC0F2, 0x740AA558F9E3130F, 0xF8D577BD7C93B8FA]
   = [0x959FDDAAA1561F9F, 0xBA48B70388EFF44F, 0x8A01BFB3437CE83B, 0x0A66214F02116AB6, 0x3DED89DCAD97014A,
      0x08C75956C924AB63, 0xF491F480E8557D13, 0x61AF338C29EB7348, 0x1958C7520E481FC4, 0xF95BC99AC770DFDA,
      0xAC45B606CEC1D260, 0xC2A593D930E60F8B, 0x463D4C3C038BD393, 0xD4D4D7D4EEB4B039, 0x2F176E0716E6487A,
      0xA6481A1C9E618B1B, 0x39D8136F4DAD4868, 0x1A19658784ECA8C6, 0x24FA47A8D0C252AD, 0x2429639783462B73,
      0xA87BA7C54F11BF11, 0x064DA995F043D9E0, 0xB1AEA48B3E7AEC95, 0xD04379AA18E1E601, 0x0DBF4607D4BA773E]"
  by (simp add: keccak_round_eval)

lemma block_2_round_9:
  "keccak_round 0x000000000000008A
     [0x959FDDAAA1561F9F, 0xBA48B70388EFF44F, 0x8A01BFB3437CE83B, 0x0A66214F02116AB6, 0x3DED89DCAD97014A,
      0x08C75956C924AB63, 0xF491F480E8557D13, 0x61AF338C29EB7348, 0x1958C7520E481FC4, 0xF95BC99AC770DFDA,
      0xAC45B606CEC1D260, 0xC2A593D930E60F8B, 0x463D4C3C038BD393, 0xD4D4D7D4EEB4B039, 0x2F176E0716E6487A,
      0xA6481A1C9E618B1B, 0x39D8136F4DAD4868, 0x1A19658784ECA8C6, 0x24FA47A8D0C252AD, 0x2429639783462B73,
      0xA87BA7C54F11BF11, 0x064DA995F043D9E0, 0xB1AEA48B3E7AEC95, 0xD04379AA18E1E601, 0x0DBF4607D4BA773E]
   = [0x386A03BAD18FEF58, 0x23ECBE1F1DAF418A, 0x7C78149F110155F9, 0x00B2957B3B367D89, 0x56E6B8398EED5024,
      0x64654B05EA4271FE, 0x810022C6B0110572, 0xC18F7E91D2C133C0, 0x60110457DBCA33D1, 0x0D8C1AB7A1D38701,
      0xD098742D3AFD76FD, 0x3D33BEA075337604, 0x32D16E72EAAD3B92, 0x357A1A189EAEF16F, 0xCD5774A12D24B679,
      0x8F6DFEAC0E969F46, 0x9BD4FFDBF8027C4B, 0xF979968EC485FF93, 0x0A5C68E12628EB2B, 0xEDC2087DD7B4F05E,
      0x54D1E2307EEE4602, 0x3CDD8F6EACC50457, 0xD36EC8118CED8569, 0xF38D2606270D9FF7, 0xDCA09BEC03535081]"
  by (simp add: keccak_round_eval)

lemma block_2_round_10:
  "keccak_round 0x0000000000000088
     [0x386A03BAD18FEF58, 0x23ECBE1F1DAF418A, 0x7C78149F110155F9, 0x00B2957B3B367D89, 0x56E6B8398EED5024,
      0x64654B05EA4271FE, 0x810022C6B0110572, 0xC18F7E91D2C133C0, 0x60110457DBCA33D1, 0x0D8C1AB7A1D38701,
      0xD098742D3AFD76FD, 0x3D33BEA075337604, 0x32D16E72EAAD3B92, 0x357A1A189EAEF16F, 0xCD5774A12D24B679,
      0x8F6DFEAC0E969F46, 0x9BD4FFDBF8027C4B, 0xF979968EC485FF93, 0x0A5C68E12628EB2B, 0xEDC2087DD7B4F05E,
      0x54D1E2307EEE4602, 0x3CDD8F6EACC50457, 0xD36EC8118CED8569, 0xF38D2606270D9FF7, 0xDCA09BEC03535081]
   = [0xAE88E18D3B6EBF53, 0x1F64B98DD174DA02, 0xC7358FB4A5F9C148, 0x47EC5AD9EE1EB277, 0x96ACEFEDBE45779B,
      0x5F20AD88FE12D49E, 0xF7A193C2E4029521, 0xE55DA27BF62817F3, 0x09767D432D70BD2C, 0x76F6606D7E89222A,
      0x71CE57AD3F5E3E7B, 0xC220ECA8197BBD80, 0x0CF6E0BE7BBBEB97, 0xE98DA7E94781FF8B, 0x0A7F6A5C49278908,
      0x1895F7CF4EA1816E, 0x45E003DB383ABE7C, 0x68A5A3FE4C8F53A1, 0x37720E1813564C1B, 0xE33A0AE7B9A1C13B,
      0xA725E37858990723, 0x5DD5C7FADC8E9ACA, 0x61CFB66FC6F85F74, 0xFEB99BD63CDD1792, 0xC690669ADA1F77E4]"
  by (simp add: keccak_round_eval)

lemma block_2_round_11:
  "keccak_round 0x0000000080008009
     [0xAE88E18D3B6EBF53, 0x1F64B98DD174DA02, 0xC7358FB4A5F9C148, 0x47EC5AD9EE1EB277, 0x96ACEFEDBE45779B,
      0x5F20AD88FE12D49E, 0xF7A193C2E4029521, 0xE55DA27BF62817F3, 0x09767D432D70BD2C, 0x76F6606D7E89222A,
      0x71CE57AD3F5E3E7B, 0xC220ECA8197BBD80, 0x0CF6E0BE7BBBEB97, 0xE98DA7E94781FF8B, 0x0A7F6A5C49278908,
      0x1895F7CF4EA1816E, 0x45E003DB383ABE7C, 0x68A5A3FE4C8F53A1, 0x37720E1813564C1B, 0xE33A0AE7B9A1C13B,
      0xA725E37858990723, 0x5DD5C7FADC8E9ACA, 0x61CFB66FC6F85F74, 0xFEB99BD63CDD1792, 0xC690669ADA1F77E4]
   = [0x5DAE6AA5D440E23A, 0x8676B058E36024D2, 0x535B855E6C4A1BEE, 0xB3CDF99565F9FB3F, 0x3916AA0B3C437138,
      0xE884957C3C71F88F, 0xBE30FF333C764A67, 0xEF1E8D4A2BD6C846, 0xC9C4A2BFC340D206, 0x67A4BB788B171B9A,
      0xCEB602839A2ADCCE, 0xC763F0509668C520, 0x2132E6007B92ECD1, 0x08A765CA02CD54E4, 0xBC107FE701B93529,
      0x52607119883AC3A3, 0xD3610C15D1735B6E, 0x5F0FC8C5787E0ED8, 0x9D0948F669B7C6E7, 0xA7475E76258A72BA,
      0xF9157886C9725C6A, 0x08D4CABB006AE3CE, 0x8A63731D05B8C619, 0x46984C6778B59618, 0xB3E162C8E2B50888]"
  by (simp add: keccak_round_eval)

lemma block_2_round_12:
  "keccak_round 0x000000008000000A
     [0x5DAE6AA5D440E23A, 0x8676B058E36024D2, 0x535B855E6C4A1BEE, 0xB3CDF99565F9FB3F, 0x3916AA0B3C437138,
      0xE884957C3C71F88F, 0xBE30FF333C764A67, 0xEF1E8D4A2BD6C846, 0xC9C4A2BFC340D206, 0x67A4BB788B171B9A,
      0xCEB602839A2ADCCE, 0xC763F0509668C520, 0x2132E6007B92ECD1, 0x08A765CA02CD54E4, 0xBC107FE701B93529,
      0x52607119883AC3A3, 0xD3610C15D1735B6E, 0x5F0FC8C5787E0ED8, 0x9D0948F669B7C6E7, 0xA7475E76258A72BA,
      0xF9157886C9725C6A, 0x08D4CABB006AE3CE, 0x8A63731D05B8C619, 0x46984C6778B59618, 0xB3E162C8E2B50888]
   = [0x62AFCBB41005F5E3, 0x6F1A2EAFFA82EBDC, 0x8D298EAEC76B78C8, 0xAF5B78CBD5CB227F, 0x610CD8130FB1E6C1,
      0xD8F94479C15DE8E9, 0xB9150E195F9FF092, 0x8E95319EED308922, 0xFDDDC245CB708C36, 0x3F9527CD626465EB,
      0x0C129ECAAF5C0429, 0x76AC831057C4D921, 0xE15363D97B586968, 0x22CC53F4DBECD98F, 0x163E208D2EC55141,
      0xA75C9F6178435BC7, 0xD69E74A578135337, 0xE39E3E1FF5C54314, 0xE6C5D138A3D11635, 0x8361AB39FDDADD3A,
      0x992C76584BF65CEF, 0x2FB6AB291210A7A5, 0x14FBA15A3C574A48, 0xC4C1C1DAACB03114, 0x46BCDE3B52A1D621]"
  by (simp add: keccak_round_eval)

lemma block_2_round_13:
  "keccak_round 0x000000008000808B
     [0x62AFCBB41005F5E3, 0x6F1A2EAFFA82EBDC, 0x8D298EAEC76B78C8, 0xAF5B78CBD5CB227F, 0x610CD8130FB1E6C1,
      0xD8F94479C15DE8E9, 0xB9150E195F9FF092, 0x8E95319EED308922, 0xFDDDC245CB708C36, 0x3F9527CD626465EB,
      0x0C129ECAAF5C0429, 0x76AC831057C4D921, 0xE15363D97B586968, 0x22CC53F4DBECD98F, 0x163E208D2EC55141,
      0xA75C9F6178435BC7, 0xD69E74A578135337, 0xE39E3E1FF5C54314, 0xE6C5D138A3D11635, 0x8361AB39FDDADD3A,
      0x992C76584BF65CEF, 0x2FB6AB291210A7A5, 0x14FBA15A3C574A48, 0xC4C1C1DAACB03114, 0x46BCDE3B52A1D621]
   = [0x7FE311F065BAD06D, 0x5CDE73A7D70EC670, 0x46F158FB61C65399, 0xCEFC6BE620173711, 0x75E780FE7CB1E336,
      0x583C94670E0A42E5, 0xCE933B84D0D79BA2, 0xC3DBC73BB219BE36, 0x2D905EA3C97A04C0, 0xDFBE86C8B7A9A2AD,
      0x8F64F7140C79CE56, 0xE06F2970EF270C1C, 0x666755F6415D7389, 0x4EA67EBC8290EA16, 0xF1F958CFC0109D08,
      0x892734D09B9B4689, 0x8027E62EC950E3D1, 0x10B85EEB4E7E2B44, 0xC8B67CB8E20287C9, 0x6BCB7CF8B5ACD742,
      0x940948ED7A675F56, 0xB5B9527AC44FD017, 0xCA9F98A3969494BF, 0xF5DA1B76216FD8FF, 0x32AB403B3F0AE84B]"
  by (simp add: keccak_round_eval)

lemma block_2_round_14:
  "keccak_round 0x800000000000008B
     [0x7FE311F065BAD06D, 0x5CDE73A7D70EC670, 0x46F158FB61C65399, 0xCEFC6BE620173711, 0x75E780FE7CB1E336,
      0x583C94670E0A42E5, 0xCE933B84D0D79BA2, 0xC3DBC73BB219BE36, 0x2D905EA3C97A04C0, 0xDFBE86C8B7A9A2AD,
      0x8F64F7140C79CE56, 0xE06F2970EF270C1C, 0x666755F6415D7389, 0x4EA67EBC8290EA16, 0xF1F958CFC0109D08,
      0x892734D09B9B4689, 0x8027E62EC950E3D1, 0x10B85EEB4E7E2B44, 0xC8B67CB8E20287C9, 0x6BCB7CF8B5ACD742,
      0x940948ED7A675F56, 0xB5B9527AC44FD017, 0xCA9F98A3969494BF, 0xF5DA1B76216FD8FF, 0x32AB403B3F0AE84B]
   = [0xB278D9C5B3D664E0, 0x3FC5F67522C66431, 0xA0EB1014A7E487E5, 0xB477FFED22CE0E30, 0xD5DD66E439267A49,
      0xD05AE51F9F2C66FE, 0xD02535DE2BF2D23D, 0x17E95B1B10ED4AE8, 0xFEBF45EA552CFB62, 0xBDACF29904989E6B,
      0x123B81D3C3570993, 0x4A9A24C1B66F57F9, 0x6FB70A355FC4DF2F, 0x7353B9D35E5C3185, 0x4BA0D42DD75010AA,
      0x1E5AD67C24594515, 0x076762F57A00E604, 0xAEF4CB775502DC86, 0xC9C3B2732244BEA5, 0x56ED3052256CDA1E,
      0xE9403560DFF54F1E, 0x9E0ABF4351092EF0, 0x7469EDE778B6D2A2, 0xEEC2630D98B94EAF, 0xDF6998E85AAB7A50]"
  by (simp add: keccak_round_eval)

lemma block_2_round_15:
  "keccak_round 0x8000000000008089
     [0xB278D9C5B3D664E0, 0x3FC5F67522C66431, 0xA0EB1014A7E487E5, 0xB477FFED22CE0E30, 0xD5DD66E439267A49,
      0xD05AE51F9F2C66FE, 0xD02535DE2BF2D23D, 0x17E95B1B10ED4AE8, 0xFEBF45EA552CFB62, 0xBDACF29904989E6B,
      0x123B81D3C3570993, 0x4A9A24C1B66F57F9, 0x6FB70A355FC4DF2F, 0x7353B9D35E5C3185, 0x4BA0D42DD75010AA,
      0x1E5AD67C24594515, 0x076762F57A00E604, 0xAEF4CB775502DC86, 0xC9C3B2732244BEA5, 0x56ED3052256CDA1E,
      0xE9403560DFF54F1E, 0x9E0ABF4351092EF0, 0x7469EDE778B6D2A2, 0xEEC2630D98B94EAF, 0xDF6998E85AAB7A50]
   = [0x6047C6D68AFFE685, 0x1FBA79B62B1BE350, 0xF8FEB36E3E8DF495, 0x8198E96569C8A800, 0x6322095BF360BAAD,
      0x2EDE5BBADA6F6C2F, 0xB86AED1E939C5709, 0x0608CA4AB7D838FF, 0x7BA7C134B855B806, 0xEFA8CA4DD8DCC143,
      0x302E056B68639B6D, 0x92ED343EAFE6DA85, 0xD9E3E6691E4B80B7, 0x287E949475EFDD57, 0x221CA961A168E86E,
      0x20D33E6E9F824366, 0x223F70E92C11940A, 0x225604B641D8CF37, 0x2A7C49C3C216DFEB, 0x2EBC40555262167B,
      0xA071C2E3514C65C7, 0xD4D01CE98A5F0AA6, 0x5DF3A52AA335567E, 0x2095E07802927F24, 0x21E0A417B5795FC8]"
  by (simp add: keccak_round_eval)

lemma block_2_round_16:
  "keccak_round 0x8000000000008003
     [0x6047C6D68AFFE685, 0x1FBA79B62B1BE350, 0xF8FEB36E3E8DF495, 0x8198E96569C8A800, 0x6322095BF360BAAD,
      0x2EDE5BBADA6F6C2F, 0xB86AED1E939C5709, 0x0608CA4AB7D838FF, 0x7BA7C134B855B806, 0xEFA8CA4DD8DCC143,
      0x302E056B68639B6D, 0x92ED343EAFE6DA85, 0xD9E3E6691E4B80B7, 0x287E949475EFDD57, 0x221CA961A168E86E,
      0x20D33E6E9F824366, 0x223F70E92C11940A, 0x225604B641D8CF37, 0x2A7C49C3C216DFEB, 0x2EBC40555262167B,
      0xA071C2E3514C65C7, 0xD4D01CE98A5F0AA6, 0x5DF3A52AA335567E, 0x2095E07802927F24, 0x21E0A417B5795FC8]
   = [0xC76351C4856F4F44, 0x46B475753C4548ED, 0xD54DD5731C20DB64, 0x2F2D5FD5434F372A, 0xB68B214C2D26E1F8,
      0x7C72DE0C273AD1E5, 0x2365092C612C90A0, 0xB6EEB3DB2DDBC47E, 0xE918C93E6DB93620, 0x67EB29681B7AEDA6,
      0xFCAAC67465A0ED5C, 0x028330B160D5E49F, 0x1ED646585824A71D, 0x9E8EBED6EF95CE0E, 0x55EC7372FE1218FA,
      0xA3DF75C7823623FB, 0x4EBF6BD58930CA25, 0xE6A5FA8AF09BF962, 0x71AA5980C22C28CB, 0x8B1BBAD2CAAC361A,
      0x22DA8BC319A336E6, 0xFE32217DF7CB74CC, 0xB8718981493E9796, 0x24F8684C79D34974, 0xB6B45736981E53AA]"
  by (simp add: keccak_round_eval)

lemma block_2_round_17:
  "keccak_round 0x8000000000008002
     [0xC76351C4856F4F44, 0x46B475753C4548ED, 0xD54DD5731C20DB64, 0x2F2D5FD5434F372A, 0xB68B214C2D26E1F8,
      0x7C72DE0C273AD1E5, 0x2365092C612C90A0, 0xB6EEB3DB2DDBC47E, 0xE918C93E6DB93620, 0x67EB29681B7AEDA6,
      0xFCAAC67465A0ED5C, 0x028330B160D5E49F, 0x1ED646585824A71D, 0x9E8EBED6EF95CE0E, 0x55EC7372FE1218FA,
      0xA3DF75C7823623FB, 0x4EBF6BD58930CA25, 0xE6A5FA8AF09BF962, 0x71AA5980C22C28CB, 0x8B1BBAD2CAAC361A,
      0x22DA8BC319A336E6, 0xFE32217DF7CB74CC, 0xB8718981493E9796, 0x24F8684C79D34974, 0xB6B45736981E53AA]
   = [0x13BE4F60D3157C05, 0xB5BE1B6891B6315F, 0xDBEB8486D78FD37A, 0x3256FCA5932C3BA3, 0x0C6DF6998CB60C50,
      0xBB4EB02C05FC321E, 0x5E998BA0CCAD79F5, 0x1F316437DE14C0F4, 0x304439D36F77FCB0, 0x2A1E95C497EA4CFA,
      0x8E84EBE4813916D7, 0xB729CE6EB907ECD5, 0xD0142BB4A79E4094, 0x07DC9B3C71F466C8, 0x77A5034366521914,
      0x277A660511BADEB2, 0xB78E49643DF5D2B3, 0x74E2E67540362624, 0x269EE37292373FD6, 0x3EF516747CD8503C,
      0x4471B81446956114, 0xF5DC4E5BD1991FA1, 0x522D04EA9422ED9F, 0x8AED095EC75AEB3E, 0xC6348383BD3AE3A8]"
  by (simp add: keccak_round_eval)

lemma block_2_round_18:
  "keccak_round 0x8000000000000080
     [0x13BE4F60D3157C05, 0xB5BE1B6891B6315F, 0xDBEB8486D78FD37A, 0x3256FCA5932C3BA3, 0x0C6DF6998CB60C50,
      0xBB4EB02C05FC321E, 0x5E998BA0CCAD79F5, 0x1F316437DE14C0F4, 0x304439D36F77FCB0, 0x2A1E95C497EA4CFA,
      0x8E84EBE4813916D7, 0xB729CE6EB907ECD5, 0xD0142BB4A79E4094, 0x07DC9B3C71F466C8, 0x77A5034366521914,
      0x277A660511BADEB2, 0xB78E49643DF5D2B3, 0x74E2E67540362624, 0x269EE37292373FD6, 0x3EF516747CD8503C,
      0x4471B81446956114, 0xF5DC4E5BD1991FA1, 0x522D04EA9422ED9F, 0x8AED095EC75AEB3E, 0xC6348383BD3AE3A8]
   = [0x421129BAE7CC4405, 0x3B9FDCF8252A0583, 0xDE9934E80AC429AA, 0x21623F544D40D2A4, 0xB0490F45D6316A5F,
      0x595747F57D0EE3DE, 0x6D86FF7963C49DCE, 0x5A3D6DD8EC0BB5EA, 0x689D739E4A183B09, 0xA7E1EEBDC56AD9D3,
      0x43E725CECA1ACECD, 0x908658787D30E499, 0xA2ECF2147ADFE0D0, 0xB7B7652F6DAF5399, 0x7F2FF2745793766B,
      0x2AF35CA8B999EEBD, 0x3580DE22FC0B67D8, 0x51358E3D69AB745C, 0xCB94E0D5FAAE70FA, 0x5FEA618951C293E5,
      0xB06265F6A91FF41B, 0x6A24B1384576CBF8, 0xA5D223B2668729DB, 0x48FCA541A0C96D63, 0x508F4F51D1372DE7]"
  by (simp add: keccak_round_eval)

lemma block_2_round_19:
  "keccak_round 0x000000000000800A
     [0x421129BAE7CC4405, 0x3B9FDCF8252A0583, 0xDE9934E80AC429AA, 0x21623F544D40D2A4, 0xB0490F45D6316A5F,
      0x595747F57D0EE3DE, 0x6D86FF7963C49DCE, 0x5A3D6DD8EC0BB5EA, 0x689D739E4A183B09, 0xA7E1EEBDC56AD9D3,
      0x43E725CECA1ACECD, 0x908658787D30E499, 0xA2ECF2147ADFE0D0, 0xB7B7652F6DAF5399, 0x7F2FF2745793766B,
      0x2AF35CA8B999EEBD, 0x3580DE22FC0B67D8, 0x51358E3D69AB745C, 0xCB94E0D5FAAE70FA, 0x5FEA618951C293E5,
      0xB06265F6A91FF41B, 0x6A24B1384576CBF8, 0xA5D223B2668729DB, 0x48FCA541A0C96D63, 0x508F4F51D1372DE7]
   = [0xD6BFDB291746B283, 0x3AC119BECC05436F, 0x8AF8764EA2F08CCA, 0x9CFC183DE04ECBFB, 0xD9E798C05343EA25,
      0xE5F8EAC7D9C0903D, 0x7F67347C15C0BB53, 0xA38C9F4A7B800282, 0xEFE8AA5C57755374, 0xAAD229DE7095DCCC,
      0xB3A6C7E88F0D4008, 0xF1A872A284C8908A, 0x1FF8721E99592E6B, 0x928A0081E8D34186, 0x859D9197D81D06DF,
      0x73ACA918890845A0, 0xC6439830689C364B, 0x3EDE52A559569D47, 0x603E2D106DB95923, 0x3A1683F9078EBDF0,
      0x3AF9BEFA4BC4FD00, 0xEA5ADB3B06288D76, 0xEE994BC336FE54FF, 0xCC39E6C4BC8072F0, 0xF5297BC5096BEBEA]"
  by (simp add: keccak_round_eval)

lemma block_2_round_20:
  "keccak_round 0x800000008000000A
     [0xD6BFDB291746B283, 0x3AC119BECC05436F, 0x8AF8764EA2F08CCA, 0x9CFC183DE04ECBFB, 0xD9E798C05343EA25,
      0xE5F8EAC7D9C0903D, 0x7F67347C15C0BB53, 0xA38C9F4A7B800282, 0xEFE8AA5C57755374, 0xAAD229DE7095DCCC,
      0xB3A6C7E88F0D4008, 0xF1A872A284C8908A, 0x1FF8721E99592E6B, 0x928A0081E8D34186, 0x859D9197D81D06DF,
      0x73ACA918890845A0, 0xC6439830689C364B, 0x3EDE52A559569D47, 0x603E2D106DB95923, 0x3A1683F9078EBDF0,
      0x3AF9BEFA4BC4FD00, 0xEA5ADB3B06288D76, 0xEE994BC336FE54FF, 0xCC39E6C4BC8072F0, 0xF5297BC5096BEBEA]
   = [0x5FC6BB08A5FB9290, 0x9B122BAD5D0816D9, 0x28C880A68FA1A50E, 0x4FF5179D18068A4B, 0x706F24F9234346F6,
      0x629906A3C8918B26, 0x153BCCBDA696D42B, 0xC8EBB8E8CA9C01DD, 0x85A57A0F8F249439, 0x0D911CA0003ACC51,
      0x79C7F48CA882449B, 0xE87D5212367C2CE8, 0x341C7FA8AA0A1466, 0xE3B99D8FD0FB1778, 0x787F6475B6E1E661,
      0xE8D20466A25EBC83, 0x69D412EA8588BA6D, 0x0F56BD33B427EED4, 0x12D39B8455BCBEFD, 0x225CCDDD97795F93,
      0x42777632312E0FBD, 0xD1B4249CADCB166D, 0x3144DC26F7B1B461, 0xE91A30F4289A5896, 0xA06CF8D3ED77411D]"
  by (simp add: keccak_round_eval)

lemma block_2_round_21:
  "keccak_round 0x8000000080008081
     [0x5FC6BB08A5FB9290, 0x9B122BAD5D0816D9, 0x28C880A68FA1A50E, 0x4FF5179D18068A4B, 0x706F24F9234346F6,
      0x629906A3C8918B26, 0x153BCCBDA696D42B, 0xC8EBB8E8CA9C01DD, 0x85A57A0F8F249439, 0x0D911CA0003ACC51,
      0x79C7F48CA882449B, 0xE87D5212367C2CE8, 0x341C7FA8AA0A1466, 0xE3B99D8FD0FB1778, 0x787F6475B6E1E661,
      0xE8D20466A25EBC83, 0x69D412EA8588BA6D, 0x0F56BD33B427EED4, 0x12D39B8455BCBEFD, 0x225CCDDD97795F93,
      0x42777632312E0FBD, 0xD1B4249CADCB166D, 0x3144DC26F7B1B461, 0xE91A30F4289A5896, 0xA06CF8D3ED77411D]
   = [0xC41ABCC1017FC52E, 0x9CE396F1C62C5899, 0xB557E2FB125039D2, 0xA64C06778CB7F7ED, 0x2FB71C9A1616719D,
      0xB6FC387DA82E2D32, 0x72BA5F0DFD7A7CFB, 0x199CCF3D62C5B327, 0xC6974A3ACE8DDB6A, 0x09675A335DADF596,
      0x12EE1653E7AEF545, 0xA343439695C75000, 0x1242EDD8920CCE42, 0x06EAFE10B7CACC2F, 0xC2E5166FF700E694,
      0xBD2463EF8BB8C10B, 0xC01B57ADB512861F, 0x6B925D26DE02EE0E, 0xD4EEB81538A61298, 0x475FC1D4565D01D2,
      0x5765AFFA05FF6565, 0x5425194358AD54C0, 0x3CA293BB9AA45FE2, 0x4437D8E61368150D, 0xAF5D1827D040A177]"
  by (simp add: keccak_round_eval)

lemma block_2_round_22:
  "keccak_round 0x8000000000008080
     [0xC41ABCC1017FC52E, 0x9CE396F1C62C5899, 0xB557E2FB125039D2, 0xA64C06778CB7F7ED, 0x2FB71C9A1616719D,
      0xB6FC387DA82E2D32, 0x72BA5F0DFD7A7CFB, 0x199CCF3D62C5B327, 0xC6974A3ACE8DDB6A, 0x09675A335DADF596,
      0x12EE1653E7AEF545, 0xA343439695C75000, 0x1242EDD8920CCE42, 0x06EAFE10B7CACC2F, 0xC2E5166FF700E694,
      0xBD2463EF8BB8C10B, 0xC01B57ADB512861F, 0x6B925D26DE02EE0E, 0xD4EEB81538A61298, 0x475FC1D4565D01D2,
      0x5765AFFA05FF6565, 0x5425194358AD54C0, 0x3CA293BB9AA45FE2, 0x4437D8E61368150D, 0xAF5D1827D040A177]
   = [0xD764BDF911A4C28F, 0xD07EE830534BA30F, 0xBD76207635695B23, 0xBDBDE6B04660AF32, 0x5D4C21C3CD425659,
      0xC5FCC93CF7D8E18D, 0xCCB36E220C4EB6C9, 0x6588BF3A969F30E1, 0xDE47F30423CB0633, 0x930AD84E44B8F6B6,
      0x2B31EA40959E17B7, 0x5F4D372677A6786B, 0x68D91168A9ED5D8F, 0x250F850107D092B4, 0xEF54F534C8B34C26,
      0xAA4B47627E626876, 0x532437B84B43A813, 0xC081CD200C8E13AD, 0x96359E8AB34A4E29, 0x67A5C1D48FC19E65,
      0x2548E3D8BD70D445, 0xA29FB4ADD9CDDBFF, 0x17D889E90E948354, 0x869C14061E87642B, 0x36EA6AD811263690]"
  by (simp add: keccak_round_eval)

lemma block_2_round_23:
  "keccak_round 0x0000000080000001
     [0xD764BDF911A4C28F, 0xD07EE830534BA30F, 0xBD76207635695B23, 0xBDBDE6B04660AF32, 0x5D4C21C3CD425659,
      0xC5FCC93CF7D8E18D, 0xCCB36E220C4EB6C9, 0x6588BF3A969F30E1, 0xDE47F30423CB0633, 0x930AD84E44B8F6B6,
      0x2B31EA40959E17B7, 0x5F4D372677A6786B, 0x68D91168A9ED5D8F, 0x250F850107D092B4, 0xEF54F534C8B34C26,
      0xAA4B47627E626876, 0x532437B84B43A813, 0xC081CD200C8E13AD, 0x96359E8AB34A4E29, 0x67A5C1D48FC19E65,
      0x2548E3D8BD70D445, 0xA29FB4ADD9CDDBFF, 0x17D889E90E948354, 0x869C14061E87642B, 0x36EA6AD811263690]
   = [0xE34A7EBFAAF13E15, 0xD7B2FB02401E50C9, 0xE3222EA291B1551D, 0x23C8D2EFAEF20603, 0x9517AE9C0986C3B3,
      0xF742991F70B6FE73, 0x65A00EB160C2051D, 0x98D11D20F7237AC8, 0x03AF2D66F18EBD46, 0x61A757176532B7C7,
      0x5D538EFBE73449C2, 0x6260DA2DF11938C2, 0x0F71536AD0259481, 0xFDED1788D28ED71F, 0x02140A16A36BF790,
      0x033AA6E759B43264, 0xC751838F9C71C7A4, 0xE863464D565E84D6, 0x6DA1B6C18C534F35, 0x27C0489984E956CB,
      0x28FF47C92A0FA9A0, 0x73AD502F804A4B9C, 0x3126226B0ABDE977, 0x2CFC93F4C10B282B, 0x3C20ED13A5B83A53]"
  by (simp add: keccak_round_eval)

lemma block_2_round_24:
  "keccak_round 0x8000000080008008
     [0xE34A7EBFAAF13E15, 0xD7B2FB02401E50C9, 0xE3222EA291B1551D, 0x23C8D2EFAEF20603, 0x9517AE9C0986C3B3,
      0xF742991F70B6FE73, 0x65A00EB160C2051D, 0x98D11D20F7237AC8, 0x03AF2D66F18EBD46, 0x61A757176532B7C7,
      0x5D538EFBE73449C2, 0x6260DA2DF11938C2, 0x0F71536AD0259481, 0xFDED1788D28ED71F, 0x02140A16A36BF790,
      0x033AA6E759B43264, 0xC751838F9C71C7A4, 0xE863464D565E84D6, 0x6DA1B6C18C534F35, 0x27C0489984E956CB,
      0x28FF47C92A0FA9A0, 0x73AD502F804A4B9C, 0x3126226B0ABDE977, 0x2CFC93F4C10B282B, 0x3C20ED13A5B83A53]
   = [0x0703C2C5DE8AF379, 0xBFAF24836EF78EA9, 0x73392EB281FD6CD4, 0x8717E39DBDA15FC6, 0xB49B5B2A850055F8,
      0xA9DBB4E4E74054A3, 0xAB977BC9A4774418, 0xC8D1048B1AB9240B, 0xEF1EEFA85544F4E2, 0x0980E88E88F16382,
      0x5E85F7C5B1EBDA8B, 0x540A9DAF320B51F1, 0x57C3B79C271575FF, 0x73D5C7DC7786837A, 0x869775D8500033EB,
      0x9387E7E17C6BEBB7, 0x4C5D3D6F2813ADD0, 0xE63DA7ACE65B256D, 0x00A9493A93B9733B, 0x6B03A32714665660,
      0xA744D8104B4E6C8B, 0x2328F000C3F379DA, 0x082D4D3DD7C5247B, 0x0B3E186FD15132FB, 0x2ACD675EE80ED30D]"
  by (simp add: keccak_round_eval)

lemma block_2_permutation:
  "keccak_f1600
     [0x843990DE19924D79, 0x61525B169D1A2F3C, 0x1EED4F770CF33CC5, 0xF67B9B9B9CEE7E30, 0x7F3A5D86679BD604,
      0xD8BA0AF556875736, 0xD0694D66316E9A68, 0x9FBD85347E7C9972, 0xECEACFE4E9B4B5DD, 0xA479475227751621,
      0x62E4A80832CEDBE9, 0x4F0314546A2DD285, 0xD58F03EF430F3959, 0x2573687FF364D517, 0xE5E638FBA5A32142,
      0x80F50BC239CF4F2E, 0x8F1E89D983EE2D2F, 0xBFE2EAB3A6DEC312, 0x0C342CE5BDE6111A, 0x2A38BA62D281D2C7,
      0x0E88386CB3348EE5, 0x75CA4C391523FE44, 0x2F0F7368EE6C0DA2, 0xF0D326F1AA0C9B88, 0x211E0B7352E9ECCE]
   = [0x0703C2C5DE8AF379, 0xBFAF24836EF78EA9, 0x73392EB281FD6CD4, 0x8717E39DBDA15FC6, 0xB49B5B2A850055F8,
      0xA9DBB4E4E74054A3, 0xAB977BC9A4774418, 0xC8D1048B1AB9240B, 0xEF1EEFA85544F4E2, 0x0980E88E88F16382,
      0x5E85F7C5B1EBDA8B, 0x540A9DAF320B51F1, 0x57C3B79C271575FF, 0x73D5C7DC7786837A, 0x869775D8500033EB,
      0x9387E7E17C6BEBB7, 0x4C5D3D6F2813ADD0, 0xE63DA7ACE65B256D, 0x00A9493A93B9733B, 0x6B03A32714665660,
      0xA744D8104B4E6C8B, 0x2328F000C3F379DA, 0x082D4D3DD7C5247B, 0x0B3E186FD15132FB, 0x2ACD675EE80ED30D]"
  unfolding keccak_f1600_def keccak_round_constants_def
  by (simp only: fold_simps
      block_2_round_1 block_2_round_2 block_2_round_3
      block_2_round_4 block_2_round_5 block_2_round_6
      block_2_round_7 block_2_round_8 block_2_round_9
      block_2_round_10 block_2_round_11 block_2_round_12
      block_2_round_13 block_2_round_14 block_2_round_15
      block_2_round_16 block_2_round_17 block_2_round_18
      block_2_round_19 block_2_round_20 block_2_round_21
      block_2_round_22 block_2_round_23 block_2_round_24)

lemma sha3_256_digest_bytes:
  "sha3_256 (replicate 200 0xA3)
     = [0x79, 0xF3, 0x8A, 0xDE, 0xC5, 0xC2, 0x03, 0x07, 0xA9, 0x8E, 0xF7, 0x6E, 0x83, 0x24, 0xAF, 0xBF,
         0xD4, 0x6C, 0xFD, 0x81, 0xB2, 0x2E, 0x39, 0x73, 0xC6, 0x5F, 0xA1, 0xBD, 0x9D, 0xE3, 0x17, 0x87]"
proof -
  have "sha3_256 (replicate 200 0xA3)
     = take 32 (concat (map bytes_of_lane
         (keccak_absorb (take 136 (drop 136 (sha3_pad (replicate 200 0xA3))))
            (keccak_absorb (take 136 (sha3_pad (replicate 200 0xA3))) (replicate 25 0)))))"
    by (rule sha3_256_two_blocks [where n = 64]) simp_all
  also have "\<dots> = take 32 (concat (map bytes_of_lane
     [0x0703C2C5DE8AF379, 0xBFAF24836EF78EA9, 0x73392EB281FD6CD4, 0x8717E39DBDA15FC6, 0xB49B5B2A850055F8,
      0xA9DBB4E4E74054A3, 0xAB977BC9A4774418, 0xC8D1048B1AB9240B, 0xEF1EEFA85544F4E2, 0x0980E88E88F16382,
      0x5E85F7C5B1EBDA8B, 0x540A9DAF320B51F1, 0x57C3B79C271575FF, 0x73D5C7DC7786837A, 0x869775D8500033EB,
      0x9387E7E17C6BEBB7, 0x4C5D3D6F2813ADD0, 0xE63DA7ACE65B256D, 0x00A9493A93B9733B, 0x6B03A32714665660,
      0xA744D8104B4E6C8B, 0x2328F000C3F379DA, 0x082D4D3DD7C5247B, 0x0B3E186FD15132FB, 0x2ACD675EE80ED30D]))"
    by (simp only: keccak_absorb_def block_1_lanes block_1_permutation
        block_2_lanes block_2_permutation)
  also have "\<dots> = [0x79, 0xF3, 0x8A, 0xDE, 0xC5, 0xC2, 0x03, 0x07, 0xA9, 0x8E, 0xF7, 0x6E, 0x83, 0x24, 0xAF, 0xBF,
         0xD4, 0x6C, 0xFD, 0x81, 0xB2, 0x2E, 0x39, 0x73, 0xC6, 0x5F, 0xA1, 0xBD, 0x9D, 0xE3, 0x17, 0x87]"
    by code_simp
  finally show ?thesis .
qed

lemma sha3_256_known_answer:
  "hex (sha3_256 (replicate 200 0xA3))
     = ''79f38adec5c20307a98ef76e8324afbfd46cfd81b22e3973c65fa1bd9de31787''"
proof -
  have "hex [0x79, 0xF3, 0x8A, 0xDE, 0xC5, 0xC2, 0x03, 0x07, 0xA9, 0x8E, 0xF7, 0x6E, 0x83, 0x24, 0xAF, 0xBF,
          0xD4, 0x6C, 0xFD, 0x81, 0xB2, 0x2E, 0x39, 0x73, 0xC6, 0x5F, 0xA1, 0xBD, 0x9D, 0xE3, 0x17, 0x87]
     = ''79f38adec5c20307a98ef76e8324afbfd46cfd81b22e3973c65fa1bd9de31787''"
    by code_simp
  then show ?thesis
    by (simp only: sha3_256_digest_bytes)
qed

subsection \<open>The keyed digest\<close>

lemma map2_xor_replicate:
  "length ks = n \<Longrightarrow> map2 (XOR) ks (replicate n (c :: 8 word)) = map (\<lambda>b. b XOR c) ks"
  by (induction ks arbitrary: n) auto

lemma hmac_digest_construction:
  "hmac_digest key msg = hmac_construction sha3_256 136 key msg"
proof -
  define k0 where "k0 = (if length key > 136 then sha3_256 key else key)"
  have "length k0 \<le> 136"
    by (simp add: k0_def length_sha3_256)
  then have len: "length (k0 @ replicate (136 - length k0) 0) = 136"
    by simp
  show ?thesis
    unfolding hmac_digest_def hmac_construction_def Let_def sha3_256_rate_def k0_def [symmetric]
    by (simp only: map2_xor_replicate [OF len])
qed

lemma digits_fold_append:
  "fold (\<lambda>d acc. 10 * acc + (of_char d - 48)) (xs @ [c]) (a :: nat)
     = 10 * fold (\<lambda>d acc. 10 * acc + (of_char d - 48)) xs a + (of_char c - 48)"
  by simp

lemma digit_char_value: "n < 10 \<Longrightarrow> (of_char (char_of (48 + n :: nat)) :: nat) - 48 = n"
  by simp

lemma digits_value_str_nat:
  "fold (\<lambda>d acc. 10 * acc + (of_char d - 48)) (str_nat n) (0 :: nat) = n"
proof (induction n rule: str_nat.induct)
  case (1 n)
  show ?case
  proof (cases "n < 10")
    case True
    then show ?thesis
      by (subst str_nat.simps) (simp add: digit_char_value)
  next
    case False
    have ih: "fold (\<lambda>d acc. 10 * acc + (of_char d - 48)) (str_nat (n div 10)) (0 :: nat)
                = n div 10"
      using False by (rule "1.IH")
    have "str_nat n = str_nat (n div 10) @ [char_of (48 + n mod 10)]"
      using False by (subst str_nat.simps) simp
    then have "fold (\<lambda>d acc. 10 * acc + (of_char d - 48)) (str_nat n) (0 :: nat)
            = 10 * (n div 10) + (of_char (char_of (48 + n mod 10)) - 48)"
      by (simp only: digits_fold_append ih)
    also have "\<dots> = 10 * (n div 10) + n mod 10"
      by (subst digit_char_value) simp_all
    finally show ?thesis
      by simp
  qed
qed

lemma str_nat_not_Nil: "str_nat n \<noteq> []"
  by (subst str_nat.simps) simp

lemma digit_char_not_minus: "n < 10 \<Longrightarrow> char_of (48 + n :: nat) \<noteq> CHR ''-''"
proof
  assume "n < 10" and "char_of (48 + n) = CHR ''-''"
  then have "(of_char (char_of (48 + n)) :: nat) = of_char CHR ''-''"
    by simp
  with \<open>n < 10\<close> show False
    by simp
qed

lemma hd_str_nat: "hd (str_nat n) \<noteq> CHR ''-''"
proof (induction n rule: str_nat.induct)
  case (1 n)
  show ?case
  proof (cases "n < 10")
    case True
    then show ?thesis
      by (subst str_nat.simps) (simp add: digit_char_not_minus)
  next
    case False
    then show ?thesis
      using "1.IH" str_nat_not_Nil [of "n div 10"] by (subst str_nat.simps) simp
  qed
qed

lemma decimal_value_numeral:
  "decimal_value (if i < 0 then CHR ''-'' # str_nat (nat (- i)) else str_nat (nat i)) = i"
proof (cases "i < 0")
  case True
  then show ?thesis
    by (simp add: decimal_value_def digits_value_str_nat)
next
  case False
  obtain c ds where s: "str_nat (nat i) = c # ds"
    using str_nat_not_Nil [of "nat i"] by (cases "str_nat (nat i)") simp_all
  with hd_str_nat [of "nat i"] have "c \<noteq> CHR ''-''"
    by simp
  then have "decimal_value (str_nat (nat i))
      = int (fold (\<lambda>d acc. 10 * acc + (of_char d - 48)) (str_nat (nat i)) 0)"
    unfolding decimal_value_def s by simp
  with False show ?thesis
    by (simp add: digits_value_str_nat)
qed

lemma digit_chars:
  "char_of (48 :: nat) = CHR ''0''" "char_of (49 :: nat) = CHR ''1''"
  "char_of (50 :: nat) = CHR ''2''" "char_of (51 :: nat) = CHR ''3''"
  "char_of (52 :: nat) = CHR ''4''" "char_of (53 :: nat) = CHR ''5''"
  "char_of (54 :: nat) = CHR ''6''" "char_of (55 :: nat) = CHR ''7''"
  "char_of (56 :: nat) = CHR ''8''" "char_of (57 :: nat) = CHR ''9''"
  by code_simp+

lemma digit_char_in_digits: "n < 10 \<Longrightarrow> char_of (48 + n :: nat) \<in> set ''0123456789''"
proof -
  have "\<forall>k\<in>{0..<10 :: nat}. char_of (48 + k) \<in> set ''0123456789''"
    by code_simp
  moreover assume "n < 10"
  ultimately show ?thesis
    by simp
qed

lemma set_str_nat: "set (str_nat n) \<subseteq> set ''0123456789''"
proof (induction n rule: str_nat.induct)
  case (1 n)
  show ?case
  proof (cases "n < 10")
    case True
    then have "str_nat n = [char_of (48 + n)]"
      by (subst str_nat.simps) simp
    with digit_char_in_digits [OF True] show ?thesis
      by simp
  next
    case False
    then have "str_nat n = str_nat (n div 10) @ [char_of (48 + n mod 10)]"
      by (subst str_nat.simps) simp
    moreover have "char_of (48 + n mod 10) \<in> set ''0123456789''"
      by (rule digit_char_in_digits) simp
    moreover have "set (str_nat (n div 10)) \<subseteq> set ''0123456789''"
      using False by (rule "1.IH")
    ultimately show ?thesis
      by simp
  qed
qed

lemma set_Cons_mono: "set t \<subseteq> set ds \<Longrightarrow> set (c # t) \<subseteq> set (c # ds)"
  by auto

lemma set_Cons_grow: "set t \<subseteq> set ds \<Longrightarrow> set t \<subseteq> set (c # ds)"
  by auto

lemma str_int_Inr:
  assumes "\<bar>i\<bar> < 10 ^ 4300"
  shows "str_int i = Inr (if i < 0 then CHR ''-'' # str_nat (nat (- i)) else str_nat (nat i))"
proof -
  from assms have "\<not> 10 ^ 4300 \<le> \<bar>i\<bar>"
    by (simp only: not_le)
  then show ?thesis
    unfolding str_int_def by (simp only: if_False)
qed

lemma str_int_decimal:
  assumes "\<bar>i\<bar> < 10 ^ 4300"
  shows "\<exists>s. str_int i = Inr s \<and> decimal_value s = i \<and> set s \<subseteq> set ''-0123456789''"
proof (intro exI conjI)
  show "str_int i = Inr (if i < 0 then CHR ''-'' # str_nat (nat (- i)) else str_nat (nat i))"
    using assms by (rule str_int_Inr)
  show "decimal_value (if i < 0 then CHR ''-'' # str_nat (nat (- i)) else str_nat (nat i)) = i"
    by (rule decimal_value_numeral)
  show "set (if i < 0 then CHR ''-'' # str_nat (nat (- i)) else str_nat (nat i))
          \<subseteq> set ''-0123456789''"
  proof (cases "i < 0")
    case True
    have "set (CHR ''-'' # str_nat (nat (- i))) \<subseteq> set (CHR ''-'' # ''0123456789'')"
      using set_str_nat [of "nat (- i)"] by (rule set_Cons_mono)
    with True show ?thesis
      by (simp only: if_True)
  next
    case False
    have "set (str_nat (nat i)) \<subseteq> set (CHR ''-'' # ''0123456789'')"
      using set_str_nat [of "nat i"] by (rule set_Cons_grow)
    with False show ?thesis
      by (simp only: if_False)
  qed
qed

lemma abs_zero_below_limit: "\<bar>0 :: int\<bar> < 10 ^ 4300"
proof -
  have "(0 :: int) < 10 ^ 4300"
    by (rule zero_less_power) simp
  then show ?thesis
    by (simp only: abs_zero)
qed

lemma str_int_zero: "str_int 0 = Inr ''0''"
proof -
  have "str_nat 0 = ''0''"
    by (subst str_nat.simps) (simp add: digit_chars)
  with str_int_Inr [OF abs_zero_below_limit] show ?thesis
    by simp
qed

lemma calculate_hmac_zero: "calculate_hmac key 0 = Inr (hmac_hexdigest key (encode ''0''))"
  by (simp add: calculate_hmac_def str_int_zero)

text \<open>
  C5, as stated: for the value \<open>10 ^ 4300\<close>, a numeral of 4301 digits, the conversion to
  a string is refused and \<open>calculate_hmac\<close> raises \<open>ValueError\<close>; it returns no digest.
\<close>

theorem calculate_hmac_digit_limit:
  "calculate_hmac [] (10 ^ 4300)
     = Inl (ValueError (''Exceeds the limit (4300 digits) for integer string conversion; ''
              @ ''use sys.set_int_max_str_digits() to increase the limit''))"
proof -
  have "(0 :: int) \<le> 10 ^ 4300"
    by (rule zero_le_power) simp
  then have "\<bar>10 ^ 4300 :: int\<bar> = 10 ^ 4300"
    by (rule abs_of_nonneg)
  then have "(10 :: int) ^ 4300 \<le> \<bar>10 ^ 4300\<bar>"
    by (simp only: order_refl)
  then have "str_int (10 ^ 4300)
     = Inl (ValueError (''Exceeds the limit (4300 digits) for integer string conversion; ''
              @ ''use sys.set_int_max_str_digits() to increase the limit''))"
    unfolding str_int_def by (simp only: if_True)
  then show ?thesis
    unfolding calculate_hmac_def by (simp only: sum.case)
qed

text \<open>
  C5, amended: \<open>calculate_hmac\<close> is a function of the key and the value alone (it takes
  and returns no state). For every key and every value of at most 4300 decimal digits
  it returns the HMAC construction over SHA3-256, block size 136, under the key, of the
  ASCII codes of the decimal numeral of the value (digits, after a minus sign when
  negative, whose decimal value is the value), written as exactly 64 characters, each
  a lowercase hexadecimal digit. The hash in it is SHA3-256: on the 200 bytes \<open>A3\<close> of
  the FIPS 202 example it gives the digest listed there.
\<close>

theorem calculate_hmac_commit:
  assumes "\<bar>message\<bar> < 10 ^ 4300"
  shows "(\<exists>s. str_int message = Inr s \<and> decimal_value s = message
           \<and> set s \<subseteq> set ''-0123456789''
           \<and> calculate_hmac key message
               = Inr (hex (hmac_construction sha3_256 136 key (map of_char s)))
           \<and> length (hex (hmac_construction sha3_256 136 key (map of_char s))) = 64
           \<and> set (hex (hmac_construction sha3_256 136 key (map of_char s)))
               \<subseteq> set ''0123456789abcdef'')
       \<and> hex (sha3_256 (replicate 200 0xA3))
           = ''79f38adec5c20307a98ef76e8324afbfd46cfd81b22e3973c65fa1bd9de31787''"
proof -
  from str_int_decimal [OF assms] obtain s where s: "str_int message = Inr s"
      "decimal_value s = message" "set s \<subseteq> set ''-0123456789''"
    by blast
  have "calculate_hmac key message = Inr (hex (hmac_digest key (map of_char s)))"
    by (simp add: calculate_hmac_def s(1) hmac_hexdigest_def encode_def)
  then have "calculate_hmac key message
      = Inr (hex (hmac_construction sha3_256 136 key (map of_char s)))"
    by (simp only: hmac_digest_construction)
  moreover have "length (hex (hmac_construction sha3_256 136 key (map of_char s))) = 64"
    by (simp add: hmac_digest_construction [symmetric] length_hex length_hmac_digest)
  moreover have "set (hex (hmac_construction sha3_256 136 key (map of_char s)))
      \<subseteq> set ''0123456789abcdef''"
    by (rule set_hex)
  ultimately have "\<exists>s. str_int message = Inr s \<and> decimal_value s = message
           \<and> set s \<subseteq> set ''-0123456789''
           \<and> calculate_hmac key message
               = Inr (hex (hmac_construction sha3_256 136 key (map of_char s)))
           \<and> length (hex (hmac_construction sha3_256 136 key (map of_char s))) = 64
           \<and> set (hex (hmac_construction sha3_256 136 key (map of_char s)))
               \<subseteq> set ''0123456789abcdef''"
    using s by blast
  with sha3_256_known_answer show ?thesis
    by (intro conjI)
qed

theorem calculate_hmac_commit_witness:
  "\<exists>s. str_int 0 = Inr s \<and> decimal_value s = 0
      \<and> calculate_hmac [] 0 = Inr (hex (hmac_construction sha3_256 136 [] (map of_char s)))
      \<and> length (hex (hmac_construction sha3_256 136 [] (map of_char s))) = 64"
  using calculate_hmac_commit [OF abs_zero_below_limit, of "[]"] by blast

section \<open>The source of the random bytes\<close>

text \<open>
  C4: \<open>generate_secure_random\<close> takes its bytes from the Mersenne Twister of module
  \<open>random\<close>: whatever the state of that generator, the call succeeds and moves the
  generator on by eight outputs; for the state whose outputs are all \<open>0x01020304\<close> the
  bytes returned are \<open>04 03 02 01\<close> eight times over, the outputs themselves, least
  significant byte first. No operating-system source is read and no failure for want
  of entropy exists.
\<close>

theorem generate_secure_random_mersenne_twister:
  "(\<exists>bs. generate_secure_random 256 g = Inr (bs, \<lambda>n. g (n + 8)))
   \<and> map_sum id fst (generate_secure_random 256 (\<lambda>n. 0x01020304))
       = Inr [4, 3, 2, 1, 4, 3, 2, 1, 4, 3, 2, 1, 4, 3, 2, 1,
              4, 3, 2, 1, 4, 3, 2, 1, 4, 3, 2, 1, 4, 3, 2, 1]"
proof
  show "\<exists>bs. generate_secure_random 256 g = Inr (bs, \<lambda>n. g (n + 8))"
    by (simp add: generate_secure_random_256)
  show "map_sum id fst (generate_secure_random 256 (\<lambda>n. 0x01020304))
       = Inr [4, 3, 2, 1, 4, 3, 2, 1, 4, 3, 2, 1, 4, 3, 2, 1,
              4, 3, 2, 1, 4, 3, 2, 1, 4, 3, 2, 1, 4, 3, 2, 1]"
    by code_simp
qed

section \<open>Checking a revealed commitment\<close>

text \<open>
  C6, as stated: no name defined by \<open>RandomGenerator\<close> or \<open>FairPlay\<close> is \<open>verify\<close>, and
  the one method named after verifying, \<open>verify_and_get_result\<close>, compares no digest: a
  round whose stored digest is not a digest at all is combined as any other.
\<close>

theorem no_verify_operation:
  "''verify'' \<notin> set (RandomGenerator_methods @ FairPlay_methods)
   \<and> verify_and_get_result
        \<lparr>range_max = 2, secret_key = [], computer_number = 1, hmac = ''not a digest''\<rparr> 0
       = Inr (1, [])"
  by (simp add: RandomGenerator_methods_def FairPlay_methods_def verify_and_get_result_def)

lemma FairPlay_init_Some:
  assumes "FairPlay_init rmax g = Some (Inr (fp, g'))"
  shows "\<exists>key g1 number digest. generate_secure_random 256 g = Inr (key, g1)
           \<and> generate_random_int rmax g1 = Some (Inr (number, g'))
           \<and> calculate_hmac key number = Inr digest
           \<and> fp = \<lparr>range_max = rmax, secret_key = key, computer_number = number,
                    hmac = digest\<rparr>"
  using assms
  by (auto simp: FairPlay_init_def split: sum.splits option.splits prod.splits)

text \<open>
  C6, amended: the check is a recomputation by the peer. For every round that the
  constructor returns, \<open>calculate_hmac\<close> of the key that \<open>verify_and_get_result\<close> reveals
  and of the round's \<open>computer_number\<close> is the digest published at construction.
\<close>

theorem revealed_commitment_recomputes:
  assumes "FairPlay_init rmax g = Some (Inr (fp, g'))"
    and "verify_and_get_result fp user_number = Inr (r, key)"
  shows "calculate_hmac key (computer_number fp) = Inr (hmac fp)"
proof -
  from assms(1) obtain k n d where fp: "fp = \<lparr>range_max = rmax, secret_key = k,
      computer_number = n, hmac = d\<rparr>" and d: "calculate_hmac k n = Inr d"
    using FairPlay_init_Some by blast
  from assms(2) have "key = secret_key fp"
    by (simp add: verify_and_get_result_def split: if_splits)
  then show ?thesis
    by (simp add: fp d)
qed

theorem revealed_commitment_recomputes_witness:
  "\<exists>fp g' key. FairPlay_init 2 (\<lambda>n. 0) = Some (Inr (fp, g'))
      \<and> verify_and_get_result fp 1 = Inr (1, key)
      \<and> computer_number fp = 0
      \<and> calculate_hmac key (computer_number fp) = Inr (hmac fp)"
proof -
  let ?g = "\<lambda>n::nat. 0 :: 32 word"
  obtain bs where bs: "generate_secure_random 256 ?g = Inr (bs, drawn ?g 1)"
    using generate_secure_random_256_length [of ?g] by auto
  have c1: "candidate ?g (Suc 0) = 0"
    by code_simp
  have "candidate (drawn ?g 1) 0 < (2 ^ 256 div 2) * 2"
    by (simp only: candidate_shift [symmetric] c1) simp
  then have "generate_random_int 2 (drawn ?g 1)
      = Some (Inr (candidate (drawn ?g 1) 0 mod 2, drawn (drawn ?g 1) (Suc 0)))"
    by (intro generate_random_int_accept) simp_all
  then have gri: "generate_random_int 2 (drawn ?g 1) = Some (Inr (0, drawn (drawn ?g 1) (Suc 0)))"
    by (simp only: candidate_shift [symmetric] c1) simp
  define fp where "fp = \<lparr>range_max = 2, secret_key = bs, computer_number = 0,
      hmac = hmac_hexdigest bs (encode ''0'')\<rparr>"
  have init: "FairPlay_init 2 ?g = Some (Inr (fp, drawn (drawn ?g 1) (Suc 0)))"
    by (simp add: FairPlay_init_def bs [unfolded One_nat_def] gri [unfolded One_nat_def]
        calculate_hmac_zero fp_def del: drawn.simps)
  have res: "verify_and_get_result fp 1 = Inr (1, bs)"
    by (simp add: verify_and_get_result_def fp_def)
  have "calculate_hmac bs (computer_number fp) = Inr (hmac fp)"
    using init res by (rule revealed_commitment_recomputes)
  moreover have "computer_number fp = 0"
    by (simp add: fp_def)
  ultimately show ?thesis
    using init res by blast
qed

section \<open>Contributions outside the range\<close>

lemma getrandbits_words_zero: "fst (getrandbits_words 8 256 (\<lambda>n. 0)) = 0"
  by code_simp

lemma generate_secure_random_zero:
  "generate_secure_random 256 (\<lambda>n. 0) = Inr (replicate 32 0, \<lambda>n. 0)"
proof -
  have "map (\<lambda>i. word_of_int (0 div 256 ^ i) :: 8 word) [0..<32] = replicate 32 0"
    by (simp add: map_replicate_const)
  then show ?thesis
    by (simp add: generate_secure_random_256 getrandbits_words_zero)
qed

lemma from_bytes_big_zero: "from_bytes_big (replicate n 0) = 0"
proof -
  have "fold (\<lambda>b acc. acc * 256 + uint b) (replicate n (0 :: 8 word)) (0 :: int) = 0"
    by (induction n) simp_all
  then show ?thesis
    by (simp add: from_bytes_big_def)
qed

lemma generate_random_int_zero:
  assumes "0 < R" and "R \<le> 2 ^ 256"
  shows "generate_random_int R (\<lambda>n. 0) = Some (Inr (0, \<lambda>n. 0))"
proof -
  have "0 < (2 ^ 256 :: int) div R"
    using assms by (simp only: pos_imp_zdiv_pos_iff)
  then have "1 \<le> (2 ^ 256 :: int) div R"
    by linarith
  then have "1 * R \<le> (2 ^ 256 div R) * R"
    using assms(1) by (intro mult_right_mono) simp_all
  then have lim: "0 < (2 ^ 256 div R) * R"
    using assms(1) by simp
  show ?thesis
    using assms(1) lim
    by (subst generate_random_int.simps)
       (simp add: generate_secure_random_zero from_bytes_big_zero)
qed

lemma FairPlay_init_zero:
  assumes "0 < R" and "R \<le> 2 ^ 256"
  shows "FairPlay_init R (\<lambda>n. 0)
     = Some (Inr (\<lparr>range_max = R, secret_key = replicate 32 0, computer_number = 0,
                   hmac = hmac_hexdigest (replicate 32 0) (encode ''0'')\<rparr>, \<lambda>n. 0))"
  by (simp add: FairPlay_init_def generate_secure_random_zero generate_random_int_zero [OF assms]
      calculate_hmac_zero)

text \<open>
  C7, as stated: \<open>verify_and_get_result\<close> rejects no contribution (5 is combined with
  modulus 2 like any other integer), and in \<open>start_game\<close> the contribution text \<open>2\<close>
  ends the process with exit status 1, although a valid line follows: nothing is
  prompted again.
\<close>

theorem contribution_not_rejected:
  "verify_and_get_result \<lparr>range_max = 2, secret_key = [], computer_number = 1, hmac = []\<rparr> 5
     = Inr (0, [])
   \<and> start_game_first_move (\<lambda>n. 0) [''2'', ''0''] = Some (Inl (SystemExit 1))"
proof
  show "verify_and_get_result \<lparr>range_max = 2, secret_key = [], computer_number = 1, hmac = []\<rparr> 5
     = Inr (0, [])"
    by (simp add: verify_and_get_result_def)
  have "FairPlay_init 2 (\<lambda>n. 0)
     = Some (Inr (\<lparr>range_max = 2, secret_key = replicate 32 0, computer_number = 0,
                   hmac = hmac_hexdigest (replicate 32 0) (encode ''0'')\<rparr>, \<lambda>n. 0))"
    by (rule FairPlay_init_zero) simp_all
  then show "start_game_first_move (\<lambda>n. 0) [''2'', ''0''] = Some (Inl (SystemExit 1))"
    by (simp add: start_game_first_move_def)
qed

lemma get_throw_prompt_skip:
  "\<forall>l\<in>set rejected. lower (strip l) \<notin> set [''x'', ''0'', ''1'', ''2'', ''3'', ''4'', ''5''] \<Longrightarrow>
   get_throw_prompt (rejected @ stdin) = get_throw_prompt stdin"
proof (induction rejected)
  case Nil
  show ?case by simp
next
  case (Cons l rejected)
  from Cons.prems have l: "lower (strip l) \<notin> set [''x'', ''0'', ''1'', ''2'', ''3'', ''4'', ''5'']"
    and rest: "\<forall>l\<in>set rejected. lower (strip l) \<notin> set [''x'', ''0'', ''1'', ''2'', ''3'', ''4'', ''5'']"
    by simp_all
  from l have "lower (strip l) \<noteq> ''x''"
    and "lower (strip l) \<notin> set [''0'', ''1'', ''2'', ''3'', ''4'', ''5'']"
    by auto
  then have "get_throw_prompt ((l # rejected) @ stdin) = get_throw_prompt (rejected @ stdin)"
    by (simp only: append_Cons get_throw_prompt.simps Let_def if_False if_cancel)
  with Cons.IH [OF rest] show ?case
    by simp
qed

lemma int_of_str_digits:
  "int_of_str ''0'' = Inr 0" "int_of_str ''1'' = Inr 1" "int_of_str ''2'' = Inr 2"
  "int_of_str ''3'' = Inr 3" "int_of_str ''4'' = Inr 4" "int_of_str ''5'' = Inr 5"
  by code_simp+

lemma int_of_str_digit:
  assumes "s \<in> set [''0'', ''1'', ''2'', ''3'', ''4'', ''5'']"
  shows "\<exists>n. int_of_str s = Inr n \<and> 0 \<le> n \<and> n < 6"
proof -
  from assms have "s = ''0'' \<or> s = ''1'' \<or> s = ''2'' \<or> s = ''3'' \<or> s = ''4'' \<or> s = ''5''"
    by simp
  then show ?thesis
    by (elim disjE) (simp_all only: int_of_str_digits, simp_all)
qed

text \<open>
  C7, amended: the contribution is validated as text by the caller, not by the round.
  In \<open>get_throw\<close> every line that, stripped and lowercased, is neither \<open>x\<close> nor one of
  \<open>0\<close> to \<open>5\<close> leaves the round as it is and the prompt is repeated: such lines change
  nothing in the outcome, and with the first accepted line the result is computed on the
  very round the constructor returned (same digest, key and committed value), the
  generator having been used for that one construction only. \<open>verify_and_get_result\<close>
  itself returns a result for every integer.
\<close>

theorem get_throw_round_reprompts:
  assumes "\<forall>l\<in>set rejected. lower (strip l) \<notin> set [''x'', ''0'', ''1'', ''2'', ''3'', ''4'', ''5'']"
  shows "get_throw_round g (rejected @ stdin) = get_throw_round g stdin
    \<and> (FairPlay_init 6 g = Some (Inr (fair_play, g'))
         \<longrightarrow> lower (strip line) \<in> set [''0'', ''1'', ''2'', ''3'', ''4'', ''5'']
         \<longrightarrow> (\<exists>user_number. int_of_str (lower (strip line)) = Inr user_number
                \<and> 0 \<le> user_number \<and> user_number < 6
                \<and> get_throw_round g (rejected @ line # stdin)
                    = Some (Inr ((user_number + computer_number fair_play) mod 6,
                                 fair_play, g', stdin))))
    \<and> (range_max self \<noteq> 0
         \<longrightarrow> (\<exists>r. verify_and_get_result self contribution = Inr (r, secret_key self)))"
proof (intro conjI impI)
  show "get_throw_round g (rejected @ stdin) = get_throw_round g stdin"
    by (simp only: get_throw_round_def get_throw_prompt_skip [OF assms])
next
  assume init: "FairPlay_init 6 g = Some (Inr (fair_play, g'))"
    and line: "lower (strip line) \<in> set [''0'', ''1'', ''2'', ''3'', ''4'', ''5'']"
  from line obtain n where n: "int_of_str (lower (strip line)) = Inr n" "0 \<le> n" "n < 6"
    using int_of_str_digit by blast
  from line have notx: "lower (strip line) \<noteq> ''x''" "lower (strip line) \<noteq> ''?''"
    by auto
  have "get_throw_prompt (rejected @ line # stdin) = get_throw_prompt (line # stdin)"
    by (rule get_throw_prompt_skip [OF assms])
  also have "\<dots> = Inr (lower (strip line), stdin)"
    using line notx by (simp only: get_throw_prompt.simps Let_def if_False if_True)
  finally have "get_throw_round g (rejected @ line # stdin)
      = Some (Inr ((n + computer_number fair_play) mod 6, fair_play, g', stdin))"
    by (simp add: get_throw_round_def init n(1))
  with n show "\<exists>user_number. int_of_str (lower (strip line)) = Inr user_number
      \<and> 0 \<le> user_number \<and> user_number < 6
      \<and> get_throw_round g (rejected @ line # stdin)
          = Some (Inr ((user_number + computer_number fair_play) mod 6, fair_play, g', stdin))"
    by blast
next
  assume "range_max self \<noteq> 0"
  then show "\<exists>r. verify_and_get_result self contribution = Inr (r, secret_key self)"
    by (simp add: verify_and_get_result_def)
qed

theorem get_throw_round_reprompts_witness:
  "get_throw_round (\<lambda>n. 0) [''7'', ''-1'', ''?'', '' 4 '', ''5'']
     = Some (Inr (4, \<lparr>range_max = 6, secret_key = replicate 32 0, computer_number = 0,
                       hmac = hmac_hexdigest (replicate 32 0) (encode ''0'')\<rparr>, \<lambda>n. 0, [''5'']))
   \<and> get_throw_round (\<lambda>n. 0) [''7'', ''-1'', ''?'', ''5'']
       = get_throw_round (\<lambda>n. 0) [''5'']"
proof -
  let ?fp = "\<lparr>range_max = 6, secret_key = replicate 32 0, computer_number = 0,
               hmac = hmac_hexdigest (replicate 32 0) (encode ''0'')\<rparr>"
  have s: "lower (strip ''7'') = ''7''" "lower (strip ''-1'') = ''-1''"
      "lower (strip ''?'') = ''?''" "lower (strip '' 4 '') = ''4''"
    by code_simp+
  have rejected: "\<forall>l\<in>set [''7'', ''-1'', ''?''].
      lower (strip l) \<notin> set [''x'', ''0'', ''1'', ''2'', ''3'', ''4'', ''5'']"
    by (simp add: s)
  have init: "FairPlay_init 6 (\<lambda>n. 0) = Some (Inr (?fp, \<lambda>n. 0))"
    by (rule FairPlay_init_zero) simp_all
  have line: "lower (strip '' 4 '') \<in> set [''0'', ''1'', ''2'', ''3'', ''4'', ''5'']"
    by (simp add: s)
  note reprompt = get_throw_round_reprompts [OF rejected,
      of "\<lambda>n. 0" _ ?fp "\<lambda>n. 0" "'' 4 ''" ?fp 0]
  from reprompt [of "[''5'']", THEN conjunct2, THEN conjunct1, rule_format, OF init line]
  obtain n where "int_of_str (lower (strip '' 4 '')) = Inr n"
    and r: "get_throw_round (\<lambda>n. 0) ([''7'', ''-1'', ''?''] @ '' 4 '' # [''5''])
      = Some (Inr ((n + computer_number ?fp) mod 6, ?fp, \<lambda>n. 0, [''5'']))"
    by blast
  then have "n = 4"
    by (simp add: s int_of_str_digits)
  with r have "get_throw_round (\<lambda>n. 0) [''7'', ''-1'', ''?'', '' 4 '', ''5'']
     = Some (Inr (4, ?fp, \<lambda>n. 0, [''5'']))"
    by simp
  moreover from reprompt [of "[''5'']", THEN conjunct1]
  have "get_throw_round (\<lambda>n. 0) [''7'', ''-1'', ''?'', ''5''] = get_throw_round (\<lambda>n. 0) [''5'']"
    by simp
  ultimately show ?thesis
    by (intro conjI)
qed

end
